theory Spec2Isabelle
  imports Main "HOL-Library.AList"
begin

section \<open>Go standard-library functions the code relies on\<close>

text \<open>
  Go strings are byte sequences; they are modelled as \<open>string\<close> (a list of 8-bit
  characters). A Go \<open>error\<close> is modelled by its message (the text \<open>Error()\<close> returns):
  the code never compares errors, it only tests them against \<open>nil\<close> and wraps them with
  \<open>fmt.Errorf\<close>. A possibly-nil \<open>error\<close> is a \<open>string option\<close>, a pair
  \<open>(value, error)\<close> is a sum with the message on the left. 64-bit integers are
  \<open>int\<close>: the code does no arithmetic on them, and \<open>ParseInt\<close> checks the range.
\<close>

type_synonym err = string

definition bind_err :: "err + 'a \<Rightarrow> ('a \<Rightarrow> err + 'b) \<Rightarrow> err + 'b" where
  "bind_err r f = (case r of Inl e \<Rightarrow> Inl e | Inr x \<Rightarrow> f x)"

text \<open>\<open>strings.ToLower\<close>, on the ASCII letters (no other character lowers to an ASCII letter
  of \<open>"true"\<close>, the only string the result is compared with).\<close>

definition lower_char :: "char \<Rightarrow> char" where
  "lower_char c =
     (case map_of (zip ''ABCDEFGHIJKLMNOPQRSTUVWXYZ'' ''abcdefghijklmnopqrstuvwxyz'') c of
        Some l \<Rightarrow> l
      | None \<Rightarrow> c)"

definition ToLower :: "string \<Rightarrow> string" where
  "ToLower s = map lower_char s"

datatype num_error = ErrSyntax | ErrRange

definition digit_val :: "char \<Rightarrow> nat option" where
  "digit_val c = (let n = (of_char c :: nat) in if 48 \<le> n \<and> n \<le> 57 then Some (n - 48) else None)"

text \<open>The digit loop of \<open>strconv.ParseUint(s, 10, 64)\<close>: the first character that is not a
  decimal digit is a syntax error, the first step past \<open>2^64 - 1\<close> a range error.\<close>

fun parse_digits :: "nat \<Rightarrow> string \<Rightarrow> num_error + nat" where
  "parse_digits n [] = Inr n"
| "parse_digits n (c # cs) =
     (case digit_val c of
        None \<Rightarrow> Inl ErrSyntax
      | Some d \<Rightarrow> if n * 10 + d > 2 ^ 64 - 1 then Inl ErrRange else parse_digits (n * 10 + d) cs)"

definition ParseUint :: "string \<Rightarrow> num_error + nat" where
  "ParseUint s = (if s = [] then Inl ErrSyntax else parse_digits 0 s)"

text \<open>\<open>strconv.ParseInt(s, 10, 64)\<close>: an optional sign, then \<open>ParseUint\<close>, then the
  signed range.\<close>

definition ParseInt :: "string \<Rightarrow> num_error + int" where
  "ParseInt s =
     (case s of
        [] \<Rightarrow> Inl ErrSyntax
      | c # cs \<Rightarrow>
          (let neg = (c = CHR ''-'');
               s1 = (if c = CHR ''+'' \<or> c = CHR ''-'' then cs else s)
           in case ParseUint s1 of
                Inl e \<Rightarrow> Inl e
              | Inr un \<Rightarrow>
                  if \<not> neg \<and> un \<ge> 2 ^ 63 then Inl ErrRange
                  else if neg \<and> un > 2 ^ 63 then Inl ErrRange
                  else Inr (if neg then - int un else int un)))"

definition ParseBool :: "string \<Rightarrow> num_error + bool" where
  "ParseBool s =
     (if s \<in> set [''1'', ''t'', ''T'', ''TRUE'', ''true'', ''True''] then Inr True
      else if s \<in> set [''0'', ''f'', ''F'', ''FALSE'', ''false'', ''False''] then Inr False
      else Inl ErrSyntax)"

text \<open>The verb \<open>%d\<close> of \<open>fmt\<close>.\<close>

fun show_nat :: "nat \<Rightarrow> string" where
  "show_nat n = (if n < 10 then [''0123456789'' ! n] else show_nat (n div 10) @ [''0123456789'' ! (n mod 10)])"

declare show_nat.simps [simp del]

definition show_int :: "int \<Rightarrow> string" where
  "show_int i = (if i < 0 then CHR ''-'' # show_nat (nat (- i)) else show_nat (nat i))"

text \<open>
  The verb \<open>%q\<close> (\<open>strconv.Quote\<close>). The string is read rune by rune
  (\<open>utf8.DecodeRuneInString\<close>): a byte that starts no valid UTF-8 encoding is \<open>RuneError\<close>
  of width one and is written as a \<open>\x\<close> escape of the byte. The quote and the backslash are
  escaped, a printable rune is written as it is, and any other rune as its escape. Whether a
  rune beyond Latin-1 is printable is decided by a table of the Go release
  (\<open>strconv.IsPrint\<close>), which is a parameter here, \<open>tbl\<close>, of everything that formats with
  \<open>%q\<close>.
\<close>

definition hex_digit :: "nat \<Rightarrow> char" where
  "hex_digit d = ''0123456789abcdef'' ! d"

text \<open>Two, four and eight lower-case hexadecimal digits.\<close>

definition hex2 :: "nat \<Rightarrow> string" where
  "hex2 n = [hex_digit (n div 16 mod 16), hex_digit (n mod 16)]"

definition hex4 :: "nat \<Rightarrow> string" where
  "hex4 n = hex2 (n div 256) @ hex2 (n mod 256)"

definition hex8 :: "nat \<Rightarrow> string" where
  "hex8 n = hex4 (n div 65536) @ hex4 (n mod 65536)"

definition byte_at :: "string \<Rightarrow> nat \<Rightarrow> nat" where
  "byte_at s i = (if i < length s then of_char (s ! i) else 0)"

definition byte_in :: "string \<Rightarrow> nat \<Rightarrow> nat \<Rightarrow> nat \<Rightarrow> bool" where
  "byte_in s i lo hi = (i < length s \<and> lo \<le> byte_at s i \<and> byte_at s i \<le> hi)"

definition RuneError :: nat where
  "RuneError = 65533"

definition DecodeRune :: "string \<Rightarrow> nat \<times> nat" where
  "DecodeRune s =
     (case s of
        [] \<Rightarrow> (RuneError, 0)
      | c # cs \<Rightarrow>
          (let b = (of_char c :: nat) in
           if b < 128 then (b, 1)
           else if 194 \<le> b \<and> b \<le> 223 then
             (if byte_in s 1 128 191
              then ((b mod 32) * 64 + byte_at s 1 mod 64, 2)
              else (RuneError, 1))
           else if 224 \<le> b \<and> b \<le> 239 then
             (if byte_in s 1 (if b = 224 then 160 else 128) (if b = 237 then 159 else 191)
                 \<and> byte_in s 2 128 191
              then ((b mod 16) * 4096 + (byte_at s 1 mod 64) * 64 + byte_at s 2 mod 64, 3)
              else (RuneError, 1))
           else if 240 \<le> b \<and> b \<le> 244 then
             (if byte_in s 1 (if b = 240 then 144 else 128) (if b = 244 then 143 else 191)
                 \<and> byte_in s 2 128 191 \<and> byte_in s 3 128 191
              then ((b mod 8) * 262144 + (byte_at s 1 mod 64) * 4096 + (byte_at s 2 mod 64) * 64
                    + byte_at s 3 mod 64, 4)
              else (RuneError, 1))
           else (RuneError, 1)))"

text \<open>\<open>strconv.IsPrint\<close>: decided in the code for Latin-1, by the table beyond it.\<close>

definition IsPrint :: "(nat \<Rightarrow> bool) \<Rightarrow> nat \<Rightarrow> bool" where
  "IsPrint tbl r =
     (if r \<le> 255 then (32 \<le> r \<and> r \<le> 126) \<or> (161 \<le> r \<and> r \<noteq> 173) else tbl r)"

text \<open>\<open>appendEscapedRune\<close>, for the rune \<open>r\<close> whose UTF-8 encoding is \<open>bytes\<close>.\<close>

definition quote_rune :: "(nat \<Rightarrow> bool) \<Rightarrow> nat \<Rightarrow> string \<Rightarrow> string" where
  "quote_rune tbl r bytes =
     (if r = 34 then [CHR 0x5C, CHR 0x22]
      else if r = 92 then [CHR 0x5C, CHR 0x5C]
      else if IsPrint tbl r then bytes
      else if r = 7 then [CHR 0x5C, CHR ''a'']
      else if r = 8 then [CHR 0x5C, CHR ''b'']
      else if r = 12 then [CHR 0x5C, CHR ''f'']
      else if r = 10 then [CHR 0x5C, CHR ''n'']
      else if r = 13 then [CHR 0x5C, CHR ''r'']
      else if r = 9 then [CHR 0x5C, CHR ''t'']
      else if r = 11 then [CHR 0x5C, CHR ''v'']
      else if r < 32 \<or> r = 127 then [CHR 0x5C, CHR ''x''] @ hex2 r
      else (let r = (if r > 1114111 \<or> (55296 \<le> r \<and> r \<le> 57343) then RuneError else r)
            in if r < 65536 then [CHR 0x5C, CHR ''u''] @ hex4 r
               else [CHR 0x5C, CHR ''U''] @ hex8 r))"

text \<open>The loop of \<open>appendQuotedWith\<close>; \<open>skip\<close> counts the bytes left of the rune just written.\<close>

fun quote_loop :: "(nat \<Rightarrow> bool) \<Rightarrow> nat \<Rightarrow> string \<Rightarrow> string" where
  "quote_loop tbl skip [] = []"
| "quote_loop tbl skip (c # cs) =
     (if skip > 0 then quote_loop tbl (skip - 1) cs
      else (let (r, width) = DecodeRune (c # cs)
            in (if width = 1 \<and> r = RuneError
                then [CHR 0x5C, CHR ''x''] @ hex2 (of_char c :: nat)
                else quote_rune tbl r (take width (c # cs)))
               @ quote_loop tbl (width - 1) cs))"

definition Quote :: "(nat \<Rightarrow> bool) \<Rightarrow> string \<Rightarrow> string" where
  "Quote tbl s = CHR 0x22 # quote_loop tbl 0 s @ [CHR 0x22]"

text \<open>\<open>(*strconv.NumError).Error()\<close>.\<close>

definition num_error_text :: "num_error \<Rightarrow> string" where
  "num_error_text e = (case e of ErrSyntax \<Rightarrow> ''invalid syntax'' | ErrRange \<Rightarrow> ''value out of range'')"

definition NumError :: "(nat \<Rightarrow> bool) \<Rightarrow> string \<Rightarrow> string \<Rightarrow> num_error \<Rightarrow> err" where
  "NumError tbl fn num e = ''strconv.'' @ fn @ '': parsing '' @ Quote tbl num @ '': '' @ num_error_text e"

text \<open>The verb \<open>%v\<close> on a \<open>[]string\<close>.\<close>

fun join_space :: "string list \<Rightarrow> string" where
  "join_space [] = []"
| "join_space [x] = x"
| "join_space (x # y # ys) = x @ '' '' @ join_space (y # ys)"

definition show_strings :: "string list \<Rightarrow> string" where
  "show_strings xs = ''['' @ join_space xs @ '']''"

text \<open>\<open>strings.Contains\<close>.\<close>

definition Contains :: "string \<Rightarrow> string \<Rightarrow> bool" where
  "Contains s sub = (\<exists>i \<in> set [0 ..< Suc (length s)]. take (length sub) (drop i s) = sub)"

section \<open>Package annotations\<close>

subsection \<open>Constants\<close>

definition AnnotationPrefix :: string where
  "AnnotationPrefix = ''webhook/traffic-manager-''"

definition AnnotationEnabled :: string where
  "AnnotationEnabled = AnnotationPrefix @ ''enabled''"

definition AnnotationProfileName :: string where
  "AnnotationProfileName = AnnotationPrefix @ ''profile-name''"

definition AnnotationResourceGroup :: string where
  "AnnotationResourceGroup = AnnotationPrefix @ ''resource-group''"

definition AnnotationHostname :: string where
  "AnnotationHostname = AnnotationPrefix @ ''hostname''"

definition AnnotationRoutingMethod :: string where
  "AnnotationRoutingMethod = AnnotationPrefix @ ''routing-method''"

definition AnnotationWeight :: string where
  "AnnotationWeight = AnnotationPrefix @ ''weight''"

definition AnnotationPriority :: string where
  "AnnotationPriority = AnnotationPrefix @ ''priority''"

definition AnnotationEndpointName :: string where
  "AnnotationEndpointName = AnnotationPrefix @ ''endpoint-name''"

definition AnnotationEndpointLocation :: string where
  "AnnotationEndpointLocation = AnnotationPrefix @ ''endpoint-location''"

definition AnnotationEndpointStatus :: string where
  "AnnotationEndpointStatus = AnnotationPrefix @ ''endpoint-status''"

definition AnnotationDNSTTL :: string where
  "AnnotationDNSTTL = AnnotationPrefix @ ''dns-ttl''"

definition AnnotationMonitorProtocol :: string where
  "AnnotationMonitorProtocol = AnnotationPrefix @ ''monitor-protocol''"

definition AnnotationMonitorPort :: string where
  "AnnotationMonitorPort = AnnotationPrefix @ ''monitor-port''"

definition AnnotationMonitorPath :: string where
  "AnnotationMonitorPath = AnnotationPrefix @ ''monitor-path''"

definition AnnotationHealthChecksEnabled :: string where
  "AnnotationHealthChecksEnabled = AnnotationPrefix @ ''health-checks-enabled''"

definition DefaultRoutingMethod :: string where "DefaultRoutingMethod = ''Weighted''"
definition DefaultWeight :: int where "DefaultWeight = 100"
definition DefaultPriority :: int where "DefaultPriority = 1"
definition DefaultDNSTTL :: int where "DefaultDNSTTL = 30"
definition DefaultMonitorProtocol :: string where "DefaultMonitorProtocol = ''HTTPS''"
definition DefaultMonitorPort :: int where "DefaultMonitorPort = 443"
definition DefaultMonitorPath :: string where "DefaultMonitorPath = ''/''"
definition DefaultEndpointStatus :: string where "DefaultEndpointStatus = ''Enabled''"
definition DefaultEndpointType :: string where "DefaultEndpointType = ''ExternalEndpoints''"

subsection \<open>TrafficManagerConfig and ParseConfig\<close>

record TrafficManagerConfig =
  c_Enabled :: bool
  c_ProfileName :: string
  c_ResourceGroup :: string
  c_Hostname :: string
  c_RoutingMethod :: string
  c_Weight :: int
  c_Priority :: int
  c_EndpointName :: string
  c_EndpointLocation :: string
  c_EndpointStatus :: string
  c_EndpointType :: string
  c_DNSTTL :: int
  c_MonitorProtocol :: string
  c_MonitorPort :: int
  c_MonitorPath :: string
  c_HealthChecksEnabled :: bool

type_synonym labels = "string \<rightharpoonup> string"

text \<open>The struct literal at the head of \<open>ParseConfig\<close>: the defaults, every other field at
  its zero value.\<close>

definition default_config :: TrafficManagerConfig where
  "default_config =
     \<lparr> c_Enabled = False, c_ProfileName = [], c_ResourceGroup = [], c_Hostname = [],
       c_RoutingMethod = DefaultRoutingMethod, c_Weight = DefaultWeight,
       c_Priority = DefaultPriority, c_EndpointName = [], c_EndpointLocation = [],
       c_EndpointStatus = DefaultEndpointStatus, c_EndpointType = DefaultEndpointType,
       c_DNSTTL = DefaultDNSTTL, c_MonitorProtocol = DefaultMonitorProtocol,
       c_MonitorPort = DefaultMonitorPort, c_MonitorPath = DefaultMonitorPath,
       c_HealthChecksEnabled = False \<rparr>"

text \<open>\<open>if v, ok := labels[k]; ok && v != ""\<close>.\<close>

definition present :: "labels \<Rightarrow> string \<Rightarrow> string option" where
  "present ls k = (case ls k of Some v \<Rightarrow> if v \<noteq> [] then Some v else None | None \<Rightarrow> None)"

text \<open>An optional string field: overridden when the annotation is present and not empty.\<close>

definition parse_string ::
  "labels \<Rightarrow> string \<Rightarrow> (string \<Rightarrow> TrafficManagerConfig \<Rightarrow> TrafficManagerConfig) \<Rightarrow>
   TrafficManagerConfig \<Rightarrow> TrafficManagerConfig" where
  "parse_string ls k upd config = (case present ls k of Some v \<Rightarrow> upd v config | None \<Rightarrow> config)"

text \<open>An optional integer field: \<open>strconv.ParseInt\<close>, whose failure is the error
  \<open>invalid <what> value %q: %w\<close>.\<close>

definition parse_int ::
  "(nat \<Rightarrow> bool) \<Rightarrow> labels \<Rightarrow> string \<Rightarrow> string \<Rightarrow> (int \<Rightarrow> TrafficManagerConfig \<Rightarrow> TrafficManagerConfig) \<Rightarrow>
   TrafficManagerConfig \<Rightarrow> err + TrafficManagerConfig" where
  "parse_int tbl ls k what upd config =
     (case present ls k of
        None \<Rightarrow> Inr config
      | Some v \<Rightarrow>
          (case ParseInt v of
             Inl e \<Rightarrow> Inl (''invalid '' @ what @ '' value '' @ Quote tbl v @ '': '' @ NumError tbl ''ParseInt'' v e)
           | Inr n \<Rightarrow> Inr (upd n config)))"

definition parse_health_checks ::
  "(nat \<Rightarrow> bool) \<Rightarrow> labels \<Rightarrow> TrafficManagerConfig \<Rightarrow> err + TrafficManagerConfig" where
  "parse_health_checks tbl ls config =
     (case present ls AnnotationHealthChecksEnabled of
        None \<Rightarrow> Inr config
      | Some v \<Rightarrow>
          (case ParseBool v of
             Inl e \<Rightarrow> Inl (''invalid health checks enabled value '' @ Quote tbl v @ '': '' @ NumError tbl ''ParseBool'' v e)
           | Inr b \<Rightarrow> Inr (config\<lparr>c_HealthChecksEnabled := b\<rparr>)))"

definition ParseConfig :: "(nat \<Rightarrow> bool) \<Rightarrow> labels \<Rightarrow> err + TrafficManagerConfig" where
  "ParseConfig tbl ls =
     (let config = default_config;
          config = (case ls AnnotationEnabled of
                      Some enabled \<Rightarrow> config\<lparr>c_Enabled := (ToLower enabled = ''true'')\<rparr>
                    | None \<Rightarrow> config)
      in if \<not> c_Enabled config then Inr config
         else
           let config = config\<lparr>c_ResourceGroup := (case ls AnnotationResourceGroup of Some v \<Rightarrow> v | None \<Rightarrow> [])\<rparr>
           in if c_ResourceGroup config = []
              then Inl (''annotation '' @ AnnotationResourceGroup @ '' is required when Traffic Manager is enabled'')
              else
                let config = parse_string ls AnnotationProfileName (\<lambda>v c. c\<lparr>c_ProfileName := v\<rparr>) config;
                    config = parse_string ls AnnotationHostname (\<lambda>v c. c\<lparr>c_Hostname := v\<rparr>) config;
                    config = parse_string ls AnnotationRoutingMethod (\<lambda>v c. c\<lparr>c_RoutingMethod := v\<rparr>) config
                in bind_err (parse_int tbl ls AnnotationWeight ''weight'' (\<lambda>n c. c\<lparr>c_Weight := n\<rparr>) config) (\<lambda>config.
                   bind_err (parse_int tbl ls AnnotationPriority ''priority'' (\<lambda>n c. c\<lparr>c_Priority := n\<rparr>) config) (\<lambda>config.
                   let config = parse_string ls AnnotationEndpointName (\<lambda>v c. c\<lparr>c_EndpointName := v\<rparr>) config;
                       config = parse_string ls AnnotationEndpointLocation (\<lambda>v c. c\<lparr>c_EndpointLocation := v\<rparr>) config;
                       config = parse_string ls AnnotationEndpointStatus (\<lambda>v c. c\<lparr>c_EndpointStatus := v\<rparr>) config
                   in bind_err (parse_int tbl ls AnnotationDNSTTL ''DNS TTL'' (\<lambda>n c. c\<lparr>c_DNSTTL := n\<rparr>) config) (\<lambda>config.
                      let config = parse_string ls AnnotationMonitorProtocol (\<lambda>v c. c\<lparr>c_MonitorProtocol := v\<rparr>) config
                      in bind_err (parse_int tbl ls AnnotationMonitorPort ''monitor port'' (\<lambda>n c. c\<lparr>c_MonitorPort := n\<rparr>) config) (\<lambda>config.
                         let config = parse_string ls AnnotationMonitorPath (\<lambda>v c. c\<lparr>c_MonitorPath := v\<rparr>) config
                         in parse_health_checks tbl ls config)))))"

subsection \<open>ValidateConfig\<close>

fun contains :: "string list \<Rightarrow> string \<Rightarrow> bool" where
  "contains [] item = False"
| "contains (s # slice) item = (if s = item then True else contains slice item)"

definition validRoutingMethods :: "string list" where
  "validRoutingMethods = [''Weighted'', ''Priority'', ''Performance'', ''Geographic'']"

definition validProtocols :: "string list" where
  "validProtocols = [''HTTP'', ''HTTPS'', ''TCP'']"

definition validStatuses :: "string list" where
  "validStatuses = [''Enabled'', ''Disabled'']"

definition ValidateConfig :: "(nat \<Rightarrow> bool) \<Rightarrow> TrafficManagerConfig \<Rightarrow> err option" where
  "ValidateConfig tbl config =
     (if \<not> c_Enabled config then None
      else if c_ResourceGroup config = [] then Some ''resource group is required''
      else if c_Weight config < 1 \<or> c_Weight config > 1000
        then Some (''weight must be between 1 and 1000, got '' @ show_int (c_Weight config))
      else if c_Priority config < 1 \<or> c_Priority config > 1000
        then Some (''priority must be between 1 and 1000, got '' @ show_int (c_Priority config))
      else if \<not> contains validRoutingMethods (c_RoutingMethod config)
        then Some (''invalid routing method '' @ Quote tbl (c_RoutingMethod config) @ '', must be one of: ''
                   @ show_strings validRoutingMethods)
      else if \<not> contains validProtocols (c_MonitorProtocol config)
        then Some (''invalid monitor protocol '' @ Quote tbl (c_MonitorProtocol config) @ '', must be one of: ''
                   @ show_strings validProtocols)
      else if \<not> contains validStatuses (c_EndpointStatus config)
        then Some (''invalid endpoint status '' @ Quote tbl (c_EndpointStatus config) @ '', must be one of: ''
                   @ show_strings validStatuses)
      else if c_DNSTTL config < 30
        then Some (''DNS TTL must be at least 30 seconds, got '' @ show_int (c_DNSTTL config))
      else if c_MonitorPort config < 1 \<or> c_MonitorPort config > 65535
        then Some (''monitor port must be between 1 and 65535, got '' @ show_int (c_MonitorPort config))
      else if c_EndpointType config = ''ExternalEndpoints'' \<and> c_EndpointLocation config = []
        then Some ''endpoint location is required for ExternalEndpoints''
      else None)"

section \<open>Package state\<close>

subsection \<open>Time\<close>

text \<open>
  A \<open>time.Time\<close> is the number of nanoseconds since the zero time, so that
  \<open>IsZero\<close> is equality with 0; a \<open>time.Duration\<close> is a 64-bit count of nanoseconds.
  \<open>t.Sub(u)\<close> saturates at the largest and smallest duration. The clock is read by the
  caller and passed in (\<open>now\<close>).
\<close>

type_synonym time = int
type_synonym duration = int

definition maxDuration :: duration where "maxDuration = 2 ^ 63 - 1"
definition minDuration :: duration where "minDuration = - (2 ^ 63)"

definition Sub :: "time \<Rightarrow> time \<Rightarrow> duration" where
  "Sub t u = (let d = t - u in if d > maxDuration then maxDuration else if d < minDuration then minDuration else d)"

text \<open>\<open>time.Since(t)\<close> is \<open>time.Now().Sub(t)\<close>.\<close>

definition Since :: "time \<Rightarrow> time \<Rightarrow> duration" where
  "Since now t = Sub now t"

subsection \<open>The heap\<close>

text \<open>
  The manager hands out and stores pointers, and its contract is about which objects are
  shared, so the structs and maps of the package live in an explicit heap. A pointer is an
  address; \<open>nil\<close> and any address that holds no object of the expected kind behave
  alike: dereferencing them panics, which the model returns as \<open>None\<close>. A Go map is a
  reference to an association list with distinct keys; a \<open>nil\<close> map is the reference
  \<open>None\<close> (reading it finds nothing, ranging over it does nothing).
\<close>

type_synonym addr = nat

record EndpointState =
  es_EndpointName :: string
  es_EndpointType :: string
  es_Target :: string
  es_Weight :: int
  es_Priority :: int
  es_Status :: string
  es_Location :: string
  es_CreatedAt :: time
  es_UpdatedAt :: time

record ProfileState =
  ps_ProfileName :: string
  ps_ResourceGroup :: string
  ps_Hostname :: string
  ps_FQDN :: string
  ps_RoutingMethod :: string
  ps_DNSTTL :: int
  ps_Endpoints :: "addr option"
  ps_Tags :: "addr option"
  ps_CreatedAt :: time
  ps_UpdatedAt :: time
  ps_CachedAt :: time

record heap =
  profiles_at :: "addr \<rightharpoonup> ProfileState"
  endpoints_at :: "addr \<rightharpoonup> EndpointState"
  emaps_at :: "addr \<rightharpoonup> (string \<times> addr) list"
  tmaps_at :: "addr \<rightharpoonup> (string \<times> string) list"
  next_addr :: addr

definition empty_heap :: heap where
  "empty_heap = \<lparr> profiles_at = Map.empty, endpoints_at = Map.empty, emaps_at = Map.empty,
                  tmaps_at = Map.empty, next_addr = 1 \<rparr>"

text \<open>Allocation: the next unused address.\<close>

definition new_endpoint :: "heap \<Rightarrow> EndpointState \<Rightarrow> addr \<times> heap" where
  "new_endpoint H es =
     (next_addr H, H\<lparr>endpoints_at := (endpoints_at H)(next_addr H \<mapsto> es), next_addr := Suc (next_addr H)\<rparr>)"

definition new_profile :: "heap \<Rightarrow> ProfileState \<Rightarrow> addr \<times> heap" where
  "new_profile H ps =
     (next_addr H, H\<lparr>profiles_at := (profiles_at H)(next_addr H \<mapsto> ps), next_addr := Suc (next_addr H)\<rparr>)"

text \<open>\<open>make(map[string]*EndpointState)\<close> and \<open>make(map[string]string)\<close>.\<close>

definition make_emap :: "heap \<Rightarrow> addr \<times> heap" where
  "make_emap H =
     (next_addr H, H\<lparr>emaps_at := (emaps_at H)(next_addr H \<mapsto> []), next_addr := Suc (next_addr H)\<rparr>)"

definition make_tmap :: "heap \<Rightarrow> addr \<times> heap" where
  "make_tmap H =
     (next_addr H, H\<lparr>tmaps_at := (tmaps_at H)(next_addr H \<mapsto> []), next_addr := Suc (next_addr H)\<rparr>)"

text \<open>\<open>m[k] = v\<close>: a panic on a \<open>nil\<close> map.\<close>

definition emap_store :: "heap \<Rightarrow> addr option \<Rightarrow> string \<Rightarrow> addr \<Rightarrow> heap option" where
  "emap_store H r k v =
     (case r of
        None \<Rightarrow> None
      | Some m \<Rightarrow> (case emaps_at H m of
                     None \<Rightarrow> None
                   | Some kvs \<Rightarrow> Some (H\<lparr>emaps_at := (emaps_at H)(m \<mapsto> AList.update k v kvs)\<rparr>)))"

definition tmap_store :: "heap \<Rightarrow> addr option \<Rightarrow> string \<Rightarrow> string \<Rightarrow> heap option" where
  "tmap_store H r k v =
     (case r of
        None \<Rightarrow> None
      | Some m \<Rightarrow> (case tmaps_at H m of
                     None \<Rightarrow> None
                   | Some kvs \<Rightarrow> Some (H\<lparr>tmaps_at := (tmaps_at H)(m \<mapsto> AList.update k v kvs)\<rparr>)))"

text \<open>The entries a \<open>range\<close> loop visits.\<close>

definition emap_entries :: "heap \<Rightarrow> addr option \<Rightarrow> (string \<times> addr) list option" where
  "emap_entries H r = (case r of None \<Rightarrow> Some [] | Some m \<Rightarrow> emaps_at H m)"

definition tmap_entries :: "heap \<Rightarrow> addr option \<Rightarrow> (string \<times> string) list option" where
  "tmap_entries H r = (case r of None \<Rightarrow> Some [] | Some m \<Rightarrow> tmaps_at H m)"

subsection \<open>Clone and IsExpired\<close>

definition EndpointState_Clone :: "heap \<Rightarrow> addr \<Rightarrow> (addr \<times> heap) option" where
  "EndpointState_Clone H a =
     (case endpoints_at H a of
        None \<Rightarrow> None
      | Some es \<Rightarrow>
          Some (new_endpoint H
            \<lparr> es_EndpointName = es_EndpointName es, es_EndpointType = es_EndpointType es,
              es_Target = es_Target es, es_Weight = es_Weight es, es_Priority = es_Priority es,
              es_Status = es_Status es, es_Location = es_Location es,
              es_CreatedAt = es_CreatedAt es, es_UpdatedAt = es_UpdatedAt es \<rparr>))"

text \<open>\<open>for k, v := range ps.Endpoints { clone.Endpoints[k] = v.Clone() }\<close>\<close>

fun clone_endpoints :: "heap \<Rightarrow> addr option \<Rightarrow> (string \<times> addr) list \<Rightarrow> heap option" where
  "clone_endpoints H r [] = Some H"
| "clone_endpoints H r ((k, v) # kvs) =
     (case EndpointState_Clone H v of
        None \<Rightarrow> None
      | Some (b, H1) \<Rightarrow>
          (case emap_store H1 r k b of
             None \<Rightarrow> None
           | Some H2 \<Rightarrow> clone_endpoints H2 r kvs))"

text \<open>\<open>for k, v := range ps.Tags { clone.Tags[k] = v }\<close>\<close>

fun clone_tags :: "heap \<Rightarrow> addr option \<Rightarrow> (string \<times> string) list \<Rightarrow> heap option" where
  "clone_tags H r [] = Some H"
| "clone_tags H r ((k, v) # kvs) =
     (case tmap_store H r k v of
        None \<Rightarrow> None
      | Some H1 \<Rightarrow> clone_tags H1 r kvs)"

definition ProfileState_Clone :: "heap \<Rightarrow> addr \<Rightarrow> (addr \<times> heap) option" where
  "ProfileState_Clone H p =
     (case profiles_at H p of
        None \<Rightarrow> None
      | Some ps \<Rightarrow>
          (let (em, H1) = make_emap H;
               (tm, H2) = make_tmap H1;
               (clone, H3) = new_profile H2
                 \<lparr> ps_ProfileName = ps_ProfileName ps, ps_ResourceGroup = ps_ResourceGroup ps,
                   ps_Hostname = ps_Hostname ps, ps_FQDN = ps_FQDN ps,
                   ps_RoutingMethod = ps_RoutingMethod ps, ps_DNSTTL = ps_DNSTTL ps,
                   ps_Endpoints = Some em, ps_Tags = Some tm,
                   ps_CreatedAt = ps_CreatedAt ps, ps_UpdatedAt = ps_UpdatedAt ps,
                   ps_CachedAt = ps_CachedAt ps \<rparr>
           in case emap_entries H3 (ps_Endpoints ps) of
                None \<Rightarrow> None
              | Some es \<Rightarrow>
                  (case clone_endpoints H3 (Some em) es of
                     None \<Rightarrow> None
                   | Some H4 \<Rightarrow>
                       (case tmap_entries H4 (ps_Tags ps) of
                          None \<Rightarrow> None
                        | Some ts \<Rightarrow>
                            (case clone_tags H4 (Some tm) ts of
                               None \<Rightarrow> None
                             | Some H5 \<Rightarrow> Some (clone, H5))))))"

definition IsExpired :: "ProfileState \<Rightarrow> duration \<Rightarrow> time \<Rightarrow> bool" where
  "IsExpired ps ttl now = (if ps_CachedAt ps = 0 then True else Since now (ps_CachedAt ps) > ttl)"

subsection \<open>Manager\<close>

text \<open>
  The manager's map from hostname to \<open>*ProfileState\<close> and its TTL. Every method takes
  the manager and the heap and returns both, with its results; \<open>None\<close> is a panic. The
  mutex and the logger are left out.
\<close>

record Manager =
  m_profiles :: "string \<rightharpoonup> addr"
  m_cacheTTL :: duration

definition NewManager :: "duration \<Rightarrow> Manager" where
  "NewManager cacheTTL = \<lparr> m_profiles = Map.empty, m_cacheTTL = cacheTTL \<rparr>"

definition GetProfile ::
  "time \<Rightarrow> Manager \<Rightarrow> heap \<Rightarrow> string \<Rightarrow> (addr option \<times> Manager \<times> heap) option" where
  "GetProfile now M H hostname =
     (case m_profiles M hostname of
        None \<Rightarrow> Some (None, M, H)
      | Some profile \<Rightarrow>
          (case profiles_at H profile of
             None \<Rightarrow> None
           | Some ps \<Rightarrow>
               if IsExpired ps (m_cacheTTL M) now then Some (None, M, H)
               else (case ProfileState_Clone H profile of
                       None \<Rightarrow> None
                     | Some (c, H1) \<Rightarrow> Some (Some c, M, H1))))"

definition SetProfile ::
  "time \<Rightarrow> Manager \<Rightarrow> heap \<Rightarrow> string \<Rightarrow> addr \<Rightarrow> (Manager \<times> heap) option" where
  "SetProfile now M H hostname profile =
     (case profiles_at H profile of
        None \<Rightarrow> None
      | Some ps \<Rightarrow>
          (let H1 = H\<lparr>profiles_at := (profiles_at H)(profile \<mapsto> ps\<lparr>ps_CachedAt := now\<rparr>)\<rparr>
           in case ProfileState_Clone H1 profile of
                None \<Rightarrow> None
              | Some (c, H2) \<Rightarrow> Some (M\<lparr>m_profiles := (m_profiles M)(hostname \<mapsto> c)\<rparr>, H2)))"

definition DeleteProfile :: "Manager \<Rightarrow> heap \<Rightarrow> string \<Rightarrow> (Manager \<times> heap) option" where
  "DeleteProfile M H hostname = Some (M\<lparr>m_profiles := (m_profiles M)(hostname := None)\<rparr>, H)"

definition Clear :: "Manager \<Rightarrow> heap \<Rightarrow> (Manager \<times> heap) option" where
  "Clear M H = Some (M\<lparr>m_profiles := Map.empty\<rparr>, H)"

definition GetEndpoint ::
  "time \<Rightarrow> Manager \<Rightarrow> heap \<Rightarrow> string \<Rightarrow> string \<Rightarrow> (addr option \<times> Manager \<times> heap) option" where
  "GetEndpoint now M H hostname endpointName =
     (case GetProfile now M H hostname of
        None \<Rightarrow> None
      | Some (None, M1, H1) \<Rightarrow> Some (None, M1, H1)
      | Some (Some profile, M1, H1) \<Rightarrow>
          (case profiles_at H1 profile of
             None \<Rightarrow> None
           | Some ps \<Rightarrow>
               (case emap_entries H1 (ps_Endpoints ps) of
                  None \<Rightarrow> None
                | Some kvs \<Rightarrow>
                    (case map_of kvs endpointName of
                       None \<Rightarrow> Some (None, M1, H1)
                     | Some endpoint \<Rightarrow>
                         (case EndpointState_Clone H1 endpoint of
                            None \<Rightarrow> None
                          | Some (c, H2) \<Rightarrow> Some (Some c, M1, H2))))))"

text \<open>\<open>SetEndpoint\<close> reads the clock twice, for \<open>UpdatedAt\<close> and for \<open>CachedAt\<close>.\<close>

definition SetEndpoint ::
  "time \<Rightarrow> time \<Rightarrow> Manager \<Rightarrow> heap \<Rightarrow> string \<Rightarrow> string \<Rightarrow> addr \<Rightarrow> (Manager \<times> heap) option" where
  "SetEndpoint now1 now2 M H hostname endpointName endpoint =
     (case m_profiles M hostname of
        None \<Rightarrow> Some (M, H)
      | Some profile \<Rightarrow>
          (case profiles_at H profile of
             None \<Rightarrow> None
           | Some ps \<Rightarrow>
               (let (ps1, H1) =
                      (if ps_Endpoints ps = None
                       then (let (em, H0) = make_emap H;
                                 ps0 = ps\<lparr>ps_Endpoints := Some em\<rparr>
                             in (ps0, H0\<lparr>profiles_at := (profiles_at H0)(profile \<mapsto> ps0)\<rparr>))
                       else (ps, H))
                in case EndpointState_Clone H1 endpoint of
                     None \<Rightarrow> None
                   | Some (c, H2) \<Rightarrow>
                       (case emap_store H2 (ps_Endpoints ps1) endpointName c of
                          None \<Rightarrow> None
                        | Some H3 \<Rightarrow>
                            Some (M, H3\<lparr>profiles_at := (profiles_at H3)
                                     (profile \<mapsto> ps1\<lparr>ps_UpdatedAt := now1, ps_CachedAt := now2\<rparr>)\<rparr>)))))"

text \<open>\<open>delete(m, k)\<close> does nothing on a \<open>nil\<close> map.\<close>

definition emap_delete :: "heap \<Rightarrow> addr option \<Rightarrow> string \<Rightarrow> heap option" where
  "emap_delete H r k =
     (case r of
        None \<Rightarrow> Some H
      | Some m \<Rightarrow> (case emaps_at H m of
                     None \<Rightarrow> None
                   | Some kvs \<Rightarrow> Some (H\<lparr>emaps_at := (emaps_at H)(m \<mapsto> AList.delete k kvs)\<rparr>)))"

definition DeleteEndpoint ::
  "time \<Rightarrow> time \<Rightarrow> Manager \<Rightarrow> heap \<Rightarrow> string \<Rightarrow> string \<Rightarrow> (Manager \<times> heap) option" where
  "DeleteEndpoint now1 now2 M H hostname endpointName =
     (case m_profiles M hostname of
        None \<Rightarrow> Some (M, H)
      | Some profile \<Rightarrow>
          (case profiles_at H profile of
             None \<Rightarrow> None
           | Some ps \<Rightarrow>
               (case emap_delete H (ps_Endpoints ps) endpointName of
                  None \<Rightarrow> None
                | Some H1 \<Rightarrow>
                    Some (M, H1\<lparr>profiles_at := (profiles_at H1)
                             (profile \<mapsto> ps\<lparr>ps_UpdatedAt := now1, ps_CachedAt := now2\<rparr>)\<rparr>))))"

subsection \<open>Reading the heap\<close>

text \<open>
  What a caller sees through a \<open>*ProfileState\<close>: the struct's fields with the contents
  of the two maps, the endpoints by value.
\<close>

record ProfileValue =
  v_ProfileName :: string
  v_ResourceGroup :: string
  v_Hostname :: string
  v_FQDN :: string
  v_RoutingMethod :: string
  v_DNSTTL :: int
  v_Endpoints :: "(string \<times> EndpointState) list"
  v_Tags :: "(string \<times> string) list"
  v_CreatedAt :: time
  v_UpdatedAt :: time
  v_CachedAt :: time

fun read_entries :: "heap \<Rightarrow> (string \<times> addr) list \<Rightarrow> (string \<times> EndpointState) list option" where
  "read_entries H [] = Some []"
| "read_entries H ((k, a) # kvs) =
     (case endpoints_at H a of
        None \<Rightarrow> None
      | Some es \<Rightarrow> (case read_entries H kvs of None \<Rightarrow> None | Some rest \<Rightarrow> Some ((k, es) # rest)))"

definition profile_value :: "heap \<Rightarrow> addr \<Rightarrow> ProfileValue option" where
  "profile_value H p =
     (case profiles_at H p of
        None \<Rightarrow> None
      | Some ps \<Rightarrow>
          (case emap_entries H (ps_Endpoints ps) of
             None \<Rightarrow> None
           | Some kvs \<Rightarrow>
               (case read_entries H kvs of
                  None \<Rightarrow> None
                | Some es \<Rightarrow>
                    (case tmap_entries H (ps_Tags ps) of
                       None \<Rightarrow> None
                     | Some ts \<Rightarrow>
                         Some \<lparr> v_ProfileName = ps_ProfileName ps, v_ResourceGroup = ps_ResourceGroup ps,
                                v_Hostname = ps_Hostname ps, v_FQDN = ps_FQDN ps,
                                v_RoutingMethod = ps_RoutingMethod ps, v_DNSTTL = ps_DNSTTL ps,
                                v_Endpoints = es, v_Tags = ts,
                                v_CreatedAt = ps_CreatedAt ps, v_UpdatedAt = ps_UpdatedAt ps,
                                v_CachedAt = ps_CachedAt ps \<rparr>))))"

text \<open>The objects reachable from a \<open>*ProfileState\<close>: the struct, its two maps and the
  endpoint structs in its endpoint map.\<close>

definition footprint :: "heap \<Rightarrow> addr \<Rightarrow> addr set" where
  "footprint H p =
     (case profiles_at H p of
        None \<Rightarrow> {p}
      | Some ps \<Rightarrow>
          {p} \<union> set_option (ps_Endpoints ps) \<union> set_option (ps_Tags ps)
          \<union> (case emap_entries H (ps_Endpoints ps) of None \<Rightarrow> {} | Some kvs \<Rightarrow> snd ` set kvs))"

text \<open>
  Well-formedness. In a heap no object lives at an address that has not been handed out.
  A profile pointer is usable when the struct is there, its maps are \<open>nil\<close> or there
  with distinct keys, every endpoint in the endpoint map is there, and all of them are
  allocated.
\<close>

definition heap_ok :: "heap \<Rightarrow> bool" where
  "heap_ok H =
     (\<forall>a. next_addr H \<le> a \<longrightarrow>
        profiles_at H a = None \<and> endpoints_at H a = None \<and> emaps_at H a = None \<and> tmaps_at H a = None)"

definition profile_ok :: "heap \<Rightarrow> addr \<Rightarrow> bool" where
  "profile_ok H p =
     (case profiles_at H p of
        None \<Rightarrow> False
      | Some ps \<Rightarrow>
          (case emap_entries H (ps_Endpoints ps) of
             None \<Rightarrow> False
           | Some kvs \<Rightarrow> distinct (map fst kvs) \<and> list_all (\<lambda>(k, a). endpoints_at H a \<noteq> None) kvs)
          \<and> (case tmap_entries H (ps_Tags ps) of
                None \<Rightarrow> False
              | Some ts \<Rightarrow> distinct (map fst ts)))"

text \<open>The stored entry of a hostname, when there is one, is usable.\<close>

definition entry_ok :: "Manager \<Rightarrow> heap \<Rightarrow> string \<Rightarrow> bool" where
  "entry_ok M H hostname = (case m_profiles M hostname of None \<Rightarrow> True | Some p \<Rightarrow> profile_ok H p)"

text \<open>Two heaps that hold the same objects at every address outside a set.\<close>

definition same_outside :: "addr set \<Rightarrow> heap \<Rightarrow> heap \<Rightarrow> bool" where
  "same_outside S H H' =
     (\<forall>a. a \<notin> S \<longrightarrow>
        profiles_at H' a = profiles_at H a \<and> endpoints_at H' a = endpoints_at H a
        \<and> emaps_at H' a = emaps_at H a \<and> tmaps_at H' a = tmaps_at H a)"

section \<open>Package trafficmanager: configurations and the client\<close>

record ProfileConfig =
  pc_ProfileName :: string
  pc_ResourceGroup :: string
  pc_Location :: string
  pc_RoutingMethod :: string
  pc_DNSTTL :: int
  pc_MonitorProtocol :: string
  pc_MonitorPort :: int
  pc_MonitorPath :: string
  pc_HealthChecksEnabled :: bool
  pc_Tags :: "(string \<times> string) list"

record EndpointConfig =
  ec_EndpointName :: string
  ec_EndpointType :: string
  ec_Target :: string
  ec_Weight :: int
  ec_Priority :: int
  ec_Status :: string
  ec_Location :: string

text \<open>\<open>trafficmanager.EndpointState\<close> and \<open>trafficmanager.ProfileState\<close>, the values the
  client returns (by value here: the provider only reads them).\<close>

record tm_EndpointState =
  tes_EndpointName :: string
  tes_EndpointType :: string
  tes_Target :: string
  tes_Weight :: int
  tes_Priority :: int
  tes_Status :: string
  tes_Location :: string
  tes_CreatedAt :: time
  tes_UpdatedAt :: time

record tm_ProfileState =
  tps_ProfileName :: string
  tps_ResourceGroup :: string
  tps_Hostname :: string
  tps_FQDN :: string
  tps_RoutingMethod :: string
  tps_DNSTTL :: int
  tps_Endpoints :: "(string \<times> tm_EndpointState) list"
  tps_CreatedAt :: time
  tps_UpdatedAt :: time

definition DefaultProfileConfig :: ProfileConfig where
  "DefaultProfileConfig =
     \<lparr> pc_ProfileName = [], pc_ResourceGroup = [], pc_Location = ''global'',
       pc_RoutingMethod = ''Weighted'', pc_DNSTTL = 30, pc_MonitorProtocol = ''HTTPS'',
       pc_MonitorPort = 443, pc_MonitorPath = ''/'', pc_HealthChecksEnabled = True, pc_Tags = [] \<rparr>"

definition DefaultEndpointConfig :: EndpointConfig where
  "DefaultEndpointConfig =
     \<lparr> ec_EndpointName = [], ec_EndpointType = ''ExternalEndpoints'', ec_Target = [],
       ec_Weight = 100, ec_Priority = 1, ec_Status = ''Enabled'', ec_Location = [] \<rparr>"

definition ToProfileConfig :: "TrafficManagerConfig \<Rightarrow> ProfileConfig" where
  "ToProfileConfig c =
     (let config = DefaultProfileConfig;
          config = (if c_ProfileName c \<noteq> [] then config\<lparr>pc_ProfileName := c_ProfileName c\<rparr> else config);
          config = config\<lparr> pc_ResourceGroup := c_ResourceGroup c, pc_RoutingMethod := c_RoutingMethod c,
                           pc_DNSTTL := c_DNSTTL c, pc_MonitorProtocol := c_MonitorProtocol c,
                           pc_MonitorPort := c_MonitorPort c, pc_MonitorPath := c_MonitorPath c,
                           pc_HealthChecksEnabled := c_HealthChecksEnabled c \<rparr>
      in config\<lparr>pc_Tags := AList.update ''managedBy'' ''external-dns-traffic-manager-webhook'' (pc_Tags config)\<rparr>)"

definition ToEndpointConfig :: "TrafficManagerConfig \<Rightarrow> string \<Rightarrow> EndpointConfig" where
  "ToEndpointConfig c target =
     (let config = DefaultEndpointConfig;
          config = (if c_EndpointName c \<noteq> [] then config\<lparr>ec_EndpointName := c_EndpointName c\<rparr> else config)
      in config\<lparr> ec_EndpointType := c_EndpointType c, ec_Target := target, ec_Weight := c_Weight c,
                  ec_Priority := c_Priority c, ec_Status := c_EndpointStatus c,
                  ec_Location := c_EndpointLocation c \<rparr>)"

text \<open>
  The provider's collaborators: the methods of \<open>trafficmanager.Client\<close> it calls, the two
  methods of \<open>dnsendpoint.Manager\<close>, and the clock. They reach the remote control plane
  and the cluster, so they are parameters: each takes the state \<open>'e\<close> of everything
  outside the process and returns its result with the new state. \<open>GetProfileState\<close>
  returns a freshly built \<open>*state.ProfileState\<close>, given here by its value. The clock is a
  reading of the outside state. \<open>strconv_IsPrint\<close> is the table of printable runes of
  the Go release, which \<open>%q\<close> consults.
\<close>

record 'e Client =
  tm_CreateProfile :: "ProfileConfig \<Rightarrow> 'e \<Rightarrow> (err + tm_ProfileState) \<times> 'e"
  tm_GetProfile :: "string \<Rightarrow> string \<Rightarrow> 'e \<Rightarrow> (err + tm_ProfileState) \<times> 'e"
  tm_UpdateProfile :: "ProfileConfig \<Rightarrow> 'e \<Rightarrow> (err + tm_ProfileState) \<times> 'e"
  tm_DeleteProfile :: "string \<Rightarrow> string \<Rightarrow> 'e \<Rightarrow> err option \<times> 'e"
  tm_CreateEndpoint :: "string \<Rightarrow> string \<Rightarrow> EndpointConfig \<Rightarrow> 'e \<Rightarrow> (err + tm_EndpointState) \<times> 'e"
  tm_UpdateEndpoint :: "string \<Rightarrow> string \<Rightarrow> EndpointConfig \<Rightarrow> 'e \<Rightarrow> (err + tm_EndpointState) \<times> 'e"
  tm_DeleteEndpoint :: "string \<Rightarrow> string \<Rightarrow> string \<Rightarrow> string \<Rightarrow> 'e \<Rightarrow> err option \<times> 'e"
  tm_GetProfileState :: "string \<Rightarrow> string \<Rightarrow> 'e \<Rightarrow> (err + ProfileValue) \<times> 'e"
  dns_CreateOrUpdateCNAME :: "string \<Rightarrow> string \<Rightarrow> string \<Rightarrow> int \<Rightarrow> 'e \<Rightarrow> err option \<times> 'e"
  dns_Delete :: "string \<Rightarrow> 'e \<Rightarrow> err option \<times> 'e"
  time_Now :: "'e \<Rightarrow> time"
  strconv_IsPrint :: "nat \<Rightarrow> bool"

section \<open>Package dnsendpoint\<close>

text \<open>
  A \<open>range\<close> over a Go string visits runes. The width in bytes of the first rune of a
  non-empty string, as \<open>utf8.DecodeRuneInString\<close> finds it: an invalid or cut-off
  encoding is one byte wide.
\<close>

definition cont_byte :: "string \<Rightarrow> nat \<Rightarrow> nat \<Rightarrow> nat \<Rightarrow> bool" where
  "cont_byte s i lo hi = (i < length s \<and> lo \<le> (of_char (s ! i) :: nat) \<and> (of_char (s ! i) :: nat) \<le> hi)"

definition rune_width :: "string \<Rightarrow> nat" where
  "rune_width s =
     (case s of
        [] \<Rightarrow> 0
      | c # cs \<Rightarrow>
          (let b = (of_char c :: nat) in
           if b < 128 then 1
           else if 194 \<le> b \<and> b \<le> 223 then (if cont_byte s 1 128 191 then 2 else 1)
           else if 224 \<le> b \<and> b \<le> 239 then
             (if cont_byte s 1 (if b = 224 then 160 else 128) (if b = 237 then 159 else 191)
                 \<and> cont_byte s 2 128 191 then 3 else 1)
           else if 240 \<le> b \<and> b \<le> 244 then
             (if cont_byte s 1 (if b = 240 then 144 else 128) (if b = 244 then 143 else 191)
                 \<and> cont_byte s 2 128 191 \<and> cont_byte s 3 128 191 then 4 else 1)
           else 1))"

definition is_alnum :: "char \<Rightarrow> bool" where
  "is_alnum c =
     (let n = (of_char c :: nat) in (97 \<le> n \<and> n \<le> 122) \<or> (65 \<le> n \<and> n \<le> 90) \<or> (48 \<le> n \<and> n \<le> 57))"

text \<open>\<open>dnsendpoint.GenerateName\<close>: dots become hyphens, letters, digits and hyphens stay,
  every other rune is dropped.\<close>

fun GenerateName_loop :: "nat \<Rightarrow> string \<Rightarrow> string" where
  "GenerateName_loop skip [] = []"
| "GenerateName_loop skip (c # cs) =
     (if skip > 0 then GenerateName_loop (skip - 1) cs
      else if c = CHR ''.'' then CHR ''-'' # GenerateName_loop 0 cs
      else if is_alnum c \<or> c = CHR ''-'' then c # GenerateName_loop 0 cs
      else GenerateName_loop (rune_width (c # cs) - 1) cs)"

definition GenerateName :: "string \<Rightarrow> string" where
  "GenerateName hostname = GenerateName_loop 0 hostname @ ''-tm-cname''"

section \<open>Package provider\<close>

subsection \<open>Types and naming functions\<close>

record Endpoint =
  e_DNSName :: string
  e_Targets :: "string list"
  e_RecordType :: string
  e_SetIdentifier :: string
  e_RecordTTL :: int
  e_Labels :: labels
  e_ProviderSpecific :: "(string \<times> string) list"

record Changes =
  ch_Create :: "Endpoint list"
  ch_UpdateOld :: "Endpoint list"
  ch_UpdateNew :: "Endpoint list"
  ch_Delete :: "Endpoint list"

text \<open>\<open>sanitizeName\<close>: a letter or digit stays, every other rune becomes one hyphen. The
  first argument counts the bytes of the current rune still to skip.\<close>

fun sanitize_loop :: "nat \<Rightarrow> string \<Rightarrow> string" where
  "sanitize_loop skip [] = []"
| "sanitize_loop skip (c # cs) =
     (if skip > 0 then sanitize_loop (skip - 1) cs
      else if is_alnum c then c # sanitize_loop 0 cs
      else CHR ''-'' # sanitize_loop (rune_width (c # cs) - 1) cs)"

definition sanitizeName :: "string \<Rightarrow> string" where
  "sanitizeName name = sanitize_loop 0 name"

definition generateProfileName :: "string \<Rightarrow> string" where
  "generateProfileName dnsName = sanitizeName dnsName @ ''-tm''"

definition generateEndpointName :: "string \<Rightarrow> string list \<Rightarrow> string" where
  "generateEndpointName dnsName targets =
     (case targets of t # _ \<Rightarrow> sanitizeName t | [] \<Rightarrow> sanitizeName dnsName)"

definition generateEndpointNameFromTarget :: "string \<Rightarrow> nat \<Rightarrow> string" where
  "generateEndpointNameFromTarget target index =
     (let sanitized = sanitizeName target
      in if index > 0 then sanitized @ ''-'' @ show_nat index else sanitized)"

definition convertToStateEndpoint :: "tm_EndpointState \<Rightarrow> EndpointState" where
  "convertToStateEndpoint tmEndpoint =
     \<lparr> es_EndpointName = tes_EndpointName tmEndpoint, es_EndpointType = tes_EndpointType tmEndpoint,
       es_Target = tes_Target tmEndpoint, es_Weight = tes_Weight tmEndpoint,
       es_Priority = tes_Priority tmEndpoint, es_Status = tes_Status tmEndpoint,
       es_Location = tes_Location tmEndpoint, es_CreatedAt = tes_CreatedAt tmEndpoint,
       es_UpdatedAt = tes_UpdatedAt tmEndpoint \<rparr>"

subsection \<open>The provider's state and its trace\<close>

text \<open>
  What the provider does to the outside is recorded as it happens: the entry log line of
  each of the three operations (\<open>Creating endpoint\<close>, \<open>Updating endpoint\<close>,
  \<open>Deleting endpoint\<close>, with the fields the source logs) and every call of a collaborator,
  with its arguments. The other log lines are left out.
\<close>

datatype event =
    Creating string "string list" string
  | Updating string
  | Deleting string
  | CallCreateProfile ProfileConfig
  | CallGetProfile string string
  | CallUpdateProfile ProfileConfig
  | CallDeleteProfile string string
  | CallCreateEndpoint string string EndpointConfig
  | CallUpdateEndpoint string string EndpointConfig
  | CallDeleteEndpoint string string string string
  | CallGetProfileState string string
  | CallCreateOrUpdateCNAME string string string int
  | CallDnsDelete string

fun is_call :: "event \<Rightarrow> bool" where
  "is_call (Creating d ts r) = False"
| "is_call (Updating d) = False"
| "is_call (Deleting d) = False"
| "is_call ev = True"

record 'e world =
  w_manager :: Manager
  w_heap :: heap
  w_env :: 'e
  w_trace :: "event list"

text \<open>The outcome of an operation: \<open>nil\<close>, an error, or a panic.\<close>

datatype result = Ok | Failed err | Panicked

definition logged :: "event \<Rightarrow> 'e world \<Rightarrow> 'e world" where
  "logged ev w = w\<lparr>w_trace := w_trace w @ [ev]\<rparr>"

text \<open>A call of a collaborator: recorded, then made.\<close>

definition invoke :: "event \<Rightarrow> ('e \<Rightarrow> 'r \<times> 'e) \<Rightarrow> 'e world \<Rightarrow> 'r \<times> 'e world" where
  "invoke ev f w = (let (r, e') = f (w_env w) in (r, w\<lparr>w_env := e', w_trace := w_trace w @ [ev]\<rparr>))"

text \<open>A method of the state manager, on the provider's manager and heap.\<close>

definition mirror :: "(Manager \<Rightarrow> heap \<Rightarrow> (Manager \<times> heap) option) \<Rightarrow> 'e world \<Rightarrow> 'e world option" where
  "mirror f w =
     (case f (w_manager w) (w_heap w) of
        None \<Rightarrow> None
      | Some (M, H) \<Rightarrow> Some (w\<lparr>w_manager := M, w_heap := H\<rparr>))"

text \<open>The \<open>*state.ProfileState\<close> that \<open>GetProfileState\<close> returns, built on the heap: the
  endpoint structs, the two maps, the struct.\<close>

fun place_endpoints :: "heap \<Rightarrow> (string \<times> EndpointState) list \<Rightarrow> (string \<times> addr) list \<times> heap" where
  "place_endpoints H [] = ([], H)"
| "place_endpoints H ((k, es) # rest) =
     (let (a, H1) = new_endpoint H es;
          (kvs, H2) = place_endpoints H1 rest
      in ((k, a) # kvs, H2))"

definition place_profile :: "heap \<Rightarrow> ProfileValue \<Rightarrow> addr \<times> heap" where
  "place_profile H v =
     (let (kvs, H1) = place_endpoints H (v_Endpoints v);
          (em, H2) = make_emap H1;
          H3 = H2\<lparr>emaps_at := (emaps_at H2)(em \<mapsto> kvs)\<rparr>;
          (tm, H4) = make_tmap H3;
          H5 = H4\<lparr>tmaps_at := (tmaps_at H4)(tm \<mapsto> v_Tags v)\<rparr>
      in new_profile H5
           \<lparr> ps_ProfileName = v_ProfileName v, ps_ResourceGroup = v_ResourceGroup v,
             ps_Hostname = v_Hostname v, ps_FQDN = v_FQDN v,
             ps_RoutingMethod = v_RoutingMethod v, ps_DNSTTL = v_DNSTTL v,
             ps_Endpoints = Some em, ps_Tags = Some tm,
             ps_CreatedAt = v_CreatedAt v, ps_UpdatedAt = v_UpdatedAt v,
             ps_CachedAt = v_CachedAt v \<rparr>)"

text \<open>\<open>profileState.Hostname = hostname; p.stateManager.SetProfile(hostname, profileState)\<close>
  on the profile state a successful \<open>GetProfileState\<close> returned.\<close>

definition store_profile :: "'e Client \<Rightarrow> string \<Rightarrow> ProfileValue \<Rightarrow> 'e world \<Rightarrow> 'e world option" where
  "store_profile cl hostname profileState w =
     (let (p, H1) = place_profile (w_heap w) (profileState\<lparr>v_Hostname := hostname\<rparr>)
      in mirror (\<lambda>M H. SetProfile (time_Now cl (w_env w)) M H hostname p) (w\<lparr>w_heap := H1\<rparr>))"

text \<open>\<open>p.stateManager.SetEndpoint(hostname, name, convertToStateEndpoint(endpointState))\<close>\<close>

definition store_endpoint ::
  "'e Client \<Rightarrow> string \<Rightarrow> string \<Rightarrow> tm_EndpointState \<Rightarrow> 'e world \<Rightarrow> 'e world option" where
  "store_endpoint cl hostname name endpointState w =
     (let (a, H1) = new_endpoint (w_heap w) (convertToStateEndpoint endpointState);
          now = time_Now cl (w_env w)
      in mirror (\<lambda>M H. SetEndpoint now now M H hostname name a) (w\<lparr>w_heap := H1\<rparr>))"

subsection \<open>createEndpoint\<close>

text \<open>The loop over the targets, with the index \<open>i\<close> of the first one left.\<close>

fun create_targets ::
  "'e Client \<Rightarrow> Endpoint \<Rightarrow> TrafficManagerConfig \<Rightarrow> string \<Rightarrow> nat \<Rightarrow> string list \<Rightarrow> 'e world
   \<Rightarrow> result \<times> 'e world" where
  "create_targets cl endpoint config vanityHostname i [] w = (Ok, w)"
| "create_targets cl endpoint config vanityHostname i (target # targets) w =
     (let endpointConfig = ToEndpointConfig config target;
          endpointConfig =
            (if length (e_Targets endpoint) > 1 \<and> ec_EndpointName endpointConfig \<noteq> []
             then endpointConfig\<lparr>ec_EndpointName := ec_EndpointName endpointConfig @ ''-'' @ show_nat i\<rparr>
             else if ec_EndpointName endpointConfig = []
             then endpointConfig\<lparr>ec_EndpointName := generateEndpointNameFromTarget target i\<rparr>
             else endpointConfig);
          (r, w1) = invoke (CallCreateEndpoint (c_ResourceGroup config) (c_ProfileName config) endpointConfig)
                      (tm_CreateEndpoint cl (c_ResourceGroup config) (c_ProfileName config) endpointConfig) w
      in case r of
           Inl err \<Rightarrow> (Failed (''failed to create endpoint '' @ ec_EndpointName endpointConfig @ '': '' @ err), w1)
         | Inr endpointState \<Rightarrow>
             (case store_endpoint cl vanityHostname (ec_EndpointName endpointConfig) endpointState w1 of
                None \<Rightarrow> (Panicked, w1)
              | Some w2 \<Rightarrow> create_targets cl endpoint config vanityHostname (Suc i) targets w2))"

text \<open>The annotation map: the labels, then the provider-specific properties over them.\<close>

definition annotationMap :: "Endpoint \<Rightarrow> labels" where
  "annotationMap endpoint =
     fold (\<lambda>prop m. m(fst prop \<mapsto> snd prop)) (e_ProviderSpecific endpoint) (e_Labels endpoint)"

text \<open>The end of \<open>createEndpoint\<close>: the profile is read back and stored, and the CNAME of
  a vanity hostname is published; no failure here fails the operation.\<close>

definition create_refresh ::
  "'e Client \<Rightarrow> Endpoint \<Rightarrow> TrafficManagerConfig \<Rightarrow> string \<Rightarrow> 'e world \<Rightarrow> result \<times> 'e world" where
  "create_refresh cl endpoint config vanityHostname w =
     (let (r, w1) = invoke (CallGetProfileState (c_ResourceGroup config) (c_ProfileName config))
                      (tm_GetProfileState cl (c_ResourceGroup config) (c_ProfileName config)) w
      in case r of
           Inl err \<Rightarrow> (Ok, w1)
         | Inr profileState \<Rightarrow>
             (case store_profile cl vanityHostname profileState w1 of
                None \<Rightarrow> (Panicked, w1)
              | Some w2 \<Rightarrow>
                  if vanityHostname \<noteq> [] \<and> vanityHostname \<noteq> e_DNSName endpoint \<and> v_FQDN profileState \<noteq> []
                  then (let dnsEndpointName = GenerateName vanityHostname;
                            (err, w3) = invoke (CallCreateOrUpdateCNAME dnsEndpointName vanityHostname (v_FQDN profileState) 300)
                                          (dns_CreateOrUpdateCNAME cl dnsEndpointName vanityHostname (v_FQDN profileState) 300) w2
                        in (Ok, w3))
                  else (Ok, w2)))"

text \<open>The steps of \<open>createEndpoint\<close> between validation and the first remote call: the
  vanity hostname, the generated names, the profile configuration with its \<open>hostname\<close> tag,
  and the targets.\<close>

definition vanity_hostname :: "TrafficManagerConfig \<Rightarrow> Endpoint \<Rightarrow> string" where
  "vanity_hostname config endpoint = (if c_Hostname config = [] then e_DNSName endpoint else c_Hostname config)"

definition create_names :: "TrafficManagerConfig \<Rightarrow> Endpoint \<Rightarrow> TrafficManagerConfig" where
  "create_names config0 endpoint =
     (let vanityHostname = vanity_hostname config0 endpoint;
          config = (if c_ProfileName config0 = []
                    then config0\<lparr>c_ProfileName := generateProfileName vanityHostname\<rparr>
                    else config0);
          config = (if c_EndpointName config = []
                    then config\<lparr>c_EndpointName := generateEndpointName (e_DNSName endpoint) (e_Targets endpoint)\<rparr>
                    else config)
      in config)"

definition tagged_profile_config :: "TrafficManagerConfig \<Rightarrow> string \<Rightarrow> ProfileConfig" where
  "tagged_profile_config config hostname =
     (let profileConfig = ToProfileConfig config
      in profileConfig\<lparr>pc_Tags := AList.update ''hostname'' hostname (pc_Tags profileConfig)\<rparr>)"

definition create_target_list :: "Endpoint \<Rightarrow> string list" where
  "create_target_list endpoint =
     (let targetDNS = e_DNSName endpoint
      in if e_RecordType endpoint \<noteq> ''A'' \<and> length (e_Targets endpoint) > 0
         then e_Targets endpoint else [targetDNS])"

text \<open>\<open>createEndpoint\<close> from the loop over the targets on.\<close>

definition create_endpoints_and_refresh ::
  "'e Client \<Rightarrow> Endpoint \<Rightarrow> TrafficManagerConfig \<Rightarrow> string \<Rightarrow> 'e world \<Rightarrow> result \<times> 'e world" where
  "create_endpoints_and_refresh cl endpoint config vanityHostname w =
     (case create_targets cl endpoint config vanityHostname 0 (create_target_list endpoint) w of
        (Ok, w1) \<Rightarrow> create_refresh cl endpoint config vanityHostname w1
      | (res, w1) \<Rightarrow> (res, w1))"

text \<open>The profile step: create, and on any error get the profile by name.\<close>

definition create_or_get_profile ::
  "'e Client \<Rightarrow> TrafficManagerConfig \<Rightarrow> ProfileConfig \<Rightarrow> 'e world \<Rightarrow> err option \<times> 'e world" where
  "create_or_get_profile cl config profileConfig w =
     (let (r, w1) = invoke (CallCreateProfile profileConfig) (tm_CreateProfile cl profileConfig) w
      in case r of
           Inr created \<Rightarrow> (None, w1)
         | Inl err \<Rightarrow>
             (let (g, w2) = invoke (CallGetProfile (c_ResourceGroup config) (c_ProfileName config))
                              (tm_GetProfile cl (c_ResourceGroup config) (c_ProfileName config)) w1
              in case g of
                   Inl getErr \<Rightarrow>
                     (Some (''failed to create/get profile: '' @ getErr @ '' (original error: '' @ err @ '')''), w2)
                 | Inr existing \<Rightarrow> (None, w2)))"

definition createEndpoint :: "'e Client \<Rightarrow> Endpoint \<Rightarrow> 'e world \<Rightarrow> result \<times> 'e world" where
  "createEndpoint cl endpoint w0 =
     (let w = logged (Creating (e_DNSName endpoint) (e_Targets endpoint) (e_RecordType endpoint)) w0
      in if e_RecordType endpoint = ''TXT'' then (Ok, w)
         else
           (case ParseConfig (strconv_IsPrint cl) (annotationMap endpoint) of
              Inl err \<Rightarrow> (Failed (''failed to parse annotations: '' @ err), w)
            | Inr config0 \<Rightarrow>
                if \<not> c_Enabled config0 then (Ok, w)
                else
                  (case ValidateConfig (strconv_IsPrint cl) config0 of
                     Some err \<Rightarrow> (Failed (''invalid Traffic Manager configuration: '' @ err), w)
                   | None \<Rightarrow>
                       (let vanityHostname = vanity_hostname config0 endpoint;
                            config = create_names config0 endpoint;
                            profileConfig = tagged_profile_config config vanityHostname
                        in case create_or_get_profile cl config profileConfig w of
                             (Some err, w1) \<Rightarrow> (Failed err, w1)
                           | (None, w1) \<Rightarrow> create_endpoints_and_refresh cl endpoint config vanityHostname w1))))"

subsection \<open>updateEndpoint\<close>

text \<open>The loop over the new targets. \<open>oldConfig\<close> is \<open>None\<close> when the old labels did not
  parse (\<open>oldConfig == nil\<close>).\<close>

fun update_targets ::
  "'e Client \<Rightarrow> Endpoint \<Rightarrow> TrafficManagerConfig option \<Rightarrow> TrafficManagerConfig \<Rightarrow> string list
   \<Rightarrow> 'e world \<Rightarrow> result \<times> 'e world" where
  "update_targets cl newEndpoint oldConfig newConfig [] w = (Ok, w)"
| "update_targets cl newEndpoint oldConfig newConfig (target # targets) w =
     (let endpointConfig = ToEndpointConfig newConfig target
      in if (case oldConfig of
               None \<Rightarrow> False
             | Some oc \<Rightarrow> c_Weight oc \<noteq> c_Weight newConfig \<or> c_EndpointStatus oc \<noteq> c_EndpointStatus newConfig)
         then
           (let (r, w1) = invoke (CallUpdateEndpoint (c_ResourceGroup newConfig) (c_ProfileName newConfig) endpointConfig)
                            (tm_UpdateEndpoint cl (c_ResourceGroup newConfig) (c_ProfileName newConfig) endpointConfig) w
            in case r of
                 Inl err \<Rightarrow> (Failed (''failed to update endpoint '' @ ec_EndpointName endpointConfig @ '': '' @ err), w1)
               | Inr endpointState \<Rightarrow>
                   (case store_endpoint cl (e_DNSName newEndpoint) (ec_EndpointName endpointConfig) endpointState w1 of
                      None \<Rightarrow> (Panicked, w1)
                    | Some w2 \<Rightarrow> update_targets cl newEndpoint oldConfig newConfig targets w2))
         else update_targets cl newEndpoint oldConfig newConfig targets w)"

definition update_refresh ::
  "'e Client \<Rightarrow> Endpoint \<Rightarrow> TrafficManagerConfig \<Rightarrow> 'e world \<Rightarrow> result \<times> 'e world" where
  "update_refresh cl newEndpoint newConfig w =
     (let (r, w1) = invoke (CallGetProfileState (c_ResourceGroup newConfig) (c_ProfileName newConfig))
                      (tm_GetProfileState cl (c_ResourceGroup newConfig) (c_ProfileName newConfig)) w
      in case r of
           Inl err \<Rightarrow> (Ok, w1)
         | Inr profileState \<Rightarrow>
             (case store_profile cl (e_DNSName newEndpoint) profileState w1 of
                None \<Rightarrow> (Panicked, w1)
              | Some w2 \<Rightarrow> (Ok, w2)))"

definition profile_changed :: "TrafficManagerConfig option \<Rightarrow> TrafficManagerConfig \<Rightarrow> bool" where
  "profile_changed oldConfig newConfig =
     (case oldConfig of
        None \<Rightarrow> True
      | Some oc \<Rightarrow>
          c_RoutingMethod oc \<noteq> c_RoutingMethod newConfig
          \<or> c_DNSTTL oc \<noteq> c_DNSTTL newConfig
          \<or> c_MonitorProtocol oc \<noteq> c_MonitorProtocol newConfig
          \<or> c_MonitorPort oc \<noteq> c_MonitorPort newConfig
          \<or> c_MonitorPath oc \<noteq> c_MonitorPath newConfig
          \<or> c_HealthChecksEnabled oc \<noteq> c_HealthChecksEnabled newConfig)"

definition update_names :: "TrafficManagerConfig \<Rightarrow> Endpoint \<Rightarrow> TrafficManagerConfig" where
  "update_names newConfig0 newEndpoint =
     (let newConfig = (if c_ProfileName newConfig0 = []
                       then newConfig0\<lparr>c_ProfileName := generateProfileName (e_DNSName newEndpoint)\<rparr>
                       else newConfig0);
          newConfig = (if c_EndpointName newConfig = []
                       then newConfig\<lparr>c_EndpointName := generateEndpointName (e_DNSName newEndpoint) (e_Targets newEndpoint)\<rparr>
                       else newConfig)
      in newConfig)"

text \<open>The profile step of \<open>updateEndpoint\<close>: a remote update only when a profile-level
  field changed.\<close>

definition update_profile_if_changed ::
  "'e Client \<Rightarrow> Endpoint \<Rightarrow> TrafficManagerConfig option \<Rightarrow> TrafficManagerConfig \<Rightarrow> 'e world
   \<Rightarrow> err option \<times> 'e world" where
  "update_profile_if_changed cl newEndpoint oldConfig newConfig w =
     (if profile_changed oldConfig newConfig
      then (let profileConfig = tagged_profile_config newConfig (e_DNSName newEndpoint);
                (r, w1) = invoke (CallUpdateProfile profileConfig) (tm_UpdateProfile cl profileConfig) w
            in case r of
                 Inl err \<Rightarrow> (Some (''failed to update profile: '' @ err), w1)
               | Inr updated \<Rightarrow> (None, w1))
      else (None, w))"

definition updateEndpoint :: "'e Client \<Rightarrow> Endpoint \<Rightarrow> Endpoint \<Rightarrow> 'e world \<Rightarrow> result \<times> 'e world" where
  "updateEndpoint cl oldEndpoint newEndpoint w0 =
     (let w = logged (Updating (e_DNSName newEndpoint)) w0
      in case ParseConfig (strconv_IsPrint cl) (e_Labels newEndpoint) of
           Inl err \<Rightarrow> (Failed (''failed to parse new annotations: '' @ err), w)
         | Inr newConfig0 \<Rightarrow>
             if \<not> c_Enabled newConfig0 then (Ok, w)
             else
               (case ValidateConfig (strconv_IsPrint cl) newConfig0 of
                  Some err \<Rightarrow> (Failed (''invalid Traffic Manager configuration: '' @ err), w)
                | None \<Rightarrow>
                    (let oldConfig = (case ParseConfig (strconv_IsPrint cl) (e_Labels oldEndpoint) of Inl err \<Rightarrow> None | Inr oc \<Rightarrow> Some oc);
                         newConfig = update_names newConfig0 newEndpoint
                     in case update_profile_if_changed cl newEndpoint oldConfig newConfig w of
                          (Some err, w1) \<Rightarrow> (Failed err, w1)
                        | (None, w1) \<Rightarrow>
                            (case update_targets cl newEndpoint oldConfig newConfig (e_Targets newEndpoint) w1 of
                               (Ok, w2) \<Rightarrow> update_refresh cl newEndpoint newConfig w2
                             | (res, w2) \<Rightarrow> (res, w2)))))"

subsection \<open>deleteEndpoint\<close>

text \<open>The loop \<open>for _ = range endpoint.Targets\<close>: the same endpoint name each time.\<close>

fun delete_targets ::
  "'e Client \<Rightarrow> Endpoint \<Rightarrow> TrafficManagerConfig \<Rightarrow> string list \<Rightarrow> 'e world \<Rightarrow> result \<times> 'e world" where
  "delete_targets cl endpoint config [] w = (Ok, w)"
| "delete_targets cl endpoint config (target # targets) w =
     (let (err, w1) = invoke (CallDeleteEndpoint (c_ResourceGroup config) (c_ProfileName config)
                                (c_EndpointType config) (c_EndpointName config))
                        (tm_DeleteEndpoint cl (c_ResourceGroup config) (c_ProfileName config)
                                (c_EndpointType config) (c_EndpointName config)) w
      in case err of
           Some e \<Rightarrow> delete_targets cl endpoint config targets w1
         | None \<Rightarrow>
             (let now = time_Now cl (w_env w1)
              in case mirror (\<lambda>M H. DeleteEndpoint now now M H (e_DNSName endpoint) (c_EndpointName config)) w1 of
                   None \<Rightarrow> (Panicked, w1)
                 | Some w2 \<Rightarrow> delete_targets cl endpoint config targets w2))"

definition delete_refresh ::
  "'e Client \<Rightarrow> Endpoint \<Rightarrow> TrafficManagerConfig \<Rightarrow> string \<Rightarrow> 'e world \<Rightarrow> result \<times> 'e world" where
  "delete_refresh cl endpoint config vanityHostname w =
     (let (r, w1) = invoke (CallGetProfileState (c_ResourceGroup config) (c_ProfileName config))
                      (tm_GetProfileState cl (c_ResourceGroup config) (c_ProfileName config)) w
      in case r of
           Inl err \<Rightarrow> (Ok, w1)
         | Inr profileState \<Rightarrow>
             if length (v_Endpoints profileState) = 0
             then
               (let (err, w2) = invoke (CallDeleteProfile (c_ResourceGroup config) (c_ProfileName config))
                                  (tm_DeleteProfile cl (c_ResourceGroup config) (c_ProfileName config)) w1
                in case err of
                     Some e \<Rightarrow> (Ok, w2)
                   | None \<Rightarrow>
                       (case mirror (\<lambda>M H. DeleteProfile M H vanityHostname) w2 of
                          None \<Rightarrow> (Panicked, w2)
                        | Some w3 \<Rightarrow>
                            if vanityHostname \<noteq> [] \<and> vanityHostname \<noteq> e_DNSName endpoint
                            then (let dnsEndpointName = GenerateName vanityHostname;
                                      (err, w4) = invoke (CallDnsDelete dnsEndpointName) (dns_Delete cl dnsEndpointName) w3
                                  in (Ok, w4))
                            else (Ok, w3)))
             else
               (case store_profile cl vanityHostname profileState w1 of
                  None \<Rightarrow> (Panicked, w1)
                | Some w2 \<Rightarrow> (Ok, w2)))"

definition delete_names :: "TrafficManagerConfig \<Rightarrow> Endpoint \<Rightarrow> TrafficManagerConfig" where
  "delete_names config0 endpoint =
     (let config = (if c_ProfileName config0 = []
                    then config0\<lparr>c_ProfileName := generateProfileName (e_DNSName endpoint)\<rparr>
                    else config0);
          config = (if c_EndpointName config = []
                    then config\<lparr>c_EndpointName := generateEndpointName (e_DNSName endpoint) (e_Targets endpoint)\<rparr>
                    else config)
      in config)"

definition deleteEndpoint :: "'e Client \<Rightarrow> Endpoint \<Rightarrow> 'e world \<Rightarrow> result \<times> 'e world" where
  "deleteEndpoint cl endpoint w0 =
     (let w = logged (Deleting (e_DNSName endpoint)) w0
      in case ParseConfig (strconv_IsPrint cl) (e_Labels endpoint) of
           Inl err \<Rightarrow> (Failed (''failed to parse annotations: '' @ err), w)
         | Inr config0 \<Rightarrow>
             if \<not> c_Enabled config0 then (Ok, w)
             else
               (let vanityHostname = vanity_hostname config0 endpoint;
                    config = delete_names config0 endpoint
                in case delete_targets cl endpoint config (e_Targets endpoint) w of
                     (Ok, w1) \<Rightarrow> delete_refresh cl endpoint config vanityHostname w1
                   | (res, w1) \<Rightarrow> (res, w1)))"

subsection \<open>ApplyChanges\<close>

fun create_all :: "'e Client \<Rightarrow> Endpoint list \<Rightarrow> 'e world \<Rightarrow> result \<times> 'e world" where
  "create_all cl [] w = (Ok, w)"
| "create_all cl (endpoint # rest) w =
     (case createEndpoint cl endpoint w of
        (Ok, w1) \<Rightarrow> create_all cl rest w1
      | (res, w1) \<Rightarrow> (res, w1))"

text \<open>\<open>for i := range changes.UpdateOld\<close>, reading \<open>changes.UpdateNew[i]\<close>: an index past the
  end of \<open>UpdateNew\<close> panics.\<close>

fun update_all :: "'e Client \<Rightarrow> Endpoint list \<Rightarrow> Endpoint list \<Rightarrow> nat list \<Rightarrow> 'e world \<Rightarrow> result \<times> 'e world" where
  "update_all cl updateOld updateNew [] w = (Ok, w)"
| "update_all cl updateOld updateNew (i # rest) w =
     (if i < length updateNew
      then (case updateEndpoint cl (updateOld ! i) (updateNew ! i) w of
              (Ok, w1) \<Rightarrow> update_all cl updateOld updateNew rest w1
            | (res, w1) \<Rightarrow> (res, w1))
      else (Panicked, w))"

fun delete_all :: "'e Client \<Rightarrow> Endpoint list \<Rightarrow> 'e world \<Rightarrow> result \<times> 'e world" where
  "delete_all cl [] w = (Ok, w)"
| "delete_all cl (endpoint # rest) w =
     (case deleteEndpoint cl endpoint w of
        (Ok, w1) \<Rightarrow> delete_all cl rest w1
      | (res, w1) \<Rightarrow> (res, w1))"

definition ApplyChanges :: "'e Client \<Rightarrow> Changes \<Rightarrow> 'e world \<Rightarrow> result \<times> 'e world" where
  "ApplyChanges cl changes w =
     (case create_all cl (ch_Create changes) w of
        (Ok, w1) \<Rightarrow>
          (case update_all cl (ch_UpdateOld changes) (ch_UpdateNew changes) [0 ..< length (ch_UpdateOld changes)] w1 of
             (Ok, w2) \<Rightarrow> delete_all cl (ch_Delete changes) w2
           | (res, w2) \<Rightarrow> (res, w2))
      | (res, w1) \<Rightarrow> (res, w1))"

section \<open>A simulated control plane\<close>

text \<open>
  The collaborators as the specification assumes them, for scenarios and examples: a store
  of profiles keyed by resource group and name, each with its endpoints keyed by name;
  create and update are create-or-update, get and delete fail on what is not there, and an
  endpoint needs its profile. A profile's FQDN is its name under \<open>trafficmanager.net\<close>.
  The CNAME publisher always succeeds. Every call takes one unit of time. The table of
  printable runes beyond Latin-1 is empty (the examples are ASCII).
\<close>

record sim_profile =
  sp_config :: ProfileConfig
  sp_endpoints :: "(string \<times> EndpointConfig) list"

record sim =
  sim_profiles :: "(string \<times> string) \<rightharpoonup> sim_profile"
  sim_clock :: time

definition tick :: "sim \<Rightarrow> sim" where
  "tick e = e\<lparr>sim_clock := sim_clock e + 1\<rparr>"

definition sim_endpoint_state :: "time \<Rightarrow> EndpointConfig \<Rightarrow> tm_EndpointState" where
  "sim_endpoint_state now ec =
     \<lparr> tes_EndpointName = ec_EndpointName ec, tes_EndpointType = ec_EndpointType ec,
       tes_Target = ec_Target ec, tes_Weight = ec_Weight ec, tes_Priority = ec_Priority ec,
       tes_Status = ec_Status ec, tes_Location = ec_Location ec,
       tes_CreatedAt = now, tes_UpdatedAt = now \<rparr>"

definition sim_fqdn :: "string \<Rightarrow> string" where
  "sim_fqdn name = name @ ''.trafficmanager.net''"

definition sim_profile_state :: "time \<Rightarrow> sim_profile \<Rightarrow> tm_ProfileState" where
  "sim_profile_state now p =
     \<lparr> tps_ProfileName = pc_ProfileName (sp_config p), tps_ResourceGroup = pc_ResourceGroup (sp_config p),
       tps_Hostname = [], tps_FQDN = sim_fqdn (pc_ProfileName (sp_config p)),
       tps_RoutingMethod = pc_RoutingMethod (sp_config p), tps_DNSTTL = pc_DNSTTL (sp_config p),
       tps_Endpoints = map (\<lambda>(k, ec). (k, sim_endpoint_state now ec)) (sp_endpoints p),
       tps_CreatedAt = now, tps_UpdatedAt = now \<rparr>"

definition sim_profile_value :: "time \<Rightarrow> sim_profile \<Rightarrow> ProfileValue" where
  "sim_profile_value now p =
     \<lparr> v_ProfileName = pc_ProfileName (sp_config p), v_ResourceGroup = pc_ResourceGroup (sp_config p),
       v_Hostname = (case map_of (pc_Tags (sp_config p)) ''hostname'' of Some h \<Rightarrow> h | None \<Rightarrow> []),
       v_FQDN = sim_fqdn (pc_ProfileName (sp_config p)),
       v_RoutingMethod = pc_RoutingMethod (sp_config p), v_DNSTTL = pc_DNSTTL (sp_config p),
       v_Endpoints = map (\<lambda>(k, ec). (k, convertToStateEndpoint (sim_endpoint_state now ec))) (sp_endpoints p),
       v_Tags = pc_Tags (sp_config p),
       v_CreatedAt = now, v_UpdatedAt = now, v_CachedAt = now \<rparr>"

definition sim_put_profile :: "ProfileConfig \<Rightarrow> sim \<Rightarrow> (err + tm_ProfileState) \<times> sim" where
  "sim_put_profile pc e =
     (let key = (pc_ResourceGroup pc, pc_ProfileName pc);
          p = \<lparr> sp_config = pc,
                sp_endpoints = (case sim_profiles e key of None \<Rightarrow> [] | Some old \<Rightarrow> sp_endpoints old) \<rparr>
      in (Inr (sim_profile_state (sim_clock e) p), tick (e\<lparr>sim_profiles := (sim_profiles e)(key \<mapsto> p)\<rparr>)))"

definition sim_GetProfile :: "string \<Rightarrow> string \<Rightarrow> sim \<Rightarrow> (err + tm_ProfileState) \<times> sim" where
  "sim_GetProfile rg name e =
     (case sim_profiles e (rg, name) of
        None \<Rightarrow> (Inl ''failed to get profile: not found'', tick e)
      | Some p \<Rightarrow> (Inr (sim_profile_state (sim_clock e) p), tick e))"

definition sim_UpdateProfile :: "ProfileConfig \<Rightarrow> sim \<Rightarrow> (err + tm_ProfileState) \<times> sim" where
  "sim_UpdateProfile pc e =
     (case sim_profiles e (pc_ResourceGroup pc, pc_ProfileName pc) of
        None \<Rightarrow> (Inl ''failed to get existing profile: failed to get profile: not found'', tick e)
      | Some p \<Rightarrow> sim_put_profile pc e)"

definition sim_DeleteProfile :: "string \<Rightarrow> string \<Rightarrow> sim \<Rightarrow> err option \<times> sim" where
  "sim_DeleteProfile rg name e =
     (case sim_profiles e (rg, name) of
        None \<Rightarrow> (Some ''failed to delete profile: not found'', tick e)
      | Some p \<Rightarrow> (None, tick (e\<lparr>sim_profiles := (sim_profiles e)((rg, name) := None)\<rparr>)))"

definition sim_put_endpoint :: "string \<Rightarrow> string \<Rightarrow> string \<Rightarrow> EndpointConfig \<Rightarrow> sim \<Rightarrow> (err + tm_EndpointState) \<times> sim" where
  "sim_put_endpoint verb rg name ec e =
     (case sim_profiles e (rg, name) of
        None \<Rightarrow> (Inl (''failed to '' @ verb @ '' endpoint: profile not found''), tick e)
      | Some p \<Rightarrow>
          (Inr (sim_endpoint_state (sim_clock e) ec),
           tick (e\<lparr>sim_profiles := (sim_profiles e)
                   ((rg, name) \<mapsto> p\<lparr>sp_endpoints := AList.update (ec_EndpointName ec) ec (sp_endpoints p)\<rparr>)\<rparr>)))"

definition sim_DeleteEndpoint :: "string \<Rightarrow> string \<Rightarrow> string \<Rightarrow> string \<Rightarrow> sim \<Rightarrow> err option \<times> sim" where
  "sim_DeleteEndpoint rg name endpointType endpointName e =
     (case sim_profiles e (rg, name) of
        None \<Rightarrow> (Some ''failed to delete endpoint: profile not found'', tick e)
      | Some p \<Rightarrow>
          (case map_of (sp_endpoints p) endpointName of
             None \<Rightarrow> (Some ''failed to delete endpoint: not found'', tick e)
           | Some ec \<Rightarrow>
               (None, tick (e\<lparr>sim_profiles := (sim_profiles e)
                              ((rg, name) \<mapsto> p\<lparr>sp_endpoints := AList.delete endpointName (sp_endpoints p)\<rparr>)\<rparr>))))"

definition sim_GetProfileState :: "string \<Rightarrow> string \<Rightarrow> sim \<Rightarrow> (err + ProfileValue) \<times> sim" where
  "sim_GetProfileState rg name e =
     (case sim_profiles e (rg, name) of
        None \<Rightarrow> (Inl ''failed to get profile: not found'', tick e)
      | Some p \<Rightarrow> (Inr (sim_profile_value (sim_clock e) p), tick e))"

definition sim_client :: "sim Client" where
  "sim_client =
     \<lparr> tm_CreateProfile = sim_put_profile,
       tm_GetProfile = sim_GetProfile,
       tm_UpdateProfile = sim_UpdateProfile,
       tm_DeleteProfile = sim_DeleteProfile,
       tm_CreateEndpoint = sim_put_endpoint ''create'',
       tm_UpdateEndpoint = sim_put_endpoint ''update'',
       tm_DeleteEndpoint = sim_DeleteEndpoint,
       tm_GetProfileState = sim_GetProfileState,
       dns_CreateOrUpdateCNAME = (\<lambda>name hostname target ttl e. (None, tick e)),
       dns_Delete = (\<lambda>name e. (None, tick e)),
       time_Now = sim_clock,
       strconv_IsPrint = (\<lambda>r. False) \<rparr>"

text \<open>The same, with a control plane that refuses to create profiles, and with one that
  refuses to delete them.\<close>

definition sim_client_no_create :: "sim Client" where
  "sim_client_no_create =
     sim_client\<lparr>tm_CreateProfile := (\<lambda>pc e. (Inl ''failed to create profile: conflict'', tick e))\<rparr>"

definition sim_client_no_delete :: "sim Client" where
  "sim_client_no_delete =
     sim_client\<lparr>tm_DeleteProfile := (\<lambda>rg name e. (Some ''failed to delete profile: throttled'', tick e))\<rparr>"

text \<open>A provider that has just started: an empty mirror with a five-minute TTL, an empty
  heap, and a control plane with nothing in it.\<close>

definition sim_start :: "sim world" where
  "sim_start =
     \<lparr> w_manager = NewManager 300000000000, w_heap = empty_heap,
       w_env = \<lparr> sim_profiles = Map.empty, sim_clock = 1000 \<rparr>, w_trace = [] \<rparr>"

definition app_labels :: labels where
  "app_labels =
     [AnnotationEnabled \<mapsto> ''true'', AnnotationResourceGroup \<mapsto> ''rg'',
      AnnotationEndpointLocation \<mapsto> ''eastus'']"

text \<open>An A record with one target, annotated through its labels.\<close>

definition app_endpoint :: Endpoint where
  "app_endpoint =
     \<lparr> e_DNSName = ''app.example.com'', e_Targets = [''1.2.3.4''], e_RecordType = ''A'',
       e_SetIdentifier = [], e_RecordTTL = 300, e_Labels = app_labels, e_ProviderSpecific = [] \<rparr>"

section \<open>Example states\<close>

text \<open>A heap with one profile (one endpoint, one tag) and a manager with a five-minute TTL
  (times in milliseconds here) that stores it.\<close>

definition demo_endpoint :: EndpointState where
  "demo_endpoint =
     \<lparr> es_EndpointName = ''ep1'', es_EndpointType = ''ExternalEndpoints'', es_Target = ''20.30.40.50'',
       es_Weight = 100, es_Priority = 1, es_Status = ''Enabled'', es_Location = ''eastus'',
       es_CreatedAt = 400, es_UpdatedAt = 400 \<rparr>"

definition demo_profile :: ProfileState where
  "demo_profile =
     \<lparr> ps_ProfileName = ''test-profile'', ps_ResourceGroup = ''test-rg'',
       ps_Hostname = ''app.example.com'', ps_FQDN = ''test-profile.trafficmanager.net'',
       ps_RoutingMethod = ''Weighted'', ps_DNSTTL = 30,
       ps_Endpoints = Some 2, ps_Tags = Some 3,
       ps_CreatedAt = 400, ps_UpdatedAt = 400, ps_CachedAt = 500 \<rparr>"

definition demo_heap :: heap where
  "demo_heap =
     \<lparr> profiles_at = [4 \<mapsto> demo_profile], endpoints_at = [1 \<mapsto> demo_endpoint],
       emaps_at = [2 \<mapsto> [(''ep1'', 1)]], tmaps_at = [3 \<mapsto> [(''managedBy'', ''test'')]],
       next_addr = 5 \<rparr>"

definition demo_manager :: Manager where
  "demo_manager = \<lparr> m_profiles = [''app.example.com'' \<mapsto> 4], m_cacheTTL = 300000 \<rparr>"

definition demo_value :: ProfileValue where
  "demo_value =
     \<lparr> v_ProfileName = ''test-profile'', v_ResourceGroup = ''test-rg'',
       v_Hostname = ''app.example.com'', v_FQDN = ''test-profile.trafficmanager.net'',
       v_RoutingMethod = ''Weighted'', v_DNSTTL = 30,
       v_Endpoints = [(''ep1'', demo_endpoint)], v_Tags = [(''managedBy'', ''test'')],
       v_CreatedAt = 400, v_UpdatedAt = 400, v_CachedAt = 500 \<rparr>"

text \<open>The configuration \<open>ParseConfig\<close> returns for the labels of \<open>app_endpoint\<close>.\<close>

definition app_config :: TrafficManagerConfig where
  "app_config = default_config\<lparr>c_Enabled := True, c_ResourceGroup := ''rg'', c_EndpointLocation := ''eastus''\<rparr>"

text \<open>The same endpoint with weight \<open>"1500"\<close>, with weight \<open>"50"\<close>, and as a TXT record.\<close>

definition heavy_endpoint :: Endpoint where
  "heavy_endpoint = app_endpoint\<lparr>e_Labels := app_labels(AnnotationWeight \<mapsto> ''1500'')\<rparr>"

definition light_endpoint :: Endpoint where
  "light_endpoint = app_endpoint\<lparr>e_Labels := app_labels(AnnotationWeight \<mapsto> ''50'')\<rparr>"

definition txt_endpoint :: Endpoint where
  "txt_endpoint = heavy_endpoint\<lparr>e_RecordType := ''TXT''\<rparr>"

text \<open>A provider that has just started, with the profile of \<open>app_endpoint\<close> already on
  the control plane, without endpoints.\<close>

definition app_profile_config :: ProfileConfig where
  "app_profile_config =
     \<lparr> pc_ProfileName = ''app-example-com-tm'', pc_ResourceGroup = ''rg'', pc_Location = ''global'',
       pc_RoutingMethod = ''Weighted'', pc_DNSTTL = 30, pc_MonitorProtocol = ''HTTPS'',
       pc_MonitorPort = 443, pc_MonitorPath = ''/'', pc_HealthChecksEnabled = False,
       pc_Tags = [(''managedBy'', ''external-dns-traffic-manager-webhook''), (''hostname'', ''app.example.com'')] \<rparr>"

definition sim_existing :: "sim world" where
  "sim_existing =
     sim_start\<lparr>w_env := \<lparr> sim_profiles = [(''rg'', ''app-example-com-tm'') \<mapsto>
                                              \<lparr> sp_config = app_profile_config, sp_endpoints = [] \<rparr>],
                          sim_clock = 1000 \<rparr>\<rparr>"

text \<open>An endpoint without annotations, one that enables the feature without a resource
  group, and a batch of them.\<close>

definition plain_endpoint :: Endpoint where
  "plain_endpoint = app_endpoint\<lparr>e_DNSName := ''plain.example.com'', e_Labels := Map.empty\<rparr>"

definition broken_endpoint :: Endpoint where
  "broken_endpoint = app_endpoint\<lparr>e_DNSName := ''broken.example.com'',
                                  e_Labels := [AnnotationEnabled \<mapsto> ''true'']\<rparr>"

definition demo_changes :: Changes where
  "demo_changes =
     \<lparr> ch_Create = [plain_endpoint], ch_UpdateOld = [plain_endpoint, plain_endpoint],
       ch_UpdateNew = [broken_endpoint, plain_endpoint], ch_Delete = [plain_endpoint] \<rparr>"

text \<open>An endpoint of one cluster behind the vanity hostname \<open>demo.example.com\<close>, with an
  explicit profile name; the same with weight \<open>"50"\<close>; and a provider that has just started
  while the profile, with that endpoint, is on the control plane.\<close>

definition east_labels :: labels where
  "east_labels =
     [AnnotationEnabled \<mapsto> ''true'', AnnotationResourceGroup \<mapsto> ''rg'',
      AnnotationEndpointLocation \<mapsto> ''eastus'', AnnotationHostname \<mapsto> ''demo.example.com'',
      AnnotationProfileName \<mapsto> ''demo-tm'', AnnotationEndpointName \<mapsto> ''east'']"

definition east_endpoint :: Endpoint where
  "east_endpoint =
     \<lparr> e_DNSName = ''east.example.com'', e_Targets = [''1.2.3.4''], e_RecordType = ''A'',
       e_SetIdentifier = [], e_RecordTTL = 300, e_Labels = east_labels, e_ProviderSpecific = [] \<rparr>"

definition east_endpoint_50 :: Endpoint where
  "east_endpoint_50 = east_endpoint\<lparr>e_Labels := east_labels(AnnotationWeight \<mapsto> ''50'')\<rparr>"

definition demo_profile_config :: ProfileConfig where
  "demo_profile_config =
     app_profile_config\<lparr>pc_ProfileName := ''demo-tm'',
       pc_Tags := [(''managedBy'', ''external-dns-traffic-manager-webhook''), (''hostname'', ''demo.example.com'')]\<rparr>"

definition east_endpoint_config :: EndpointConfig where
  "east_endpoint_config =
     \<lparr> ec_EndpointName = ''east'', ec_EndpointType = ''ExternalEndpoints'', ec_Target = ''east.example.com'',
       ec_Weight = 100, ec_Priority = 1, ec_Status = ''Enabled'', ec_Location = ''eastus'' \<rparr>"

definition sim_demo :: "sim world" where
  "sim_demo =
     sim_start\<lparr>w_env := \<lparr> sim_profiles = [(''rg'', ''demo-tm'') \<mapsto>
                                              \<lparr> sp_config = demo_profile_config,
                                                sp_endpoints = [(''east'', east_endpoint_config)] \<rparr>],
                          sim_clock = 1000 \<rparr>\<rparr>"




section \<open>Vocabulary of the properties\<close>

text \<open>The events an operation added to the trace.\<close>

definition new_events :: "'e world \<Rightarrow> 'e world \<Rightarrow> event list" where
  "new_events w w' = drop (length (w_trace w)) (w_trace w')"

text \<open>A step that keeps the trace it found and adds only events of one kind.\<close>

definition adds_only :: "(event \<Rightarrow> bool) \<Rightarrow> 'e world \<Rightarrow> 'e world \<Rightarrow> bool" where
  "adds_only P w w' = (take (length (w_trace w)) (w_trace w') = w_trace w \<and> list_all P (new_events w w'))"

text \<open>A step that leaves the mirror's TTL and every entry of its map but the one of
  hostname \<open>k\<close> as they are.\<close>

definition keeps_keys :: "string \<Rightarrow> 'e world \<Rightarrow> 'e world \<Rightarrow> bool" where
  "keeps_keys k w w' =
     ((\<forall>h. h \<noteq> k \<longrightarrow> m_profiles (w_manager w') h = m_profiles (w_manager w) h)
      \<and> m_cacheTTL (w_manager w') = m_cacheTTL (w_manager w))"

fun is_profile_update :: "event \<Rightarrow> bool" where
  "is_profile_update (CallUpdateProfile pc) = True"
| "is_profile_update ev = False"

fun is_endpoint_update :: "event \<Rightarrow> bool" where
  "is_endpoint_update (CallUpdateEndpoint rg pn ec) = True"
| "is_endpoint_update ev = False"

fun is_profile_delete :: "event \<Rightarrow> bool" where
  "is_profile_delete (CallDeleteProfile rg pn) = True"
| "is_profile_delete ev = False"

text \<open>
  A batch as the sequence of its items: the creates, then the updates by index, then the
  deletes. An update whose index has no \<open>UpdateNew\<close> is the item \<open>BadIndex\<close>, whose
  processing panics. \<open>run_items\<close> processes a sequence in order and stops at the first
  item that does not return \<open>nil\<close>; \<open>attempted\<close> is the part of the sequence it
  processes, up to and including that item.
\<close>

datatype item = CreateItem Endpoint | UpdateItem Endpoint Endpoint | DeleteItem Endpoint | BadIndex

definition items :: "Changes \<Rightarrow> item list" where
  "items changes =
     map CreateItem (ch_Create changes)
     @ map (\<lambda>i. if i < length (ch_UpdateNew changes)
                 then UpdateItem (ch_UpdateOld changes ! i) (ch_UpdateNew changes ! i)
                 else BadIndex)
           [0 ..< length (ch_UpdateOld changes)]
     @ map DeleteItem (ch_Delete changes)"

fun process :: "'e Client \<Rightarrow> item \<Rightarrow> 'e world \<Rightarrow> result \<times> 'e world" where
  "process cl (CreateItem endpoint) w = createEndpoint cl endpoint w"
| "process cl (UpdateItem oldEndpoint newEndpoint) w = updateEndpoint cl oldEndpoint newEndpoint w"
| "process cl (DeleteItem endpoint) w = deleteEndpoint cl endpoint w"
| "process cl BadIndex w = (Panicked, w)"

fun run_items :: "'e Client \<Rightarrow> item list \<Rightarrow> 'e world \<Rightarrow> result \<times> 'e world" where
  "run_items cl [] w = (Ok, w)"
| "run_items cl (it # rest) w =
     (case process cl it w of
        (Ok, w1) \<Rightarrow> run_items cl rest w1
      | (res, w1) \<Rightarrow> (res, w1))"

fun attempted :: "'e Client \<Rightarrow> item list \<Rightarrow> 'e world \<Rightarrow> item list" where
  "attempted cl [] w = []"
| "attempted cl (it # rest) w =
     it # (case process cl it w of
             (Ok, w1) \<Rightarrow> attempted cl rest w1
           | (res, w1) \<Rightarrow> [])"

text \<open>The entry log line of an item.\<close>

fun entry_events :: "item \<Rightarrow> event list" where
  "entry_events (CreateItem endpoint) = [Creating (e_DNSName endpoint) (e_Targets endpoint) (e_RecordType endpoint)]"
| "entry_events (UpdateItem oldEndpoint newEndpoint) = [Updating (e_DNSName newEndpoint)]"
| "entry_events (DeleteItem endpoint) = [Deleting (e_DNSName endpoint)]"
| "entry_events BadIndex = []"

section \<open>Properties of package annotations\<close>

lemmas annotation_defs =
  AnnotationPrefix_def AnnotationEnabled_def AnnotationProfileName_def
  AnnotationResourceGroup_def AnnotationHostname_def AnnotationRoutingMethod_def
  AnnotationWeight_def AnnotationPriority_def AnnotationEndpointName_def
  AnnotationEndpointLocation_def AnnotationEndpointStatus_def AnnotationDNSTTL_def
  AnnotationMonitorProtocol_def AnnotationMonitorPort_def AnnotationMonitorPath_def
  AnnotationHealthChecksEnabled_def

lemmas default_defs =
  DefaultRoutingMethod_def DefaultWeight_def DefaultPriority_def DefaultDNSTTL_def
  DefaultMonitorProtocol_def DefaultMonitorPort_def DefaultMonitorPath_def
  DefaultEndpointStatus_def DefaultEndpointType_def

lemmas parse_defs =
  ParseConfig_def present_def parse_string_def parse_int_def parse_health_checks_def bind_err_def
  ToLower_def lower_char_def ParseInt_def ParseUint_def ParseBool_def digit_val_def

text \<open>
  \<^bold>\<open>C3.\<close> When the \<open>enabled\<close> annotation is absent, or its value does not lower to
  \<open>"true"\<close>, \<open>ParseConfig\<close> returns no error and the configuration of defaults with
  \<open>Enabled = false\<close>, whatever the other entries hold; and \<open>ValidateConfig\<close> returns
  \<open>nil\<close> on every disabled configuration.
\<close>

theorem ParseConfig_disabled:
  assumes "ls AnnotationEnabled = None \<or> (\<exists>v. ls AnnotationEnabled = Some v \<and> ToLower v \<noteq> ''true'')"
  shows "ParseConfig tbl ls = Inr default_config \<and> \<not> c_Enabled default_config
         \<and> (\<forall>config. \<not> c_Enabled config \<longrightarrow> ValidateConfig tbl config = None)"
  using assms
  by (auto simp: ParseConfig_def Let_def default_config_def ValidateConfig_def)

theorem ParseConfig_disabled_witness:
  "ParseConfig (\<lambda>r. False) [AnnotationEnabled \<mapsto> ''False'', AnnotationWeight \<mapsto> ''12x'', AnnotationMonitorPort \<mapsto> ''http'']
     = Inr default_config
   \<and> ParseConfig (\<lambda>r. False) [AnnotationWeight \<mapsto> ''12x''] = Inr default_config
   \<and> ValidateConfig (\<lambda>r. False) default_config = None"
  using ParseConfig_disabled [where tbl = "\<lambda>r. False" and ls = "[AnnotationEnabled \<mapsto> ''False'', AnnotationWeight \<mapsto> ''12x'', AnnotationMonitorPort \<mapsto> ''http'']"]
    ParseConfig_disabled [where tbl = "\<lambda>r. False" and ls = "[AnnotationWeight \<mapsto> ''12x'']"]
  by (simp add: annotation_defs ToLower_def lower_char_def default_config_def)

section \<open>Properties of package state\<close>

subsection \<open>What Clone allocates and copies\<close>

lemma EndpointState_Clone_Some:
  "endpoints_at H a = Some es \<Longrightarrow> EndpointState_Clone H a = Some (new_endpoint H es)"
  by (cases es) (simp add: EndpointState_Clone_def)

lemma update_fresh: "k \<notin> fst ` set acc \<Longrightarrow> AList.update k v acc = acc @ [(k, v)]"
  by (induction acc) auto

lemma read_entries_cong:
  "\<forall>(k, a) \<in> set kvs. endpoints_at H' a = endpoints_at H a \<Longrightarrow> read_entries H' kvs = read_entries H kvs"
  by (induction kvs) (auto split: option.splits)

lemma read_entries_length: "read_entries H kvs = Some vs \<Longrightarrow> map fst vs = map fst kvs"
  by (induction kvs arbitrary: vs) (auto split: option.splits)

lemma clone_tags_Some:
  assumes "tmaps_at H m = Some acc" "distinct (map fst ts)" "fst ` set ts \<inter> fst ` set acc = {}"
  shows "\<exists>H'. clone_tags H (Some m) ts = Some H' \<and> tmaps_at H' = (tmaps_at H)(m \<mapsto> acc @ ts)
           \<and> profiles_at H' = profiles_at H \<and> endpoints_at H' = endpoints_at H
           \<and> emaps_at H' = emaps_at H \<and> next_addr H' = next_addr H"
  using assms
proof (induction ts arbitrary: H acc)
  case Nil
  then show ?case by (auto simp: fun_eq_iff)
next
  case (Cons kv ts)
  obtain k v where kv: "kv = (k, v)" by (cases kv)
  from Cons.prems kv have knot: "k \<notin> fst ` set acc" by auto
  define H1 where "H1 = H\<lparr>tmaps_at := (tmaps_at H)(m \<mapsto> acc @ [(k, v)])\<rparr>"
  have st: "tmap_store H (Some m) k v = Some H1"
    using Cons.prems(1) update_fresh[OF knot] by (simp add: tmap_store_def H1_def)
  have f1: "tmaps_at H1 = (tmaps_at H)(m \<mapsto> acc @ [(k, v)])" "profiles_at H1 = profiles_at H"
    "endpoints_at H1 = endpoints_at H" "emaps_at H1 = emaps_at H" "next_addr H1 = next_addr H"
    by (simp_all add: H1_def)
  have "\<exists>H'. clone_tags H1 (Some m) ts = Some H' \<and> tmaps_at H' = (tmaps_at H1)(m \<mapsto> (acc @ [(k, v)]) @ ts)
           \<and> profiles_at H' = profiles_at H1 \<and> endpoints_at H' = endpoints_at H1
           \<and> emaps_at H' = emaps_at H1 \<and> next_addr H' = next_addr H1"
    using Cons.prems kv f1 by (intro Cons.IH) auto
  then obtain H' where H': "clone_tags H1 (Some m) ts = Some H'"
      "tmaps_at H' = (tmaps_at H1)(m \<mapsto> (acc @ [(k, v)]) @ ts)"
      "profiles_at H' = profiles_at H1" "endpoints_at H' = endpoints_at H1"
      "emaps_at H' = emaps_at H1" "next_addr H' = next_addr H1"
    by blast
  have "clone_tags H (Some m) (kv # ts) = Some H'"
    using st kv H'(1) by simp
  moreover have "tmaps_at H' = (tmaps_at H)(m \<mapsto> acc @ kv # ts)"
    using H'(2) f1(1) kv by simp
  ultimately show ?case using H' f1 by (intro exI[of _ H']) simp
qed

lemma clone_endpoints_Some:
  assumes "emaps_at H m = Some acc" "distinct (map fst kvs)" "fst ` set kvs \<inter> fst ` set acc = {}"
    "\<forall>(k, a) \<in> set kvs. a < next_addr H" "read_entries H kvs = Some vs"
  shows "\<exists>H' new. clone_endpoints H (Some m) kvs = Some H'
           \<and> emaps_at H' = (emaps_at H)(m \<mapsto> acc @ new)
           \<and> map fst new = map fst kvs
           \<and> snd ` set new \<subseteq> {next_addr H ..< next_addr H'}
           \<and> read_entries H' new = Some vs
           \<and> next_addr H' = next_addr H + length kvs
           \<and> profiles_at H' = profiles_at H \<and> tmaps_at H' = tmaps_at H
           \<and> (\<forall>a. a < next_addr H \<or> next_addr H' \<le> a \<longrightarrow> endpoints_at H' a = endpoints_at H a)"
  using assms
proof (induction kvs arbitrary: H acc vs)
  case Nil
  then show ?case by (intro exI[of _ H] exI[of _ "[]"]) (simp add: fun_upd_idem)
next
  case (Cons kv kvs)
  obtain k v where kv: "kv = (k, v)" by (cases kv)
  from Cons.prems(5) kv obtain es vs' where es: "endpoints_at H v = Some es"
    and vs': "read_entries H kvs = Some vs'" and vs: "vs = (k, es) # vs'"
    by (auto split: option.splits)
  from Cons.prems kv have knot: "k \<notin> fst ` set acc" by auto
  define b where "b = next_addr H"
  define H1 where "H1 = snd (new_endpoint H es)"
  have cl: "EndpointState_Clone H v = Some (b, H1)"
    using EndpointState_Clone_Some[OF es] by (simp add: new_endpoint_def b_def H1_def)
  have f1: "endpoints_at H1 = (endpoints_at H)(b \<mapsto> es)" "profiles_at H1 = profiles_at H"
    "tmaps_at H1 = tmaps_at H" "emaps_at H1 = emaps_at H" "next_addr H1 = Suc b"
    by (simp_all add: H1_def new_endpoint_def b_def)
  define H2 where "H2 = H1\<lparr>emaps_at := (emaps_at H1)(m \<mapsto> acc @ [(k, b)])\<rparr>"
  have st: "emap_store H1 (Some m) k b = Some H2"
    using Cons.prems(1) f1 update_fresh[OF knot] by (simp add: emap_store_def H2_def)
  have f2: "endpoints_at H2 = (endpoints_at H)(b \<mapsto> es)" "profiles_at H2 = profiles_at H"
    "tmaps_at H2 = tmaps_at H" "emaps_at H2 = (emaps_at H)(m \<mapsto> acc @ [(k, b)])" "next_addr H2 = Suc b"
    using f1 by (simp_all add: H2_def)
  have lt: "\<forall>(k, a) \<in> set kvs. a < b" using Cons.prems(4) by (auto simp: b_def)
  have "\<forall>(k, a) \<in> set kvs. endpoints_at H2 a = endpoints_at H a"
    using lt f2(1) by auto
  then have rd2: "read_entries H2 kvs = Some vs'"
    using read_entries_cong[of kvs H2 H] vs' by simp
  have "\<exists>H' new. clone_endpoints H2 (Some m) kvs = Some H'
           \<and> emaps_at H' = (emaps_at H2)(m \<mapsto> (acc @ [(k, b)]) @ new)
           \<and> map fst new = map fst kvs
           \<and> snd ` set new \<subseteq> {next_addr H2 ..< next_addr H'}
           \<and> read_entries H' new = Some vs'
           \<and> next_addr H' = next_addr H2 + length kvs
           \<and> profiles_at H' = profiles_at H2 \<and> tmaps_at H' = tmaps_at H2
           \<and> (\<forall>a. a < next_addr H2 \<or> next_addr H' \<le> a \<longrightarrow> endpoints_at H' a = endpoints_at H2 a)"
    using Cons.prems kv f2 rd2 lt by (intro Cons.IH) auto
  then obtain H' new where H': "clone_endpoints H2 (Some m) kvs = Some H'"
      "emaps_at H' = (emaps_at H2)(m \<mapsto> (acc @ [(k, b)]) @ new)"
      "map fst new = map fst kvs"
      "snd ` set new \<subseteq> {next_addr H2 ..< next_addr H'}"
      "read_entries H' new = Some vs'"
      "next_addr H' = next_addr H2 + length kvs"
      "profiles_at H' = profiles_at H2" "tmaps_at H' = tmaps_at H2"
      "\<forall>a. a < next_addr H2 \<or> next_addr H' \<le> a \<longrightarrow> endpoints_at H' a = endpoints_at H2 a"
    by blast
  have 1: "clone_endpoints H (Some m) (kv # kvs) = Some H'"
    using cl st kv H'(1) by simp
  have 2: "emaps_at H' = (emaps_at H)(m \<mapsto> acc @ ((k, b) # new))"
    using H'(2) f2(4) by simp
  have 3: "map fst ((k, b) # new) = map fst (kv # kvs)" using H'(3) kv by simp
  have 4: "snd ` set ((k, b) # new) \<subseteq> {next_addr H ..< next_addr H'}"
    using H'(4,6) f2(5) by (auto simp: b_def)
  have "endpoints_at H' b = Some es" using H'(9) f2(1,5) by simp
  then have 5: "read_entries H' ((k, b) # new) = Some vs" using H'(5) vs by simp
  have 6: "next_addr H' = next_addr H + length (kv # kvs)" using H'(6) f2(5) by (simp add: b_def)
  have 7: "\<forall>a. a < next_addr H \<or> next_addr H' \<le> a \<longrightarrow> endpoints_at H' a = endpoints_at H a"
    using H'(9,6) f2(1,5) by (auto simp: b_def)
  show ?case
    using 1 2 3 4 5 6 7 H'(7,8) f2(2,3) by (intro exI[of _ H'] exI[of _ "(k, b) # new"]) simp
qed


lemma read_entries_total:
  "list_all (\<lambda>(k, a). endpoints_at H a \<noteq> None) kvs \<Longrightarrow> \<exists>vs. read_entries H kvs = Some vs"
  by (induction kvs) auto

lemma read_entries_all:
  "read_entries H kvs = Some vs \<Longrightarrow> list_all (\<lambda>(k, a). endpoints_at H a \<noteq> None) kvs"
  by (induction kvs arbitrary: vs) (auto split: option.splits)

lemma heap_ok_lt:
  "heap_ok H \<Longrightarrow> profiles_at H a \<noteq> None \<or> endpoints_at H a \<noteq> None \<or> emaps_at H a \<noteq> None \<or> tmaps_at H a \<noteq> None
     \<Longrightarrow> a < next_addr H"
  unfolding heap_ok_def by (metis not_le)

lemma ProfileState_Clone_spec:
  assumes ok: "heap_ok H" and pok: "profile_ok H p"
  shows "\<exists>q H' v. ProfileState_Clone H p = Some (q, H')
           \<and> heap_ok H' \<and> next_addr H \<le> next_addr H'
           \<and> same_outside {next_addr H ..< next_addr H'} H H'
           \<and> profile_ok H' q
           \<and> footprint H' q \<subseteq> {next_addr H ..< next_addr H'}
           \<and> profile_value H' q = Some v \<and> profile_value H p = Some v"
proof -
  from pok obtain ps where ps: "profiles_at H p = Some ps"
    by (auto simp: profile_ok_def split: option.splits)
  from pok ps obtain kvs where kvs: "emap_entries H (ps_Endpoints ps) = Some kvs"
    and dk: "distinct (map fst kvs)" and ak: "list_all (\<lambda>(k, a). endpoints_at H a \<noteq> None) kvs"
    by (auto simp: profile_ok_def split: option.splits)
  from pok ps obtain ts where ts: "tmap_entries H (ps_Tags ps) = Some ts" and dt: "distinct (map fst ts)"
    by (auto simp: profile_ok_def split: option.splits)
  from read_entries_total[OF ak] obtain vs where vs: "read_entries H kvs = Some vs" by blast
  define n where "n = next_addr H"
  define cs where "cs =
     \<lparr> ps_ProfileName = ps_ProfileName ps, ps_ResourceGroup = ps_ResourceGroup ps,
       ps_Hostname = ps_Hostname ps, ps_FQDN = ps_FQDN ps,
       ps_RoutingMethod = ps_RoutingMethod ps, ps_DNSTTL = ps_DNSTTL ps,
       ps_Endpoints = Some n, ps_Tags = Some (Suc n),
       ps_CreatedAt = ps_CreatedAt ps, ps_UpdatedAt = ps_UpdatedAt ps,
       ps_CachedAt = ps_CachedAt ps \<rparr>"
  define H3 where "H3 = snd (new_profile (snd (make_tmap (snd (make_emap H)))) cs)"
  have f3: "profiles_at H3 = (profiles_at H)(Suc (Suc n) \<mapsto> cs)" "endpoints_at H3 = endpoints_at H"
    "emaps_at H3 = (emaps_at H)(n \<mapsto> [])" "tmaps_at H3 = (tmaps_at H)(Suc n \<mapsto> [])"
    "next_addr H3 = Suc (Suc (Suc n))"
    by (simp_all add: H3_def new_profile_def make_tmap_def make_emap_def n_def)
  have unf: "ProfileState_Clone H p =
      (case emap_entries H3 (ps_Endpoints ps) of
         None \<Rightarrow> None
       | Some es \<Rightarrow>
           (case clone_endpoints H3 (Some n) es of
              None \<Rightarrow> None
            | Some H4 \<Rightarrow>
                (case tmap_entries H4 (ps_Tags ps) of
                   None \<Rightarrow> None
                 | Some ts \<Rightarrow>
                     (case clone_tags H4 (Some (Suc n)) ts of
                        None \<Rightarrow> None
                      | Some H5 \<Rightarrow> Some (Suc (Suc n), H5)))))"
    using ps unfolding ProfileState_Clone_def H3_def new_profile_def make_tmap_def make_emap_def n_def cs_def
    by (simp add: Let_def cong: option.case_cong)
  have fresh: "profiles_at H a = None" "endpoints_at H a = None" "emaps_at H a = None" "tmaps_at H a = None"
    if "n \<le> a" for a
    using ok that by (auto simp: heap_ok_def n_def)
  have kvs3: "emap_entries H3 (ps_Endpoints ps) = Some kvs"
    using kvs fresh(3)[of n] f3(3) by (auto simp: emap_entries_def split: option.splits)
  have lt: "\<forall>(k, a) \<in> set kvs. a < next_addr H3"
  proof -
    have "a < n" if "(k, a) \<in> set kvs" for k a
    proof -
      have "endpoints_at H a \<noteq> None" using ak that by (auto simp: list_all_iff)
      then show ?thesis using fresh(2)[of a] by (cases "n \<le> a") auto
    qed
    then show ?thesis using f3(5) by (fastforce simp: less_Suc_eq)
  qed
  have vs3: "read_entries H3 kvs = Some vs"
    using vs read_entries_cong[of kvs H3 H] f3(2) by simp
  have "\<exists>H' new. clone_endpoints H3 (Some n) kvs = Some H'
           \<and> emaps_at H' = (emaps_at H3)(n \<mapsto> [] @ new)
           \<and> map fst new = map fst kvs
           \<and> snd ` set new \<subseteq> {next_addr H3 ..< next_addr H'}
           \<and> read_entries H' new = Some vs
           \<and> next_addr H' = next_addr H3 + length kvs
           \<and> profiles_at H' = profiles_at H3 \<and> tmaps_at H' = tmaps_at H3
           \<and> (\<forall>a. a < next_addr H3 \<or> next_addr H' \<le> a \<longrightarrow> endpoints_at H' a = endpoints_at H3 a)"
    using dk lt vs3 f3(3) by (intro clone_endpoints_Some) auto
  then obtain H4 new where H4: "clone_endpoints H3 (Some n) kvs = Some H4"
      "emaps_at H4 = (emaps_at H3)(n \<mapsto> [] @ new)"
      "map fst new = map fst kvs"
      "snd ` set new \<subseteq> {next_addr H3 ..< next_addr H4}"
      "read_entries H4 new = Some vs"
      "next_addr H4 = next_addr H3 + length kvs"
      "profiles_at H4 = profiles_at H3" "tmaps_at H4 = tmaps_at H3"
      "\<forall>a. a < next_addr H3 \<or> next_addr H4 \<le> a \<longrightarrow> endpoints_at H4 a = endpoints_at H3 a"
    by blast
  have ts4: "tmap_entries H4 (ps_Tags ps) = Some ts"
    using ts fresh(4)[of "Suc n"] f3(4) H4(8) by (auto simp: tmap_entries_def split: option.splits)
  have "\<exists>H'. clone_tags H4 (Some (Suc n)) ts = Some H' \<and> tmaps_at H' = (tmaps_at H4)(Suc n \<mapsto> [] @ ts)
           \<and> profiles_at H' = profiles_at H4 \<and> endpoints_at H' = endpoints_at H4
           \<and> emaps_at H' = emaps_at H4 \<and> next_addr H' = next_addr H4"
    using dt H4(8) f3(4) by (intro clone_tags_Some) auto
  then obtain H5 where H5: "clone_tags H4 (Some (Suc n)) ts = Some H5"
      "tmaps_at H5 = (tmaps_at H4)(Suc n \<mapsto> [] @ ts)"
      "profiles_at H5 = profiles_at H4" "endpoints_at H5 = endpoints_at H4"
      "emaps_at H5 = emaps_at H4" "next_addr H5 = next_addr H4"
    by blast
  define n' where "n' = n + 3 + length kvs"
  have g: "profiles_at H5 = (profiles_at H)(Suc (Suc n) \<mapsto> cs)"
      "emaps_at H5 = (emaps_at H)(n \<mapsto> new)" "tmaps_at H5 = (tmaps_at H)(Suc n \<mapsto> ts)"
      "next_addr H5 = n'"
      "\<forall>a. a < n \<or> n' \<le> a \<longrightarrow> endpoints_at H5 a = endpoints_at H a"
    using H5 H4 f3 by (auto simp: n'_def)
  have res: "ProfileState_Clone H p = Some (Suc (Suc n), H5)"
    using unf kvs3 H4(1) ts4 H5(1) by simp
  have rd5: "read_entries H5 new = Some vs" using H4(5) H5(4) read_entries_cong[of new H5 H4] by simp
  have newr: "snd ` set new \<subseteq> {n ..< n'}" using H4(4,6) f3(5) by (auto simp: n'_def)
  have 1: "heap_ok H5"
    unfolding heap_ok_def using g fresh by (auto simp: n'_def)
  have 2: "next_addr H \<le> next_addr H5" using g(4) by (simp add: n_def n'_def)
  have 3: "same_outside {next_addr H ..< next_addr H5} H H5"
    unfolding same_outside_def using g by (auto simp: n_def[symmetric] n'_def)
  have 4: "profile_ok H5 (Suc (Suc n))"
    using g(1,2,3) H4(3) dk dt read_entries_all[OF rd5]
    by (simp add: profile_ok_def emap_entries_def tmap_entries_def cs_def)
  have 5: "footprint H5 (Suc (Suc n)) \<subseteq> {next_addr H ..< next_addr H5}"
    using g(1,2,4) newr by (auto simp: footprint_def emap_entries_def cs_def n_def[symmetric] n'_def)
  have 6: "profile_value H5 (Suc (Suc n)) = profile_value H p"
    using g(1,2,3) rd5 ps kvs vs ts
    by (simp add: profile_value_def emap_entries_def tmap_entries_def cs_def)
  have 7: "\<exists>v. profile_value H p = Some v"
    using ps kvs vs ts by (simp add: profile_value_def)
  show ?thesis using res 1 2 3 4 5 6 7 by auto
qed


lemma frame:
  assumes "same_outside S H H'" "footprint H p \<inter> S = {}"
  shows "profile_value H' p = profile_value H p" "footprint H' p = footprint H p"
    "profile_ok H' p = profile_ok H p" "profiles_at H' p = profiles_at H p"
proof -
  have p: "profiles_at H' p = profiles_at H p"
    using assms by (auto simp: same_outside_def footprint_def split: option.splits)
  show "profiles_at H' p = profiles_at H p" by fact
  have "profile_value H' p = profile_value H p \<and> footprint H' p = footprint H p \<and> profile_ok H' p = profile_ok H p"
  proof (cases "profiles_at H p")
    case None
    then show ?thesis using p by (simp add: profile_value_def footprint_def profile_ok_def)
  next
    case (Some ps)
    have em: "emap_entries H' (ps_Endpoints ps) = emap_entries H (ps_Endpoints ps)"
      using assms Some by (auto simp: same_outside_def footprint_def emap_entries_def split: option.splits)
    have tm: "tmap_entries H' (ps_Tags ps) = tmap_entries H (ps_Tags ps)"
      using assms Some by (auto simp: same_outside_def footprint_def tmap_entries_def split: option.splits)
    have rd: "endpoints_at H' a = endpoints_at H a"
      if "emap_entries H (ps_Endpoints ps) = Some kvs" "(k, a) \<in> set kvs" for kvs k a
    proof -
      have "a \<in> footprint H p" using that Some by (force simp: footprint_def)
      then show ?thesis using assms by (auto simp: same_outside_def)
    qed
    have re: "read_entries H' kvs = read_entries H kvs" "list_all (\<lambda>(k, a). endpoints_at H' a \<noteq> None) kvs
        = list_all (\<lambda>(k, a). endpoints_at H a \<noteq> None) kvs"
      if "emap_entries H (ps_Endpoints ps) = Some kvs" for kvs
      using rd[OF that] read_entries_cong[of kvs H' H] by (auto simp: list_all_iff)
    show ?thesis
      using Some p em tm re
      by (auto simp: profile_value_def footprint_def profile_ok_def split: option.splits)
  qed
  then show "profile_value H' p = profile_value H p" "footprint H' p = footprint H p"
    "profile_ok H' p = profile_ok H p" by auto
qed


lemma footprint_allocated:
  assumes "heap_ok H" "profile_ok H p"
  shows "footprint H p \<subseteq> {..< next_addr H}"
proof
  fix a assume a: "a \<in> footprint H p"
  from assms(2) obtain ps where ps: "profiles_at H p = Some ps"
    by (auto simp: profile_ok_def split: option.splits)
  have "profiles_at H a \<noteq> None \<or> endpoints_at H a \<noteq> None \<or> emaps_at H a \<noteq> None \<or> tmaps_at H a \<noteq> None"
    using a assms(2) ps
    by (auto simp: footprint_def profile_ok_def emap_entries_def tmap_entries_def list_all_iff
        split: option.splits)
  then show "a \<in> {..< next_addr H}" using heap_ok_lt[OF assms(1)] by simp
qed

lemma SetProfile_spec:
  assumes ok: "heap_ok H" and pok: "profile_ok H p"
  shows "\<exists>s H1 v. SetProfile now M H hostname p = Some (M\<lparr>m_profiles := (m_profiles M)(hostname \<mapsto> s)\<rparr>, H1)
           \<and> heap_ok H1 \<and> next_addr H \<le> s \<and> next_addr H \<le> next_addr H1
           \<and> profile_ok H1 s
           \<and> footprint H1 s \<subseteq> {next_addr H ..< next_addr H1}
           \<and> profile_value H p = Some v
           \<and> profile_value H1 s = Some (v\<lparr>v_CachedAt := now\<rparr>)
           \<and> same_outside ({p} \<union> {next_addr H ..< next_addr H1}) H H1"
proof -
  from pok obtain ps where ps: "profiles_at H p = Some ps"
    by (auto simp: profile_ok_def split: option.splits)
  define H0 where "H0 = H\<lparr>profiles_at := (profiles_at H)(p \<mapsto> ps\<lparr>ps_CachedAt := now\<rparr>)\<rparr>"
  have f0: "profiles_at H0 = (profiles_at H)(p \<mapsto> ps\<lparr>ps_CachedAt := now\<rparr>)"
    "endpoints_at H0 = endpoints_at H" "emaps_at H0 = emaps_at H" "tmaps_at H0 = tmaps_at H"
    "next_addr H0 = next_addr H"
    by (simp_all add: H0_def)
  have plt: "p < next_addr H" using heap_ok_lt[OF ok, of p] ps by simp
  have ok0: "heap_ok H0" using ok plt f0 by (auto simp: heap_ok_def)
  have pok0: "profile_ok H0 p"
    using pok ps f0 by (auto simp: profile_ok_def emap_entries_def tmap_entries_def split: option.splits)
  from ProfileState_Clone_spec[OF ok pok] obtain v where v: "profile_value H p = Some v" by blast
  have v0: "profile_value H0 p = Some (v\<lparr>v_CachedAt := now\<rparr>)"
  proof -
    have "read_entries H0 kvs = read_entries H kvs" for kvs
      using read_entries_cong[of kvs H0 H] f0(2) by simp
    then show ?thesis
      using v ps f0 by (auto simp: profile_value_def emap_entries_def tmap_entries_def split: option.splits)
  qed
  from ProfileState_Clone_spec[OF ok0 pok0] obtain s H1 w where
    cl: "ProfileState_Clone H0 p = Some (s, H1)" and ok1: "heap_ok H1"
    and le: "next_addr H0 \<le> next_addr H1"
    and so: "same_outside {next_addr H0 ..< next_addr H1} H0 H1"
    and pok1: "profile_ok H1 s" and fp: "footprint H1 s \<subseteq> {next_addr H0 ..< next_addr H1}"
    and w: "profile_value H1 s = Some w" "profile_value H0 p = Some w"
    by blast
  have "s \<in> footprint H1 s" by (auto simp: footprint_def split: option.splits)
  then have sge: "next_addr H \<le> s" using fp f0(5) by auto
  have res: "SetProfile now M H hostname p = Some (M\<lparr>m_profiles := (m_profiles M)(hostname \<mapsto> s)\<rparr>, H1)"
    using ps cl unfolding SetProfile_def H0_def by (simp add: Let_def)
  have so': "same_outside ({p} \<union> {next_addr H ..< next_addr H1}) H H1"
    using so f0 by (auto simp: same_outside_def)
  show ?thesis
    using res ok1 sge le f0(5) pok1 fp v w v0 so' by auto
qed

subsection \<open>Expiry on read\<close>

lemma Since_exact: "minDuration \<le> now - t \<Longrightarrow> now - t \<le> maxDuration \<Longrightarrow> Since now t = now - t"
  by (simp add: Since_def Sub_def)

text \<open>
  \<^bold>\<open>C7.\<close> \<open>GetProfile\<close> reports the entry absent exactly when nothing is stored for the
  hostname, or the stored \<open>CachedAt\<close> is the zero time, or the time since \<open>CachedAt\<close>
  (\<open>time.Since\<close>, the saturating difference \<open>now - CachedAt\<close>) exceeds the TTL. It returns
  the manager as it was, so an expired entry stays in the map, with the value it had; a later
  \<open>SetProfile\<close> for the hostname replaces the stored pointer by a new object.
\<close>

theorem GetProfile_absent_iff:
  assumes "heap_ok H" "entry_ok M H hostname"
  shows "\<exists>r H'. GetProfile now M H hostname = Some (r, M, H')
           \<and> (r = None \<longleftrightarrow>
                (m_profiles M hostname = None
                 \<or> (\<exists>p ps. m_profiles M hostname = Some p \<and> profiles_at H p = Some ps
                       \<and> (ps_CachedAt ps = 0 \<or> Since now (ps_CachedAt ps) > m_cacheTTL M))))
           \<and> (\<forall>p. m_profiles M hostname = Some p \<longrightarrow>
                 profile_value H' p = profile_value H p \<and> profile_value H p \<noteq> None)
           \<and> (\<forall>t p2. profile_ok H' p2 \<longrightarrow>
                 (\<exists>s H2. SetProfile t M H' hostname p2
                            = Some (M\<lparr>m_profiles := (m_profiles M)(hostname \<mapsto> s)\<rparr>, H2)
                        \<and> m_profiles M hostname \<noteq> Some s))"
proof -
  have later: "\<exists>s H2. SetProfile t M H' hostname p2
                            = Some (M\<lparr>m_profiles := (m_profiles M)(hostname \<mapsto> s)\<rparr>, H2)
                        \<and> m_profiles M hostname \<noteq> Some s"
    if ok': "heap_ok H'" and le: "next_addr H \<le> next_addr H'" and p2: "profile_ok H' p2" for H' t p2
  proof -
    from SetProfile_spec[OF ok' p2, of t M hostname] obtain s H2 where
      s: "SetProfile t M H' hostname p2 = Some (M\<lparr>m_profiles := (m_profiles M)(hostname \<mapsto> s)\<rparr>, H2)"
      "next_addr H' \<le> s"
      by blast
    have "m_profiles M hostname \<noteq> Some s"
    proof
      assume st: "m_profiles M hostname = Some s"
      then have "profile_ok H s" using assms(2) by (simp add: entry_ok_def)
      then have "profiles_at H s \<noteq> None" by (auto simp: profile_ok_def split: option.splits)
      then have "s < next_addr H" using heap_ok_lt[OF assms(1), of s] by simp
      then show False using s(2) le by simp
    qed
    then show ?thesis using s(1) by blast
  qed
  show ?thesis
  proof (cases "m_profiles M hostname")
    case None
    then show ?thesis using later[OF assms(1)] by (simp add: GetProfile_def)
  next
    case (Some p)
    then have pok: "profile_ok H p" using assms(2) by (simp add: entry_ok_def)
    then obtain ps where ps: "profiles_at H p = Some ps"
      by (auto simp: profile_ok_def split: option.splits)
    from ProfileState_Clone_spec[OF assms(1) pok] obtain q H' v where
      cl: "ProfileState_Clone H p = Some (q, H')" and ok': "heap_ok H'"
      and le: "next_addr H \<le> next_addr H'"
      and so: "same_outside {next_addr H ..< next_addr H'} H H'"
      and v: "profile_value H p = Some v"
      by blast
    have "footprint H p \<inter> {next_addr H ..< next_addr H'} = {}"
      using footprint_allocated[OF assms(1) pok] by fastforce
    from frame(1)[OF so this] have fr: "profile_value H' p = profile_value H p" .
    show ?thesis
    proof (cases "IsExpired ps (m_cacheTTL M) now")
      case True
      then have "GetProfile now M H hostname = Some (None, M, H)"
        using Some ps by (simp add: GetProfile_def)
      then show ?thesis
        using Some ps v True later[OF assms(1)] by (simp add: IsExpired_def split: if_splits)
    next
      case False
      then have "GetProfile now M H hostname = Some (Some q, M, H')"
        using Some ps cl by (simp add: GetProfile_def)
      then show ?thesis
        using Some ps v fr False later[OF ok' le] by (simp add: IsExpired_def split: if_splits)
    qed
  qed
qed

theorem GetProfile_absent_iff_witness:
  "heap_ok demo_heap \<and> entry_ok demo_manager demo_heap ''app.example.com''
   \<and> (\<exists>r H'. GetProfile 301000 demo_manager demo_heap ''app.example.com'' = Some (r, demo_manager, H')
         \<and> r = None \<and> Since 301000 500 > m_cacheTTL demo_manager)
   \<and> (\<exists>r H'. GetProfile 1000 demo_manager demo_heap ''app.example.com'' = Some (r, demo_manager, H')
         \<and> r \<noteq> None)"
proof -
  have ok: "heap_ok demo_heap" by (auto simp: heap_ok_def demo_heap_def)
  have en: "entry_ok demo_manager demo_heap ''app.example.com''"
    by (simp add: entry_ok_def demo_manager_def demo_heap_def profile_ok_def emap_entries_def
        tmap_entries_def demo_profile_def)
  have st: "m_profiles demo_manager ''app.example.com'' = Some 4"
    "profiles_at demo_heap 4 = Some demo_profile" "ps_CachedAt demo_profile = 500"
    "m_cacheTTL demo_manager = 300000"
    by (simp_all add: demo_manager_def demo_heap_def demo_profile_def)
  have s1: "Since 301000 500 > (300000 :: int)" "\<not> Since 1000 500 > (300000 :: int)"
    by (simp_all add: Since_def Sub_def maxDuration_def minDuration_def)
  show ?thesis
    using ok en st s1
      GetProfile_absent_iff [OF ok en, of 301000] GetProfile_absent_iff [OF ok en, of 1000]
    by auto
qed

lemma profile_value_CachedAt:
  "profile_value H p = Some v \<Longrightarrow> profiles_at H p = Some ps \<Longrightarrow> v_CachedAt v = ps_CachedAt ps"
  by (auto simp: profile_value_def split: option.splits)

subsection \<open>Round trip through the mirror\<close>

text \<open>
  \<^bold>\<open>C8.\<close> After \<open>SetProfile(h, p)\<close> at time \<open>now\<close>, a \<open>GetProfile(h)\<close> before the entry
  expires finds it and returns a pointer \<open>q\<close> whose value is the stored value: the value of
  \<open>p\<close> with \<open>CachedAt\<close> stamped \<open>now\<close>. The objects reachable from \<open>q\<close> (the struct,
  its \<open>Endpoints\<close> and \<open>Tags\<close> maps, the endpoint structs) are disjoint from those of
  the stored entry \<open>s\<close>. So whatever a caller writes through \<open>q\<close>, and whatever it
  allocates, the stored entry keeps its value and another \<open>GetProfile\<close> returns it again.
  The clock is not at the zero time when \<open>SetProfile\<close> reads it, and the entry is read
  within its TTL.
\<close>

theorem SetProfile_GetProfile_roundtrip:
  assumes ok: "heap_ok H" and pok: "profile_ok H p"
    and nz: "now \<noteq> 0" and fresh: "Since now' now \<le> m_cacheTTL M"
  shows "\<exists>M1 H1 s q H2 v0.
           SetProfile now M H hostname p = Some (M1, H1) \<and> m_profiles M1 hostname = Some s
         \<and> GetProfile now' M1 H1 hostname = Some (Some q, M1, H2)
         \<and> profile_value H p = Some v0
         \<and> profile_value H2 s = Some (v0\<lparr>v_CachedAt := now\<rparr>)
         \<and> profile_value H2 q = Some (v0\<lparr>v_CachedAt := now\<rparr>)
         \<and> footprint H2 q \<inter> footprint H2 s = {}
         \<and> (\<forall>H3. heap_ok H3 \<and> same_outside (footprint H2 q \<union> {next_addr H2 ..}) H2 H3 \<longrightarrow>
                profile_value H3 s = Some (v0\<lparr>v_CachedAt := now\<rparr>)
              \<and> (\<exists>q' H4. GetProfile now' M1 H3 hostname = Some (Some q', M1, H4)
                          \<and> profile_value H4 q' = Some (v0\<lparr>v_CachedAt := now\<rparr>)))"
proof -
  from SetProfile_spec[OF ok pok, of now M hostname] obtain s H1 v0 where
    set: "SetProfile now M H hostname p = Some (M\<lparr>m_profiles := (m_profiles M)(hostname \<mapsto> s)\<rparr>, H1)"
    and ok1: "heap_ok H1" and pok1: "profile_ok H1 s"
    and fp1: "footprint H1 s \<subseteq> {next_addr H ..< next_addr H1}"
    and v0: "profile_value H p = Some v0"
    and v1: "profile_value H1 s = Some (v0\<lparr>v_CachedAt := now\<rparr>)"
    by blast
  define M1 where "M1 = M\<lparr>m_profiles := (m_profiles M)(hostname \<mapsto> s)\<rparr>"
  define v where "v = v0\<lparr>v_CachedAt := now\<rparr>"
  have m1: "m_profiles M1 hostname = Some s" "m_cacheTTL M1 = m_cacheTTL M" by (simp_all add: M1_def)
  from pok1 obtain ps where ps: "profiles_at H1 s = Some ps"
    by (auto simp: profile_ok_def split: option.splits)
  have ca: "ps_CachedAt ps = now"
    using profile_value_CachedAt[OF v1 ps] by simp
  have nexp: "\<not> IsExpired ps (m_cacheTTL M1) now'"
    using ca nz fresh m1(2) by (simp add: IsExpired_def)
  from ProfileState_Clone_spec[OF ok1 pok1] obtain q H2 w where
    cl: "ProfileState_Clone H1 s = Some (q, H2)" and ok2: "heap_ok H2"
    and so: "same_outside {next_addr H1 ..< next_addr H2} H1 H2"
    and fpq: "footprint H2 q \<subseteq> {next_addr H1 ..< next_addr H2}"
    and w: "profile_value H2 q = Some w" "profile_value H1 s = Some w"
    by blast
  have wv: "w = v" using w(2) v1 by (simp add: v_def)
  have get: "GetProfile now' M1 H1 hostname = Some (Some q, M1, H2)"
    using m1 ps nexp cl by (simp add: GetProfile_def)
  have disj1: "footprint H1 s \<inter> {next_addr H1 ..< next_addr H2} = {}"
    using fp1 by auto
  have fps2: "footprint H2 s = footprint H1 s" and vs2: "profile_value H2 s = Some v"
    and pok2: "profile_ok H2 s" and ps2: "profiles_at H2 s = Some ps"
    using frame[OF so disj1] v1 pok1 ps by (simp_all add: v_def)
  have disj: "footprint H2 q \<inter> footprint H2 s = {}"
    using fps2 fp1 fpq by fastforce
  have later: "profile_value H3 s = Some v
              \<and> (\<exists>q' H4. GetProfile now' M1 H3 hostname = Some (Some q', M1, H4)
                          \<and> profile_value H4 q' = Some v)"
    if ok3: "heap_ok H3" and so3: "same_outside (footprint H2 q \<union> {next_addr H2 ..}) H2 H3" for H3
  proof -
    have "footprint H2 s \<subseteq> {..< next_addr H2}" using footprint_allocated[OF ok2 pok2] .
    then have d3: "footprint H2 s \<inter> (footprint H2 q \<union> {next_addr H2 ..}) = {}"
      using disj by auto
    have vs3: "profile_value H3 s = Some v" and pok3: "profile_ok H3 s"
      and ps3: "profiles_at H3 s = Some ps"
      using frame[OF so3 d3] vs2 pok2 ps2 by simp_all
    from ProfileState_Clone_spec[OF ok3 pok3] obtain q' H4 u where
      cl3: "ProfileState_Clone H3 s = Some (q', H4)"
      and u: "profile_value H4 q' = Some u" "profile_value H3 s = Some u"
      by blast
    have "GetProfile now' M1 H3 hostname = Some (Some q', M1, H4)"
      using m1 ps3 nexp cl3 by (simp add: GetProfile_def)
    then show ?thesis using vs3 u by auto
  qed
  show ?thesis
    using set m1(1) get v0 vs2 w(1) wv disj later unfolding M1_def[symmetric] v_def
    by blast
qed

theorem SetProfile_GetProfile_roundtrip_witness:
  "heap_ok demo_heap \<and> profile_ok demo_heap 4 \<and> Since 1000 1000 \<le> m_cacheTTL demo_manager
   \<and> (\<exists>M1 H1 s q H2.
           SetProfile 1000 demo_manager demo_heap ''app.example.com'' 4 = Some (M1, H1)
         \<and> m_profiles M1 ''app.example.com'' = Some s
         \<and> GetProfile 1000 M1 H1 ''app.example.com'' = Some (Some q, M1, H2)
         \<and> profile_value H2 q = Some (demo_value\<lparr>v_CachedAt := 1000\<rparr>)
         \<and> profile_value H2 s = Some (demo_value\<lparr>v_CachedAt := 1000\<rparr>)
         \<and> footprint H2 q \<inter> footprint H2 s = {})"
proof -
  have ok: "heap_ok demo_heap" by (auto simp: heap_ok_def demo_heap_def)
  have pok: "profile_ok demo_heap 4"
    by (simp add: demo_heap_def profile_ok_def emap_entries_def tmap_entries_def demo_profile_def)
  have fr: "Since 1000 1000 \<le> m_cacheTTL demo_manager"
    by (simp add: Since_def Sub_def maxDuration_def minDuration_def demo_manager_def)
  have v: "profile_value demo_heap 4 = Some demo_value"
    by (simp add: demo_heap_def profile_value_def emap_entries_def tmap_entries_def demo_profile_def
        demo_value_def demo_endpoint_def)
  show ?thesis
    using ok pok fr v
      SetProfile_GetProfile_roundtrip [OF ok pok _ fr, of "''app.example.com''"]
    by fastforce
qed

subsection \<open>Endpoints of a profile that is not stored\<close>

text \<open>
  \<^bold>\<open>C10.\<close> \<open>SetEndpoint\<close> for a hostname with no stored profile returns without a
  panic and leaves the manager and the heap as they were; a \<open>GetEndpoint\<close> for that
  hostname and endpoint name then reports not found.
\<close>

theorem SetEndpoint_absent_noop:
  assumes "m_profiles M hostname = None"
  shows "SetEndpoint now1 now2 M H hostname endpointName endpoint = Some (M, H)
         \<and> GetEndpoint now M H hostname endpointName = Some (None, M, H)"
  using assms by (simp add: SetEndpoint_def GetEndpoint_def GetProfile_def)

theorem SetEndpoint_absent_noop_witness:
  "m_profiles demo_manager ''other.example.com'' = None
   \<and> SetEndpoint 1000 1001 demo_manager demo_heap ''other.example.com'' ''ep1'' 1 = Some (demo_manager, demo_heap)
   \<and> GetEndpoint 1002 demo_manager demo_heap ''other.example.com'' ''ep1'' = Some (None, demo_manager, demo_heap)"
proof -
  have a: "m_profiles demo_manager ''other.example.com'' = None"
    by (simp add: demo_manager_def)
  show ?thesis using a SetEndpoint_absent_noop [OF a] by simp
qed


section \<open>Properties of package provider\<close>

subsection \<open>What each step does to the trace and to the mirror\<close>

lemma invoke_fields:
  assumes "invoke ev f w = (r, w')"
  shows "w_trace w' = w_trace w @ [ev]" "w_manager w' = w_manager w" "w_heap w' = w_heap w"
    "f (w_env w) = (r, w_env w')"
  using assms by (auto simp: invoke_def split: prod.splits)

lemma invoke_eq:
  assumes "f (w_env w) = (r, e')"
  shows "invoke ev f w = (r, w\<lparr>w_env := e', w_trace := w_trace w @ [ev]\<rparr>)"
  using assms by (simp add: invoke_def)

lemma mirror_fields:
  assumes "mirror f w = Some w'"
  shows "w_trace w' = w_trace w" "w_env w' = w_env w"
    "f (w_manager w) (w_heap w) = Some (w_manager w', w_heap w')"
  using assms by (auto simp: mirror_def split: option.splits)

lemma SetProfile_keys:
  assumes "SetProfile now M H hostname p = Some (M', H')"
  shows "\<exists>s. M' = M\<lparr>m_profiles := (m_profiles M)(hostname \<mapsto> s)\<rparr>"
  using assms by (auto simp: SetProfile_def Let_def split: option.splits)

lemma SetEndpoint_manager:
  assumes "SetEndpoint now1 now2 M H hostname name a = Some (M', H')"
  shows "M' = M"
  using assms by (auto simp: SetEndpoint_def Let_def split: option.splits prod.splits if_splits)

lemma DeleteEndpoint_manager:
  assumes "DeleteEndpoint now1 now2 M H hostname name = Some (M', H')"
  shows "M' = M"
  using assms by (auto simp: DeleteEndpoint_def split: option.splits)

lemma store_profile_fields:
  assumes "store_profile cl hostname v w = Some w'"
  shows "w_trace w' = w_trace w" "w_env w' = w_env w"
    "\<exists>s. w_manager w' = (w_manager w)\<lparr>m_profiles := (m_profiles (w_manager w))(hostname \<mapsto> s)\<rparr>"
proof -
  obtain p H1 where pl: "place_profile (w_heap w) (v\<lparr>v_Hostname := hostname\<rparr>) = (p, H1)"
    by (cases "place_profile (w_heap w) (v\<lparr>v_Hostname := hostname\<rparr>)")
  have m: "mirror (\<lambda>M H. SetProfile (time_Now cl (w_env w)) M H hostname p) (w\<lparr>w_heap := H1\<rparr>) = Some w'"
    using assms pl by (simp add: store_profile_def)
  from mirror_fields[OF m] show "w_trace w' = w_trace w" "w_env w' = w_env w" by simp_all
  from mirror_fields(3)[OF m] SetProfile_keys
  show "\<exists>s. w_manager w' = (w_manager w)\<lparr>m_profiles := (m_profiles (w_manager w))(hostname \<mapsto> s)\<rparr>"
    by fastforce
qed

lemma store_endpoint_fields:
  assumes "store_endpoint cl hostname name es w = Some w'"
  shows "w_trace w' = w_trace w" "w_env w' = w_env w" "w_manager w' = w_manager w"
proof -
  obtain a H1 where ne: "new_endpoint (w_heap w) (convertToStateEndpoint es) = (a, H1)"
    by (cases "new_endpoint (w_heap w) (convertToStateEndpoint es)")
  have m: "mirror (\<lambda>M H. SetEndpoint (time_Now cl (w_env w)) (time_Now cl (w_env w)) M H hostname name a)
             (w\<lparr>w_heap := H1\<rparr>) = Some w'"
    using assms ne by (simp add: store_endpoint_def Let_def)
  from mirror_fields[OF m] show "w_trace w' = w_trace w" "w_env w' = w_env w" by simp_all
  from mirror_fields(3)[OF m] SetEndpoint_manager show "w_manager w' = w_manager w"
    by fastforce
qed

lemma adds_onlyI:
  "w_trace w' = w_trace w @ cs \<Longrightarrow> list_all P cs \<Longrightarrow> adds_only P w w'"
  by (simp add: adds_only_def new_events_def)

lemma adds_onlyD:
  "adds_only P w w' \<Longrightarrow> w_trace w' = w_trace w @ new_events w w' \<and> list_all P (new_events w w')"
  unfolding adds_only_def new_events_def by (metis append_take_drop_id)

lemma adds_only_refl: "adds_only P w w"
  by (simp add: adds_only_def new_events_def)

lemma adds_only_trans:
  assumes "adds_only P w w1" "adds_only P w1 w2"
  shows "adds_only P w w2"
proof -
  from adds_onlyD[OF assms(1)] adds_onlyD[OF assms(2)]
  have "w_trace w2 = w_trace w @ (new_events w w1 @ new_events w1 w2)"
    "list_all P (new_events w w1 @ new_events w1 w2)" by simp_all
  then show ?thesis by (rule adds_onlyI)
qed

lemma adds_only_mono: "adds_only P w w' \<Longrightarrow> (\<And>ev. P ev \<Longrightarrow> Q ev) \<Longrightarrow> adds_only Q w w'"
  by (auto simp: adds_only_def list_all_iff)

lemma new_events_trans:
  assumes "adds_only P w w1" "adds_only Q w1 w2"
  shows "new_events w w2 = new_events w w1 @ new_events w1 w2"
proof -
  define X where "X = new_events w w1 @ new_events w1 w2"
  from adds_onlyD[OF assms(1)] adds_onlyD[OF assms(2)]
  have "w_trace w2 = w_trace w @ X" by (simp add: X_def)
  then have "new_events w w2 = X" by (simp add: new_events_def)
  then show ?thesis by (simp add: X_def)
qed

lemma keeps_keys_refl: "keeps_keys k w w"
  by (simp add: keeps_keys_def)

lemma keeps_keys_trans: "keeps_keys k w w1 \<Longrightarrow> keeps_keys k w1 w2 \<Longrightarrow> keeps_keys k w w2"
  by (simp add: keeps_keys_def)

lemma keeps_keys_same: "w_manager w' = w_manager w \<Longrightarrow> keeps_keys k w w'"
  by (simp add: keeps_keys_def)

lemma invoke_adds_only:
  assumes "invoke ev f w = (r, w')" "P ev"
  shows "adds_only P w w'"
  using invoke_fields[OF assms(1)] assms(2)
  by (auto simp: adds_only_def new_events_def)

lemma invoke_keeps:
  assumes "invoke ev f w = (r, w')"
  shows "keeps_keys k w w'" "new_events w w' = [ev]"
  using invoke_fields[OF assms(1)]
  by (auto simp: new_events_def keeps_keys_def)


lemma store_profile_adds:
  assumes "store_profile cl k v w = Some w'"
  shows "adds_only P w w'" "keeps_keys k w w'" "new_events w w' = []"
  using store_profile_fields[OF assms]
  by (auto simp: adds_only_def new_events_def keeps_keys_def)

lemma store_endpoint_adds:
  assumes "store_endpoint cl h name es w = Some w'"
  shows "adds_only P w w'" "keeps_keys k w w'" "new_events w w' = []"
  using store_endpoint_fields[OF assms]
  by (auto simp: adds_only_def new_events_def keeps_keys_def)


text \<open>The three loops and the three closing steps.\<close>

lemma create_targets_adds:
  "create_targets cl endpoint config vanity i targets w = (r, w') \<Longrightarrow>
   adds_only (\<lambda>ev. \<exists>ec. ev = CallCreateEndpoint (c_ResourceGroup config) (c_ProfileName config) ec) w w'
   \<and> keeps_keys k w w'"
proof (induction targets arbitrary: i w)
  case Nil
  then show ?case by (simp add: adds_only_refl keeps_keys_refl)
next
  case (Cons target targets)
  let ?P = "\<lambda>ev. \<exists>ec. ev = CallCreateEndpoint (c_ResourceGroup config) (c_ProfileName config) ec"
  define ec where "ec = (let endpointConfig = ToEndpointConfig config target in
            (if length (e_Targets endpoint) > 1 \<and> ec_EndpointName endpointConfig \<noteq> []
             then endpointConfig\<lparr>ec_EndpointName := ec_EndpointName endpointConfig @ ''-'' @ show_nat i\<rparr>
             else if ec_EndpointName endpointConfig = []
             then endpointConfig\<lparr>ec_EndpointName := generateEndpointNameFromTarget target i\<rparr>
             else endpointConfig))"
  obtain r1 w1 where inv: "invoke (CallCreateEndpoint (c_ResourceGroup config) (c_ProfileName config) ec)
                      (tm_CreateEndpoint cl (c_ResourceGroup config) (c_ProfileName config) ec) w = (r1, w1)"
    by (cases "invoke (CallCreateEndpoint (c_ResourceGroup config) (c_ProfileName config) ec)
                      (tm_CreateEndpoint cl (c_ResourceGroup config) (c_ProfileName config) ec) w")
  have c1: "adds_only ?P w w1" "keeps_keys k w w1"
    using invoke_adds_only[OF inv, of ?P] invoke_keeps(1)[OF inv] by auto
  show ?case
  proof (cases r1)
    case (Inl err)
    then have "w' = w1" using Cons.prems inv by (simp add: ec_def Let_def)
    then show ?thesis using c1 by simp
  next
    case (Inr es)
    show ?thesis
    proof (cases "store_endpoint cl vanity (ec_EndpointName ec) es w1")
      case None
      then have "w' = w1" using Cons.prems inv Inr by (simp add: ec_def Let_def)
      then show ?thesis using c1 by simp
    next
      case (Some w2)
      then have "create_targets cl endpoint config vanity (Suc i) targets w2 = (r, w')"
        using Cons.prems inv Inr by (simp add: ec_def Let_def)
      from Cons.IH[OF this] store_endpoint_adds(1)[OF Some, of ?P] store_endpoint_adds(2)[OF Some, of k] c1
      show ?thesis by (blast intro: adds_only_trans keeps_keys_trans)
    qed
  qed
qed

lemma update_targets_adds:
  "update_targets cl newEndpoint oldConfig newConfig targets w = (r, w') \<Longrightarrow>
   adds_only is_endpoint_update w w' \<and> keeps_keys k w w'"
proof (induction targets arbitrary: w)
  case Nil
  then show ?case by (simp add: adds_only_refl keeps_keys_refl)
next
  case (Cons target targets)
  define ec where "ec = ToEndpointConfig newConfig target"
  show ?case
  proof (cases "case oldConfig of None \<Rightarrow> False
             | Some oc \<Rightarrow> c_Weight oc \<noteq> c_Weight newConfig \<or> c_EndpointStatus oc \<noteq> c_EndpointStatus newConfig")
    case False
    then have "update_targets cl newEndpoint oldConfig newConfig targets w = (r, w')"
      using Cons.prems by (simp add: Let_def)
    from Cons.IH[OF this] show ?thesis .
  next
    case True
    obtain r1 w1 where inv: "invoke (CallUpdateEndpoint (c_ResourceGroup newConfig) (c_ProfileName newConfig) ec)
                            (tm_UpdateEndpoint cl (c_ResourceGroup newConfig) (c_ProfileName newConfig) ec) w = (r1, w1)"
      by (cases "invoke (CallUpdateEndpoint (c_ResourceGroup newConfig) (c_ProfileName newConfig) ec)
                            (tm_UpdateEndpoint cl (c_ResourceGroup newConfig) (c_ProfileName newConfig) ec) w")
    have c1: "adds_only is_endpoint_update w w1" "keeps_keys k w w1"
      using invoke_adds_only[OF inv, of is_endpoint_update] invoke_keeps(1)[OF inv] by auto
    show ?thesis
    proof (cases r1)
      case (Inl err)
      then have "w' = w1" using Cons.prems inv True by (simp add: ec_def Let_def)
      then show ?thesis using c1 by simp
    next
      case (Inr es)
      show ?thesis
      proof (cases "store_endpoint cl (e_DNSName newEndpoint) (ec_EndpointName ec) es w1")
        case None
        then have "w' = w1" using Cons.prems inv Inr True by (simp add: ec_def Let_def)
        then show ?thesis using c1 by simp
      next
        case (Some w2)
        then have "update_targets cl newEndpoint oldConfig newConfig targets w2 = (r, w')"
          using Cons.prems inv Inr True by (simp add: ec_def Let_def)
        from Cons.IH[OF this] store_endpoint_adds(1)[OF Some, of is_endpoint_update] store_endpoint_adds(2)[OF Some, of k] c1
        show ?thesis by (blast intro: adds_only_trans keeps_keys_trans)
      qed
    qed
  qed
qed

lemma delete_targets_adds:
  "delete_targets cl endpoint config targets w = (r, w') \<Longrightarrow>
   adds_only (\<lambda>ev. ev = CallDeleteEndpoint (c_ResourceGroup config) (c_ProfileName config)
                           (c_EndpointType config) (c_EndpointName config)) w w'
   \<and> w_manager w' = w_manager w"
proof (induction targets arbitrary: w)
  case Nil
  then show ?case by (simp add: adds_only_refl)
next
  case (Cons target targets)
  let ?ev = "CallDeleteEndpoint (c_ResourceGroup config) (c_ProfileName config)
                           (c_EndpointType config) (c_EndpointName config)"
  obtain r1 w1 where inv: "invoke ?ev (tm_DeleteEndpoint cl (c_ResourceGroup config) (c_ProfileName config)
                                (c_EndpointType config) (c_EndpointName config)) w = (r1, w1)"
    by (cases "invoke ?ev (tm_DeleteEndpoint cl (c_ResourceGroup config) (c_ProfileName config)
                                (c_EndpointType config) (c_EndpointName config)) w")
  have c1: "adds_only (\<lambda>ev. ev = ?ev) w w1" "w_manager w1 = w_manager w"
    using invoke_adds_only[OF inv, of "\<lambda>ev. ev = ?ev"] invoke_fields(2)[OF inv] by auto
  show ?case
  proof (cases r1)
    case (Some e)
    then have "delete_targets cl endpoint config targets w1 = (r, w')"
      using Cons.prems inv by simp
    from Cons.IH[OF this] c1 show ?thesis by (auto intro: adds_only_trans)
  next
    case None
    let ?m = "mirror (\<lambda>M H. DeleteEndpoint (time_Now cl (w_env w1)) (time_Now cl (w_env w1)) M H
                 (e_DNSName endpoint) (c_EndpointName config)) w1"
    show ?thesis
    proof (cases ?m)
      case None': None
      then have "w' = w1" using Cons.prems inv None by (simp add: Let_def)
      then show ?thesis using c1 by simp
    next
      case (Some w2)
      then have rec: "delete_targets cl endpoint config targets w2 = (r, w')"
        using Cons.prems inv None by (simp add: Let_def)
      from mirror_fields[OF Some] DeleteEndpoint_manager
      have "w_trace w2 = w_trace w1" "w_manager w2 = w_manager w1" by fastforce+
      then have c2: "adds_only (\<lambda>ev. ev = ?ev) w1 w2" "w_manager w2 = w_manager w1"
        by (auto simp: adds_only_def new_events_def)
      from Cons.IH[OF rec] c1 c2 show ?thesis by (auto intro: adds_only_trans)
    qed
  qed
qed

lemma is_call_simps [simp]:
  "is_call (CallCreateProfile pc)" "is_call (CallGetProfile rg pn)" "is_call (CallUpdateProfile pc)"
  "is_call (CallDeleteProfile rg pn)" "is_call (CallCreateEndpoint rg pn ec)"
  "is_call (CallUpdateEndpoint rg pn ec)" "is_call (CallDeleteEndpoint rg pn t n)"
  "is_call (CallGetProfileState rg pn)" "is_call (CallCreateOrUpdateCNAME n h t ttl)"
  "is_call (CallDnsDelete n)"
  by simp_all

lemma is_endpoint_update_call: "is_endpoint_update ev \<Longrightarrow> is_call ev"
  by (cases ev) simp_all

lemma create_or_get_profile_adds:
  assumes "create_or_get_profile cl config pc w = (r, w')"
  shows "adds_only is_call w w'" "w_manager w' = w_manager w" "w_heap w' = w_heap w"
proof -
  obtain r1 w1 where i1: "invoke (CallCreateProfile pc) (tm_CreateProfile cl pc) w = (r1, w1)"
    by (cases "invoke (CallCreateProfile pc) (tm_CreateProfile cl pc) w")
  obtain g w2 where i2: "invoke (CallGetProfile (c_ResourceGroup config) (c_ProfileName config))
                              (tm_GetProfile cl (c_ResourceGroup config) (c_ProfileName config)) w1 = (g, w2)"
    by (cases "invoke (CallGetProfile (c_ResourceGroup config) (c_ProfileName config))
                              (tm_GetProfile cl (c_ResourceGroup config) (c_ProfileName config)) w1")
  have a1: "adds_only is_call w w1" using invoke_adds_only[OF i1] by simp
  have a2: "adds_only is_call w1 w2" using invoke_adds_only[OF i2] by simp
  have "w' = w1 \<or> w' = w2"
    using assms i1 i2 by (auto simp: create_or_get_profile_def split: sum.splits)
  then show "adds_only is_call w w'" "w_manager w' = w_manager w" "w_heap w' = w_heap w"
    using a1 a2 invoke_fields[OF i1] invoke_fields[OF i2] by (auto intro: adds_only_trans)
qed

lemma create_refresh_adds:
  assumes "create_refresh cl endpoint config vanity w = (r, w')"
  shows "adds_only is_call w w'" "keeps_keys vanity w w'"
proof -
  let ?ev = "CallGetProfileState (c_ResourceGroup config) (c_ProfileName config)"
  obtain r1 w1 where i1: "invoke ?ev (tm_GetProfileState cl (c_ResourceGroup config) (c_ProfileName config)) w = (r1, w1)"
    by (cases "invoke ?ev (tm_GetProfileState cl (c_ResourceGroup config) (c_ProfileName config)) w")
  have a1: "adds_only is_call w w1" "keeps_keys vanity w w1"
    using invoke_adds_only[OF i1, of is_call] invoke_keeps(1)[OF i1] by simp_all
  have "adds_only is_call w w' \<and> keeps_keys vanity w w'"
  proof (cases r1)
    case (Inl err)
    then have "w' = w1" using assms i1 by (simp add: create_refresh_def)
    then show ?thesis using a1 by simp
  next
    case (Inr pv)
    show ?thesis
    proof (cases "store_profile cl vanity pv w1")
      case None
      then have "w' = w1" using assms i1 Inr by (simp add: create_refresh_def)
      then show ?thesis using a1 by simp
    next
      case (Some w2)
      have a2: "adds_only is_call w1 w2" "keeps_keys vanity w1 w2"
        using store_profile_adds(1,2)[OF Some] by simp_all
      let ?cn = "CallCreateOrUpdateCNAME (GenerateName vanity) vanity (v_FQDN pv) 300"
      obtain r3 w3 where i3: "invoke ?cn (dns_CreateOrUpdateCNAME cl (GenerateName vanity) vanity (v_FQDN pv) 300) w2 = (r3, w3)"
        by (cases "invoke ?cn (dns_CreateOrUpdateCNAME cl (GenerateName vanity) vanity (v_FQDN pv) 300) w2")
      have a3: "adds_only is_call w2 w3" "keeps_keys vanity w2 w3"
        using invoke_adds_only[OF i3, of is_call] invoke_keeps(1)[OF i3] by simp_all
      have "w' = w2 \<or> w' = w3"
        using assms i1 Inr Some i3 by (auto simp: create_refresh_def Let_def split: if_splits)
      then show ?thesis
        using a1 a2 a3 by (auto intro: adds_only_trans keeps_keys_trans)
    qed
  qed
  then show "adds_only is_call w w'" "keeps_keys vanity w w'" by simp_all
qed

lemma create_endpoints_and_refresh_adds:
  assumes "create_endpoints_and_refresh cl endpoint config vanity w = (r, w')"
  shows "adds_only is_call w w'" "keeps_keys vanity w w'"
proof -
  obtain r1 w1 where ct: "create_targets cl endpoint config vanity 0 (create_target_list endpoint) w = (r1, w1)"
    by (cases "create_targets cl endpoint config vanity 0 (create_target_list endpoint) w")
  from create_targets_adds[OF ct, of vanity]
  have a1: "adds_only is_call w w1" "keeps_keys vanity w w1"
    by (auto intro: adds_only_mono)
  have "adds_only is_call w w' \<and> keeps_keys vanity w w'"
  proof (cases r1)
    case Ok
    then have "create_refresh cl endpoint config vanity w1 = (r, w')"
      using assms ct by (simp add: create_endpoints_and_refresh_def)
    from create_refresh_adds[OF this] a1 show ?thesis
      by (auto intro: adds_only_trans keeps_keys_trans)
  next
    case (Failed e)
    then have "w' = w1" using assms ct by (simp add: create_endpoints_and_refresh_def)
    then show ?thesis using a1 by simp
  next
    case Panicked
    then have "w' = w1" using assms ct by (simp add: create_endpoints_and_refresh_def)
    then show ?thesis using a1 by simp
  qed
  then show "adds_only is_call w w'" "keeps_keys vanity w w'" by simp_all
qed

text \<open>The vanity hostname of an endpoint as \<open>createEndpoint\<close> resolves it (from the labels
  and provider-specific properties), and as \<open>deleteEndpoint\<close> does (from the labels).\<close>

lemma createEndpoint_adds:
  assumes "createEndpoint cl endpoint w = (r, w')"
  shows "adds_only is_call (logged (Creating (e_DNSName endpoint) (e_Targets endpoint) (e_RecordType endpoint)) w) w'"
    "\<And>config. ParseConfig (strconv_IsPrint cl) (annotationMap endpoint) = Inr config \<Longrightarrow> keeps_keys (vanity_hostname config endpoint) w w'"
    "\<And>err. ParseConfig (strconv_IsPrint cl) (annotationMap endpoint) = Inl err \<Longrightarrow> w_manager w' = w_manager w"
proof -
  let ?w = "logged (Creating (e_DNSName endpoint) (e_Targets endpoint) (e_RecordType endpoint)) w"
  have lg: "w_manager ?w = w_manager w" by (simp add: logged_def)
  have early: "adds_only is_call ?w ?w" by (rule adds_only_refl)
  have main: "adds_only is_call ?w w' \<and> (\<forall>config. ParseConfig (strconv_IsPrint cl) (annotationMap endpoint) = Inr config \<longrightarrow>
                 keeps_keys (vanity_hostname config endpoint) ?w w')
              \<and> (\<forall>err. ParseConfig (strconv_IsPrint cl) (annotationMap endpoint) = Inl err \<longrightarrow> w_manager w' = w_manager ?w)"
  proof (cases "e_RecordType endpoint = ''TXT''")
    case True
    then have "w' = ?w" using assms by (simp add: createEndpoint_def)
    then show ?thesis using early by (simp add: keeps_keys_refl)
  next
    case nt: False
    show ?thesis
    proof (cases "ParseConfig (strconv_IsPrint cl) (annotationMap endpoint)")
      case (Inl err)
      then have "w' = ?w" using assms nt by (simp add: createEndpoint_def)
      then show ?thesis using early Inl by simp
    next
      case (Inr config0)
      show ?thesis
      proof (cases "c_Enabled config0 \<and> ValidateConfig (strconv_IsPrint cl) config0 = None")
        case False
        then have "w' = ?w" using assms nt Inr by (auto simp: createEndpoint_def Let_def split: option.splits if_splits)
        then show ?thesis using early Inr by (simp add: keeps_keys_refl)
      next
        case True
        let ?v = "vanity_hostname config0 endpoint"
        let ?c = "create_names config0 endpoint"
        obtain f w1 where cg: "create_or_get_profile cl ?c (tagged_profile_config ?c ?v) ?w = (f, w1)"
          by (cases "create_or_get_profile cl ?c (tagged_profile_config ?c ?v) ?w")
        have a1: "adds_only is_call ?w w1" "keeps_keys ?v ?w w1"
          using create_or_get_profile_adds[OF cg] by (simp_all add: keeps_keys_same)
        show ?thesis
        proof (cases f)
          case (Some e)
          then have "w' = w1" using assms nt Inr True cg by (simp add: createEndpoint_def Let_def)
          then show ?thesis using a1 Inr by simp
        next
          case None
          then have "create_endpoints_and_refresh cl endpoint ?c ?v w1 = (r, w')"
            using assms nt Inr True cg by (simp add: createEndpoint_def Let_def)
          from create_endpoints_and_refresh_adds[OF this] a1 Inr show ?thesis
            by (auto intro: adds_only_trans keeps_keys_trans)
        qed
      qed
    qed
  qed
  show "adds_only is_call ?w w'" using main by simp
  show "\<And>config. ParseConfig (strconv_IsPrint cl) (annotationMap endpoint) = Inr config \<Longrightarrow> keeps_keys (vanity_hostname config endpoint) w w'"
    using main lg by (simp add: keeps_keys_def)
  show "\<And>err. ParseConfig (strconv_IsPrint cl) (annotationMap endpoint) = Inl err \<Longrightarrow> w_manager w' = w_manager w"
    using main lg by simp
qed

lemma update_profile_if_changed_adds:
  assumes "update_profile_if_changed cl newEndpoint oldConfig newConfig w = (f, w')"
  shows "adds_only is_call w w'" "w_manager w' = w_manager w"
    "\<not> profile_changed oldConfig newConfig \<Longrightarrow> w' = w \<and> f = None"
proof -
  let ?pc = "tagged_profile_config newConfig (e_DNSName newEndpoint)"
  obtain r1 w1 where i1: "invoke (CallUpdateProfile ?pc) (tm_UpdateProfile cl ?pc) w = (r1, w1)"
    by (cases "invoke (CallUpdateProfile ?pc) (tm_UpdateProfile cl ?pc) w")
  have a1: "adds_only is_call w w1" using invoke_adds_only[OF i1] by simp
  have "w' = w \<or> w' = w1"
    using assms i1 by (auto simp: update_profile_if_changed_def Let_def split: if_splits sum.splits)
  then show "adds_only is_call w w'" "w_manager w' = w_manager w"
    using a1 invoke_fields[OF i1] by (auto simp: adds_only_refl)
  show "\<not> profile_changed oldConfig newConfig \<Longrightarrow> w' = w \<and> f = None"
    using assms by (simp add: update_profile_if_changed_def)
qed

lemma update_refresh_adds:
  assumes "update_refresh cl newEndpoint newConfig w = (r, w')"
  shows "adds_only (\<lambda>ev. ev = CallGetProfileState (c_ResourceGroup newConfig) (c_ProfileName newConfig)) w w'"
    "keeps_keys (e_DNSName newEndpoint) w w'"
    "new_events w w' = [CallGetProfileState (c_ResourceGroup newConfig) (c_ProfileName newConfig)]"
proof -
  let ?ev = "CallGetProfileState (c_ResourceGroup newConfig) (c_ProfileName newConfig)"
  obtain r1 w1 where i1: "invoke ?ev (tm_GetProfileState cl (c_ResourceGroup newConfig) (c_ProfileName newConfig)) w = (r1, w1)"
    by (cases "invoke ?ev (tm_GetProfileState cl (c_ResourceGroup newConfig) (c_ProfileName newConfig)) w")
  have a1: "adds_only (\<lambda>ev. ev = ?ev) w w1" "keeps_keys (e_DNSName newEndpoint) w w1"
    "new_events w w1 = [?ev]"
    using invoke_adds_only[OF i1, of "\<lambda>ev. ev = ?ev"] invoke_keeps[OF i1] by simp_all
  have "adds_only (\<lambda>ev. ev = ?ev) w w' \<and> keeps_keys (e_DNSName newEndpoint) w w' \<and> new_events w w' = [?ev]"
  proof (cases r1)
    case (Inl err)
    then have "w' = w1" using assms i1 by (simp add: update_refresh_def)
    then show ?thesis using a1 by simp
  next
    case (Inr pv)
    show ?thesis
    proof (cases "store_profile cl (e_DNSName newEndpoint) pv w1")
      case None
      then have "w' = w1" using assms i1 Inr by (simp add: update_refresh_def)
      then show ?thesis using a1 by simp
    next
      case (Some w2)
      then have "w' = w2" using assms i1 Inr by (simp add: update_refresh_def)
      then show ?thesis
        using a1 store_profile_adds(1)[OF Some, of "\<lambda>ev. ev = ?ev"] store_profile_adds(2,3)[OF Some]
          new_events_trans[OF a1(1) store_profile_adds(1)[OF Some, of "\<lambda>ev. ev = ?ev"]]
        by (auto intro: adds_only_trans keeps_keys_trans)
    qed
  qed
  then show "adds_only (\<lambda>ev. ev = ?ev) w w'" "keeps_keys (e_DNSName newEndpoint) w w'"
    "new_events w w' = [?ev]" by simp_all
qed

lemma updateEndpoint_adds:
  assumes "updateEndpoint cl oldEndpoint newEndpoint w = (r, w')"
  shows "adds_only is_call (logged (Updating (e_DNSName newEndpoint)) w) w'"
    "keeps_keys (e_DNSName newEndpoint) w w'"
proof -
  let ?w = "logged (Updating (e_DNSName newEndpoint)) w"
  let ?k = "e_DNSName newEndpoint"
  have lg: "w_manager ?w = w_manager w" by (simp add: logged_def)
  have early: "adds_only is_call ?w ?w" "keeps_keys ?k ?w ?w"
    by (rule adds_only_refl, rule keeps_keys_refl)
  have main: "adds_only is_call ?w w' \<and> keeps_keys ?k ?w w'"
  proof (cases "ParseConfig (strconv_IsPrint cl) (e_Labels newEndpoint)")
    case (Inl err)
    then have "w' = ?w" using assms by (simp add: updateEndpoint_def)
    then show ?thesis using early by simp
  next
    case (Inr nc0)
    show ?thesis
    proof (cases "c_Enabled nc0 \<and> ValidateConfig (strconv_IsPrint cl) nc0 = None")
      case False
      then have "w' = ?w" using assms Inr
        by (auto simp: updateEndpoint_def Let_def split: option.splits if_splits)
      then show ?thesis using early by simp
    next
      case True
      let ?oc = "case ParseConfig (strconv_IsPrint cl) (e_Labels oldEndpoint) of Inl err \<Rightarrow> None | Inr oc \<Rightarrow> Some oc"
      let ?nc = "update_names nc0 newEndpoint"
      obtain f w1 where up: "update_profile_if_changed cl newEndpoint ?oc ?nc ?w = (f, w1)"
        by (cases "update_profile_if_changed cl newEndpoint ?oc ?nc ?w")
      have a1: "adds_only is_call ?w w1" "keeps_keys ?k ?w w1"
        using update_profile_if_changed_adds(1,2)[OF up] by (simp_all add: keeps_keys_same)
      show ?thesis
      proof (cases f)
        case (Some e)
        then have "w' = w1" using assms Inr True up by (simp add: updateEndpoint_def Let_def)
        then show ?thesis using a1 by simp
      next
        case None
        obtain r2 w2 where ut: "update_targets cl newEndpoint ?oc ?nc (e_Targets newEndpoint) w1 = (r2, w2)"
          by (cases "update_targets cl newEndpoint ?oc ?nc (e_Targets newEndpoint) w1")
        from update_targets_adds[OF ut, of ?k]
        have a2: "adds_only is_call w1 w2" "keeps_keys ?k w1 w2"
          by (auto intro: adds_only_mono is_endpoint_update_call)
        show ?thesis
        proof (cases r2)
          case Ok
          then have "update_refresh cl newEndpoint ?nc w2 = (r, w')"
            using assms Inr True up None ut by (simp add: updateEndpoint_def Let_def)
          from update_refresh_adds(1,2)[OF this]
          have "adds_only is_call w2 w'" "keeps_keys ?k w2 w'"
            by (auto intro: adds_only_mono)
          then show ?thesis using a1 a2 by (blast intro: adds_only_trans keeps_keys_trans)
        next
          case (Failed e)
          then have "w' = w2" using assms Inr True up None ut by (simp add: updateEndpoint_def Let_def)
          then show ?thesis using a1 a2 by (blast intro: adds_only_trans keeps_keys_trans)
        next
          case Panicked
          then have "w' = w2" using assms Inr True up None ut by (simp add: updateEndpoint_def Let_def)
          then show ?thesis using a1 a2 by (blast intro: adds_only_trans keeps_keys_trans)
        qed
      qed
    qed
  qed
  show "adds_only is_call ?w w'" using main by simp
  show "keeps_keys ?k w w'" using main lg by (simp add: keeps_keys_def)
qed

lemma DeleteProfile_mirror:
  assumes "mirror (\<lambda>M H. DeleteProfile M H k) w = Some w'"
  shows "w_trace w' = w_trace w" "w_env w' = w_env w" "w_heap w' = w_heap w"
    "w_manager w' = (w_manager w)\<lparr>m_profiles := (m_profiles (w_manager w))(k := None)\<rparr>"
  using assms by (auto simp: mirror_def DeleteProfile_def)

lemma delete_refresh_adds:
  assumes "delete_refresh cl endpoint config vanity w = (r, w')"
  shows "adds_only is_call w w'" "keeps_keys vanity w w'"
proof -
  let ?ev = "CallGetProfileState (c_ResourceGroup config) (c_ProfileName config)"
  obtain r1 w1 where i1: "invoke ?ev (tm_GetProfileState cl (c_ResourceGroup config) (c_ProfileName config)) w = (r1, w1)"
    by (cases "invoke ?ev (tm_GetProfileState cl (c_ResourceGroup config) (c_ProfileName config)) w")
  have a1: "adds_only is_call w w1" "keeps_keys vanity w w1"
    using invoke_adds_only[OF i1, of is_call] invoke_keeps(1)[OF i1] by simp_all
  have "adds_only is_call w w' \<and> keeps_keys vanity w w'"
  proof (cases r1)
    case (Inl err)
    then have "w' = w1" using assms i1 by (simp add: delete_refresh_def)
    then show ?thesis using a1 by simp
  next
    case (Inr pv)
    show ?thesis
    proof (cases "length (v_Endpoints pv) = 0")
      case False
      show ?thesis
      proof (cases "store_profile cl vanity pv w1")
        case None
        then have "w' = w1" using assms i1 Inr False by (simp add: delete_refresh_def)
        then show ?thesis using a1 by simp
      next
        case (Some w2)
        then have "w' = w2" using assms i1 Inr False by (simp add: delete_refresh_def)
        then show ?thesis
          using a1 store_profile_adds(1)[OF Some, of is_call] store_profile_adds(2)[OF Some]
          by (auto intro: adds_only_trans keeps_keys_trans)
      qed
    next
      case True
      let ?dp = "CallDeleteProfile (c_ResourceGroup config) (c_ProfileName config)"
      obtain r2 w2 where i2: "invoke ?dp (tm_DeleteProfile cl (c_ResourceGroup config) (c_ProfileName config)) w1 = (r2, w2)"
        by (cases "invoke ?dp (tm_DeleteProfile cl (c_ResourceGroup config) (c_ProfileName config)) w1")
      have a2: "adds_only is_call w1 w2" "keeps_keys vanity w1 w2"
        using invoke_adds_only[OF i2, of is_call] invoke_keeps(1)[OF i2] by simp_all
      show ?thesis
      proof (cases r2)
        case (Some e)
        then have "w' = w2" using assms i1 Inr True i2 by (simp add: delete_refresh_def)
        then show ?thesis using a1 a2 by (blast intro: adds_only_trans keeps_keys_trans)
      next
        case None
        obtain w3 where m3: "mirror (\<lambda>M H. DeleteProfile M H vanity) w2 = Some w3"
          by (simp add: mirror_def DeleteProfile_def)
        have a3: "adds_only is_call w2 w3" "keeps_keys vanity w2 w3"
          using DeleteProfile_mirror[OF m3] by (auto simp: adds_only_def new_events_def keeps_keys_def)
        let ?dd = "CallDnsDelete (GenerateName vanity)"
        obtain r4 w4 where i4: "invoke ?dd (dns_Delete cl (GenerateName vanity)) w3 = (r4, w4)"
          by (cases "invoke ?dd (dns_Delete cl (GenerateName vanity)) w3")
        have a4: "adds_only is_call w3 w4" "keeps_keys vanity w3 w4"
          using invoke_adds_only[OF i4, of is_call] invoke_keeps(1)[OF i4] by simp_all
        have "w' = w3 \<or> w' = w4"
          using assms i1 Inr True i2 None m3 i4
          by (auto simp: delete_refresh_def Let_def split: if_splits)
        then show ?thesis using a1 a2 a3 a4 by (blast intro: adds_only_trans keeps_keys_trans)
      qed
    qed
  qed
  then show "adds_only is_call w w'" "keeps_keys vanity w w'" by simp_all
qed

lemma deleteEndpoint_adds:
  assumes "deleteEndpoint cl endpoint w = (r, w')"
  shows "adds_only is_call (logged (Deleting (e_DNSName endpoint)) w) w'"
    "\<And>config. ParseConfig (strconv_IsPrint cl) (e_Labels endpoint) = Inr config \<Longrightarrow> keeps_keys (vanity_hostname config endpoint) w w'"
    "\<And>err. ParseConfig (strconv_IsPrint cl) (e_Labels endpoint) = Inl err \<Longrightarrow> w_manager w' = w_manager w"
proof -
  let ?w = "logged (Deleting (e_DNSName endpoint)) w"
  have lg: "w_manager ?w = w_manager w" by (simp add: logged_def)
  have early: "adds_only is_call ?w ?w" by (rule adds_only_refl)
  have main: "adds_only is_call ?w w' \<and> (\<forall>config. ParseConfig (strconv_IsPrint cl) (e_Labels endpoint) = Inr config \<longrightarrow>
                 keeps_keys (vanity_hostname config endpoint) ?w w')
              \<and> (\<forall>err. ParseConfig (strconv_IsPrint cl) (e_Labels endpoint) = Inl err \<longrightarrow> w_manager w' = w_manager ?w)"
  proof (cases "ParseConfig (strconv_IsPrint cl) (e_Labels endpoint)")
    case (Inl err)
    then have "w' = ?w" using assms by (simp add: deleteEndpoint_def)
    then show ?thesis using early Inl by simp
  next
    case (Inr config0)
    show ?thesis
    proof (cases "c_Enabled config0")
      case False
      then have "w' = ?w" using assms Inr by (simp add: deleteEndpoint_def)
      then show ?thesis using early Inr by (simp add: keeps_keys_refl)
    next
      case True
      let ?v = "vanity_hostname config0 endpoint"
      let ?c = "delete_names config0 endpoint"
      obtain r1 w1 where dt: "delete_targets cl endpoint ?c (e_Targets endpoint) ?w = (r1, w1)"
        by (cases "delete_targets cl endpoint ?c (e_Targets endpoint) ?w")
      from delete_targets_adds[OF dt]
      have a1: "adds_only is_call ?w w1" "keeps_keys ?v ?w w1"
        by (auto intro: adds_only_mono keeps_keys_same)
      show ?thesis
      proof (cases r1)
        case Ok
        then have "delete_refresh cl endpoint ?c ?v w1 = (r, w')"
          using assms Inr True dt by (simp add: deleteEndpoint_def Let_def)
        from delete_refresh_adds[OF this] a1 Inr show ?thesis
          by (auto intro: adds_only_trans keeps_keys_trans)
      next
        case (Failed e)
        then have "w' = w1" using assms Inr True dt by (simp add: deleteEndpoint_def Let_def)
        then show ?thesis using a1 Inr by simp
      next
        case Panicked
        then have "w' = w1" using assms Inr True dt by (simp add: deleteEndpoint_def Let_def)
        then show ?thesis using a1 Inr by simp
      qed
    qed
  qed
  show "adds_only is_call ?w w'" using main by simp
  show "\<And>config. ParseConfig (strconv_IsPrint cl) (e_Labels endpoint) = Inr config \<Longrightarrow> keeps_keys (vanity_hostname config endpoint) w w'"
    using main lg by (simp add: keeps_keys_def)
  show "\<And>err. ParseConfig (strconv_IsPrint cl) (e_Labels endpoint) = Inl err \<Longrightarrow> w_manager w' = w_manager w"
    using main lg by simp
qed

subsection \<open>Order of a batch\<close>

lemma run_items_append:
  "run_items cl (xs @ ys) w = (case run_items cl xs w of (Ok, w1) \<Rightarrow> run_items cl ys w1 | (res, w1) \<Rightarrow> (res, w1))"
proof (induction xs arbitrary: w)
  case Nil
  then show ?case by simp
next
  case (Cons x xs)
  obtain r w1 where p: "process cl x w = (r, w1)" by (cases "process cl x w")
  then show ?case using Cons.IH[of w1] by (cases r) simp_all
qed

lemma create_all_run: "create_all cl es w = run_items cl (map CreateItem es) w"
proof (induction es arbitrary: w)
  case Nil
  then show ?case by simp
next
  case (Cons e es)
  obtain r w1 where p: "createEndpoint cl e w = (r, w1)" by (cases "createEndpoint cl e w")
  then show ?case using Cons.IH[of w1] by (cases r) simp_all
qed

lemma delete_all_run: "delete_all cl es w = run_items cl (map DeleteItem es) w"
proof (induction es arbitrary: w)
  case Nil
  then show ?case by simp
next
  case (Cons e es)
  obtain r w1 where p: "deleteEndpoint cl e w = (r, w1)" by (cases "deleteEndpoint cl e w")
  then show ?case using Cons.IH[of w1] by (cases r) simp_all
qed

lemma update_all_run:
  "update_all cl olds news is w =
   run_items cl (map (\<lambda>i. if i < length news then UpdateItem (olds ! i) (news ! i) else BadIndex) is) w"
proof (induction "is" arbitrary: w)
  case Nil
  then show ?case by simp
next
  case (Cons i "is")
  show ?case
  proof (cases "i < length news")
    case False
    then show ?thesis by simp
  next
    case True
    obtain r w1 where p: "updateEndpoint cl (olds ! i) (news ! i) w = (r, w1)"
      by (cases "updateEndpoint cl (olds ! i) (news ! i) w")
    then show ?thesis using True Cons.IH[of w1] by (cases r) simp_all
  qed
qed

lemma ApplyChanges_run: "ApplyChanges cl changes w = run_items cl (items changes) w"
  by (simp add: ApplyChanges_def items_def run_items_append create_all_run update_all_run delete_all_run
      split: prod.splits result.splits)

lemma adds_calls_filter:
  assumes "adds_only is_call (logged ev w) w'" "\<not> is_call ev"
  shows "filter (\<lambda>e. \<not> is_call e) (w_trace w') = filter (\<lambda>e. \<not> is_call e) (w_trace w) @ [ev]"
proof -
  from adds_onlyD[OF assms(1)] obtain cs where
    "w_trace w' = w_trace w @ [ev] @ cs" "list_all is_call cs"
    by (auto simp: logged_def)
  then show ?thesis using assms(2) by (simp add: list_all_iff)
qed

lemma process_entry:
  assumes "process cl it w = (r, w')"
  shows "filter (\<lambda>e. \<not> is_call e) (w_trace w') = filter (\<lambda>e. \<not> is_call e) (w_trace w) @ entry_events it"
proof (cases it)
  case (CreateItem e)
  then show ?thesis using assms createEndpoint_adds(1)[of cl e w r w'] by (simp add: adds_calls_filter)
next
  case (UpdateItem old new)
  then show ?thesis using assms updateEndpoint_adds(1)[of cl old new w r w'] by (simp add: adds_calls_filter)
next
  case (DeleteItem e)
  then show ?thesis using assms deleteEndpoint_adds(1)[of cl e w r w'] by (simp add: adds_calls_filter)
next
  case BadIndex
  then show ?thesis using assms by simp
qed

lemma run_items_entries:
  "filter (\<lambda>e. \<not> is_call e) (w_trace (snd (run_items cl its w)))
   = filter (\<lambda>e. \<not> is_call e) (w_trace w) @ concat (map entry_events (attempted cl its w))"
proof (induction its arbitrary: w)
  case Nil
  then show ?case by simp
next
  case (Cons it its)
  obtain r w1 where p: "process cl it w = (r, w1)" by (cases "process cl it w")
  from process_entry[OF p] Cons.IH[of w1] p show ?case by (cases r) simp_all
qed

lemma attempted_prefix: "take (length (attempted cl its w)) its = attempted cl its w"
proof (induction its arbitrary: w)
  case Nil
  then show ?case by simp
next
  case (Cons it its)
  obtain r w1 where p: "process cl it w = (r, w1)" by (cases "process cl it w")
  then show ?case using Cons.IH[of w1] by (cases r) simp_all
qed

text \<open>
  \<^bold>\<open>C9.\<close> \<open>ApplyChanges\<close> is the sequential run of the batch's items in the order creates,
  then updates by index (\<open>UpdateOld[i]\<close> with \<open>UpdateNew[i]\<close>), then deletes. The items it
  processes are a prefix of that sequence, each once: the run ends with the first item whose
  processing does not return \<open>nil\<close>, whose result it returns, and no later item is begun.
  The entry log lines of the run are those of the processed items, one per item, in order.
\<close>

theorem ApplyChanges_order:
  "ApplyChanges cl changes w = run_items cl (items changes) w
   \<and> take (length (attempted cl (items changes) w)) (items changes) = attempted cl (items changes) w
   \<and> filter (\<lambda>e. \<not> is_call e) (w_trace (snd (ApplyChanges cl changes w)))
       = filter (\<lambda>e. \<not> is_call e) (w_trace w) @ concat (map entry_events (attempted cl (items changes) w))"
  by (simp add: ApplyChanges_run run_items_entries attempted_prefix)

subsection \<open>What an enabled configuration holds\<close>

lemma parse_string_field:
  "(\<And>v c. F (upd v c) = F c) \<Longrightarrow> F (parse_string ls k upd config) = F config"
  by (simp add: parse_string_def split: option.splits)

lemma parse_int_field:
  "parse_int tbl ls k what upd config = Inr config' \<Longrightarrow> (\<And>n c. F (upd n c) = F c) \<Longrightarrow> F config' = F config"
  by (auto simp: parse_int_def split: option.splits sum.splits)

lemma parse_health_checks_field:
  "parse_health_checks tbl ls config = Inr config' \<Longrightarrow> (\<And>b c. F (c\<lparr>c_HealthChecksEnabled := b\<rparr>) = F c)
   \<Longrightarrow> F config' = F config"
  by (auto simp: parse_health_checks_def split: option.splits sum.splits)

lemma ParseConfig_enabled:
  assumes "ParseConfig tbl ls = Inr config" "c_Enabled config"
  shows "c_ResourceGroup config \<noteq> []"
    "\<And>v n. ls AnnotationWeight = Some v \<Longrightarrow> v \<noteq> [] \<Longrightarrow> ParseInt v = Inr n \<Longrightarrow> c_Weight config = n"
proof -
  define c0 where "c0 = default_config\<lparr>c_Enabled := True,
      c_ResourceGroup := (case ls AnnotationResourceGroup of Some v \<Rightarrow> v | None \<Rightarrow> [])\<rparr>"
  define c1 where "c1 = parse_string ls AnnotationRoutingMethod (\<lambda>v c. c\<lparr>c_RoutingMethod := v\<rparr>)
      (parse_string ls AnnotationHostname (\<lambda>v c. c\<lparr>c_Hostname := v\<rparr>)
        (parse_string ls AnnotationProfileName (\<lambda>v c. c\<lparr>c_ProfileName := v\<rparr>) c0))"
  have en: "\<exists>e. ls AnnotationEnabled = Some e \<and> ToLower e = ''true''"
    using assms by (auto simp: ParseConfig_def Let_def default_config_def split: option.splits if_splits)
  then have rest: "c_ResourceGroup c0 \<noteq> [] \<and>
      bind_err (parse_int tbl ls AnnotationWeight ''weight'' (\<lambda>n c. c\<lparr>c_Weight := n\<rparr>) c1) (\<lambda>config.
        bind_err (parse_int tbl ls AnnotationPriority ''priority'' (\<lambda>n c. c\<lparr>c_Priority := n\<rparr>) config) (\<lambda>config.
          bind_err (parse_int tbl ls AnnotationDNSTTL ''DNS TTL'' (\<lambda>n c. c\<lparr>c_DNSTTL := n\<rparr>)
              (parse_string ls AnnotationEndpointStatus (\<lambda>v c. c\<lparr>c_EndpointStatus := v\<rparr>)
                (parse_string ls AnnotationEndpointLocation (\<lambda>v c. c\<lparr>c_EndpointLocation := v\<rparr>)
                  (parse_string ls AnnotationEndpointName (\<lambda>v c. c\<lparr>c_EndpointName := v\<rparr>) config))))
            (\<lambda>config.
              bind_err (parse_int tbl ls AnnotationMonitorPort ''monitor port'' (\<lambda>n c. c\<lparr>c_MonitorPort := n\<rparr>)
                  (parse_string ls AnnotationMonitorProtocol (\<lambda>v c. c\<lparr>c_MonitorProtocol := v\<rparr>) config))
                (\<lambda>config. parse_health_checks tbl ls
                  (parse_string ls AnnotationMonitorPath (\<lambda>v c. c\<lparr>c_MonitorPath := v\<rparr>) config))))) = Inr config"
    using assms(1) unfolding ParseConfig_def c0_def c1_def
    by (auto simp: Let_def split: if_splits)
  then obtain c2 c3 c4 c5 where
    s2: "parse_int tbl ls AnnotationWeight ''weight'' (\<lambda>n c. c\<lparr>c_Weight := n\<rparr>) c1 = Inr c2" and
    s3: "parse_int tbl ls AnnotationPriority ''priority'' (\<lambda>n c. c\<lparr>c_Priority := n\<rparr>) c2 = Inr c3" and
    s4: "parse_int tbl ls AnnotationDNSTTL ''DNS TTL'' (\<lambda>n c. c\<lparr>c_DNSTTL := n\<rparr>)
              (parse_string ls AnnotationEndpointStatus (\<lambda>v c. c\<lparr>c_EndpointStatus := v\<rparr>)
                (parse_string ls AnnotationEndpointLocation (\<lambda>v c. c\<lparr>c_EndpointLocation := v\<rparr>)
                  (parse_string ls AnnotationEndpointName (\<lambda>v c. c\<lparr>c_EndpointName := v\<rparr>) c3))) = Inr c4" and
    s5: "parse_int tbl ls AnnotationMonitorPort ''monitor port'' (\<lambda>n c. c\<lparr>c_MonitorPort := n\<rparr>)
                  (parse_string ls AnnotationMonitorProtocol (\<lambda>v c. c\<lparr>c_MonitorProtocol := v\<rparr>) c4) = Inr c5" and
    s6: "parse_health_checks tbl ls (parse_string ls AnnotationMonitorPath (\<lambda>v c. c\<lparr>c_MonitorPath := v\<rparr>) c5) = Inr config"
    by (auto simp: bind_err_def split: sum.splits)
  have keep: "F config = F c2"
    if "\<And>v c. F (c\<lparr>c_Priority := v\<rparr>) = F c" "\<And>v c. F (c\<lparr>c_DNSTTL := v\<rparr>) = F c"
      "\<And>v c. F (c\<lparr>c_EndpointStatus := v\<rparr>) = F c" "\<And>v c. F (c\<lparr>c_EndpointLocation := v\<rparr>) = F c"
      "\<And>v c. F (c\<lparr>c_EndpointName := v\<rparr>) = F c" "\<And>v c. F (c\<lparr>c_MonitorPort := v\<rparr>) = F c"
      "\<And>v c. F (c\<lparr>c_MonitorProtocol := v\<rparr>) = F c" "\<And>v c. F (c\<lparr>c_MonitorPath := v\<rparr>) = F c"
      "\<And>v c. F (c\<lparr>c_HealthChecksEnabled := v\<rparr>) = F c"
    for F :: "TrafficManagerConfig \<Rightarrow> 'a"
  proof -
    have "F config = F c5"
      using parse_health_checks_field[OF s6, of F] that by (simp add: parse_string_field)
    also have "\<dots> = F c4" using parse_int_field[OF s5, of F] that by (simp add: parse_string_field)
    also have "\<dots> = F c3" using parse_int_field[OF s4, of F] that by (simp add: parse_string_field)
    also have "\<dots> = F c2" using parse_int_field[OF s3, of F] that by simp
    finally show ?thesis .
  qed
  have rg2: "c_ResourceGroup c2 = c_ResourceGroup c0"
    using parse_int_field[OF s2, of c_ResourceGroup] by (simp add: c1_def parse_string_field)
  show "c_ResourceGroup config \<noteq> []"
    using keep[of c_ResourceGroup] rg2 rest by simp
  show "c_Weight config = n" if "ls AnnotationWeight = Some v" "v \<noteq> []" "ParseInt v = Inr n" for v n
  proof -
    have "c_Weight c2 = n" using s2 that by (auto simp: parse_int_def present_def)
    then show ?thesis using keep[of c_Weight] by simp
  qed
qed

lemma ParseInt_1500: "ParseInt ''1500'' = Inr 1500"
  by (simp add: ParseInt_def ParseUint_def digit_val_def)

lemma show_int_1500: "show_int 1500 = ''1500''"
  by (simp add: show_int_def show_nat.simps)

lemma Contains_weight:
  "Contains ''invalid Traffic Manager configuration: weight must be between 1 and 1000, got 1500'' ''weight''"
  unfolding Contains_def by (rule bexI[of _ 39]) simp_all

text \<open>
  \<^bold>\<open>C6.\<close> A Create of a record that is not a TXT record, whose annotations parse, enable
  the feature and set the weight to \<open>"1500"\<close>, fails with the validation error, whose message
  names \<open>weight\<close>, and makes no call of any collaborator: the trace gains the entry log line
  only. (A TXT record is skipped before its annotations are read.)
\<close>

theorem createEndpoint_weight_1500:
  assumes "e_RecordType endpoint \<noteq> ''TXT''"
    and "annotationMap endpoint AnnotationWeight = Some ''1500''"
    and "ParseConfig (strconv_IsPrint cl) (annotationMap endpoint) = Inr config" and "c_Enabled config"
  shows "createEndpoint cl endpoint w
           = (Failed ''invalid Traffic Manager configuration: weight must be between 1 and 1000, got 1500'',
              logged (Creating (e_DNSName endpoint) (e_Targets endpoint) (e_RecordType endpoint)) w)
         \<and> Contains ''invalid Traffic Manager configuration: weight must be between 1 and 1000, got 1500'' ''weight''
         \<and> filter is_call (w_trace (snd (createEndpoint cl endpoint w))) = filter is_call (w_trace w)"
proof -
  have w: "c_Weight config = 1500" "c_ResourceGroup config \<noteq> []"
    using ParseConfig_enabled[OF assms(3,4)] assms(2) ParseInt_1500 by simp_all
  then have v: "ValidateConfig (strconv_IsPrint cl) config = Some ''weight must be between 1 and 1000, got 1500''"
    using assms(4) show_int_1500 by (simp add: ValidateConfig_def)
  have "createEndpoint cl endpoint w
           = (Failed ''invalid Traffic Manager configuration: weight must be between 1 and 1000, got 1500'',
              logged (Creating (e_DNSName endpoint) (e_Targets endpoint) (e_RecordType endpoint)) w)"
    using assms v by (simp add: createEndpoint_def Let_def)
  then show ?thesis using Contains_weight by (simp add: logged_def)
qed

subsection \<open>The profile step of createEndpoint\<close>

lemma create_target_list_nonempty: "create_target_list endpoint \<noteq> []"
  by (simp add: create_target_list_def Let_def)

lemma create_targets_first:
  assumes "create_targets cl endpoint config vanity i (target # targets) w = (r, w')"
  shows "\<exists>ec rest. ec_Target ec = target
            \<and> w_trace w' = w_trace w @ CallCreateEndpoint (c_ResourceGroup config) (c_ProfileName config) ec # rest"
proof -
  define ec where "ec = (let endpointConfig = ToEndpointConfig config target in
            (if length (e_Targets endpoint) > 1 \<and> ec_EndpointName endpointConfig \<noteq> []
             then endpointConfig\<lparr>ec_EndpointName := ec_EndpointName endpointConfig @ ''-'' @ show_nat i\<rparr>
             else if ec_EndpointName endpointConfig = []
             then endpointConfig\<lparr>ec_EndpointName := generateEndpointNameFromTarget target i\<rparr>
             else endpointConfig))"
  have tgt: "ec_Target ec = target" by (simp add: ec_def Let_def ToEndpointConfig_def)
  let ?ev = "CallCreateEndpoint (c_ResourceGroup config) (c_ProfileName config) ec"
  obtain r1 w1 where inv: "invoke ?ev (tm_CreateEndpoint cl (c_ResourceGroup config) (c_ProfileName config) ec) w = (r1, w1)"
    by (cases "invoke ?ev (tm_CreateEndpoint cl (c_ResourceGroup config) (c_ProfileName config) ec) w")
  have t1: "w_trace w1 = w_trace w @ [?ev]" using invoke_fields(1)[OF inv] .
  have "\<exists>rest. w_trace w' = w_trace w1 @ rest"
  proof (cases r1)
    case (Inl err)
    then have "w' = w1" using assms inv by (simp add: ec_def Let_def)
    then show ?thesis by simp
  next
    case (Inr es)
    show ?thesis
    proof (cases "store_endpoint cl vanity (ec_EndpointName ec) es w1")
      case None
      then have "w' = w1" using assms inv Inr by (simp add: ec_def Let_def)
      then show ?thesis by simp
    next
      case (Some w2)
      then have "create_targets cl endpoint config vanity (Suc i) targets w2 = (r, w')"
        using assms inv Inr by (simp add: ec_def Let_def)
      from create_targets_adds[OF this, of vanity] have "adds_only (\<lambda>ev. True) w2 w'"
        by (auto intro: adds_only_mono)
      from adds_onlyD[OF this] store_endpoint_fields(1)[OF Some] show ?thesis by auto
    qed
  qed
  then show ?thesis using t1 tgt by auto
qed

lemma create_endpoints_and_refresh_first:
  assumes "create_endpoints_and_refresh cl endpoint config vanity w = (r, w')"
  shows "\<exists>ec rest. ec_Target ec = hd (create_target_list endpoint)
            \<and> w_trace w' = w_trace w @ CallCreateEndpoint (c_ResourceGroup config) (c_ProfileName config) ec # rest"
proof -
  obtain t ts where tl: "create_target_list endpoint = t # ts"
    using create_target_list_nonempty[of endpoint] by (cases "create_target_list endpoint") auto
  obtain r1 w1 where ct: "create_targets cl endpoint config vanity 0 (t # ts) w = (r1, w1)"
    by (cases "create_targets cl endpoint config vanity 0 (t # ts) w")
  from create_targets_first[OF ct] obtain ec rest where
    f: "ec_Target ec = t" "w_trace w1 = w_trace w @ CallCreateEndpoint (c_ResourceGroup config) (c_ProfileName config) ec # rest"
    by blast
  have "\<exists>more. w_trace w' = w_trace w1 @ more"
  proof (cases r1)
    case Ok
    then have "create_refresh cl endpoint config vanity w1 = (r, w')"
      using assms ct tl by (simp add: create_endpoints_and_refresh_def)
    from adds_onlyD[OF create_refresh_adds(1)[OF this]] show ?thesis by auto
  next
    case (Failed e)
    then have "w' = w1" using assms ct tl by (simp add: create_endpoints_and_refresh_def)
    then show ?thesis by simp
  next
    case Panicked
    then have "w' = w1" using assms ct tl by (simp add: create_endpoints_and_refresh_def)
    then show ?thesis by simp
  qed
  then show ?thesis using f tl by auto
qed

text \<open>
  \<^bold>\<open>C1.\<close> In a Create that reaches the profile step, when \<open>CreateProfile\<close> fails the next
  call is \<open>GetProfile\<close> for the same resource group and profile name. When that fails too,
  the Create fails at this step with a message that carries both errors, and nothing else is
  called; when it succeeds, the Create goes on exactly as after a successful creation, and its
  next call is \<open>CreateEndpoint\<close> for the first target on that profile.
\<close>

theorem createEndpoint_profile_fallback:
  assumes "e_RecordType endpoint \<noteq> ''TXT''"
    and "ParseConfig (strconv_IsPrint cl) (annotationMap endpoint) = Inr config0"
    and "c_Enabled config0" and "ValidateConfig (strconv_IsPrint cl) config0 = None"
    and "config = create_names config0 endpoint" and "vanity = vanity_hostname config0 endpoint"
    and "tm_CreateProfile cl (tagged_profile_config config vanity) (w_env w) = (Inl err, e1)"
    and "tm_GetProfile cl (c_ResourceGroup config) (c_ProfileName config) e1 = (g, e2)"
    and "w2 = w\<lparr>w_env := e2,
                 w_trace := w_trace w @ [Creating (e_DNSName endpoint) (e_Targets endpoint) (e_RecordType endpoint),
                                         CallCreateProfile (tagged_profile_config config vanity),
                                         CallGetProfile (c_ResourceGroup config) (c_ProfileName config)]\<rparr>"
  shows "(\<forall>getErr. g = Inl getErr \<longrightarrow>
            createEndpoint cl endpoint w
              = (Failed (''failed to create/get profile: '' @ getErr @ '' (original error: '' @ err @ '')''), w2))
       \<and> (\<forall>existing. g = Inr existing \<longrightarrow>
            createEndpoint cl endpoint w = create_endpoints_and_refresh cl endpoint config vanity w2
          \<and> (\<exists>ec rest. ec_Target ec = hd (create_target_list endpoint)
                \<and> w_trace (snd (createEndpoint cl endpoint w))
                    = w_trace w2 @ CallCreateEndpoint (c_ResourceGroup config) (c_ProfileName config) ec # rest))"
proof -
  let ?w = "logged (Creating (e_DNSName endpoint) (e_Targets endpoint) (e_RecordType endpoint)) w"
  let ?pc = "tagged_profile_config config vanity"
  have env: "w_env ?w = w_env w" by (simp add: logged_def)
  have i1: "invoke (CallCreateProfile ?pc) (tm_CreateProfile cl ?pc) ?w
              = (Inl err, ?w\<lparr>w_env := e1, w_trace := w_trace ?w @ [CallCreateProfile ?pc]\<rparr>)"
    using assms(7) env by (simp add: invoke_def)
  let ?w1 = "?w\<lparr>w_env := e1, w_trace := w_trace ?w @ [CallCreateProfile ?pc]\<rparr>"
  have i2: "invoke (CallGetProfile (c_ResourceGroup config) (c_ProfileName config))
              (tm_GetProfile cl (c_ResourceGroup config) (c_ProfileName config)) ?w1 = (g, w2)"
    using assms(8,9) by (simp add: invoke_def logged_def)
  have cg: "create_or_get_profile cl config ?pc ?w
      = (case g of Inl getErr \<Rightarrow> (Some (''failed to create/get profile: '' @ getErr @ '' (original error: '' @ err @ '')''), w2)
                 | Inr existing \<Rightarrow> (None, w2))"
    using i1 i2 by (simp add: create_or_get_profile_def)
  have ce: "createEndpoint cl endpoint w
      = (case create_or_get_profile cl config ?pc ?w of
           (Some e, w1) \<Rightarrow> (Failed e, w1)
         | (None, w1) \<Rightarrow> create_endpoints_and_refresh cl endpoint config vanity w1)"
    using assms(1-4) unfolding assms(5,6) by (simp add: createEndpoint_def Let_def)
  have a: "createEndpoint cl endpoint w
              = (Failed (''failed to create/get profile: '' @ getErr @ '' (original error: '' @ err @ '')''), w2)"
    if "g = Inl getErr" for getErr
    using ce cg that by simp
  have b: "createEndpoint cl endpoint w = create_endpoints_and_refresh cl endpoint config vanity w2"
    if "g = Inr existing" for existing
    using ce cg that by simp
  have c: "\<exists>ec rest. ec_Target ec = hd (create_target_list endpoint)
                \<and> w_trace (snd (createEndpoint cl endpoint w))
                    = w_trace w2 @ CallCreateEndpoint (c_ResourceGroup config) (c_ProfileName config) ec # rest"
    if "g = Inr existing" for existing
  proof -
    obtain r w' where cr: "create_endpoints_and_refresh cl endpoint config vanity w2 = (r, w')"
      by (cases "create_endpoints_and_refresh cl endpoint config vanity w2")
    from create_endpoints_and_refresh_first[OF cr] b[OF that] cr show ?thesis by simp
  qed
  show ?thesis using a b c by blast
qed

subsection \<open>Redundant writes in updateEndpoint\<close>

lemma profile_changed_update_names:
  "profile_changed oldConfig (update_names newConfig newEndpoint) = profile_changed oldConfig newConfig"
  by (simp add: profile_changed_def update_names_def Let_def split: option.splits)

lemma update_names_fields:
  "c_Weight (update_names nc e) = c_Weight nc" "c_EndpointStatus (update_names nc e) = c_EndpointStatus nc"
  "c_ResourceGroup (update_names nc e) = c_ResourceGroup nc"
  by (simp_all add: update_names_def Let_def)

lemma new_events_logged:
  assumes "adds_only P (logged ev w) w'"
  shows "new_events w w' = ev # new_events (logged ev w) w'"
proof -
  from adds_onlyD[OF assms] have "w_trace w' = w_trace w @ (ev # new_events (logged ev w) w')"
    by (simp add: logged_def)
  then show ?thesis by (simp add: new_events_def[of w w'])
qed

lemma new_events_same: "new_events w w = []"
  by (simp add: new_events_def)

lemma update_targets_single:
  assumes "update_targets cl newEndpoint (Some oc) nc [target] w = (r, w')"
    and "c_Weight oc \<noteq> c_Weight nc \<or> c_EndpointStatus oc \<noteq> c_EndpointStatus nc"
  shows "new_events w w' = [CallUpdateEndpoint (c_ResourceGroup nc) (c_ProfileName nc) (ToEndpointConfig nc target)]"
proof -
  let ?ec = "ToEndpointConfig nc target"
  let ?ev = "CallUpdateEndpoint (c_ResourceGroup nc) (c_ProfileName nc) ?ec"
  obtain r1 w1 where inv: "invoke ?ev (tm_UpdateEndpoint cl (c_ResourceGroup nc) (c_ProfileName nc) ?ec) w = (r1, w1)"
    by (cases "invoke ?ev (tm_UpdateEndpoint cl (c_ResourceGroup nc) (c_ProfileName nc) ?ec) w")
  have n1: "new_events w w1 = [?ev]" using invoke_keeps(2)[OF inv] .
  show ?thesis
  proof (cases r1)
    case (Inl err)
    then have "w' = w1" using assms inv by (auto simp: Let_def)
    then show ?thesis using n1 by simp
  next
    case (Inr es)
    show ?thesis
    proof (cases "store_endpoint cl (e_DNSName newEndpoint) (ec_EndpointName ?ec) es w1")
      case None
      then have "w' = w1" using assms inv Inr by (auto simp: Let_def)
      then show ?thesis using n1 by simp
    next
      case (Some w2)
      then have "w' = w2" using assms inv Inr by (auto simp: Let_def)
      then show ?thesis
        using n1 store_endpoint_fields(1)[OF Some] invoke_fields(1)[OF inv]
        by (simp add: new_events_def)
    qed
  qed
qed

lemma updateEndpoint_unchanged_profile:
  assumes old: "ParseConfig (strconv_IsPrint cl) (e_Labels oldEndpoint) = Inr oc"
    and new: "ParseConfig (strconv_IsPrint cl) (e_Labels newEndpoint) = Inr nc"
    and same: "\<not> profile_changed (Some oc) nc"
    and res: "updateEndpoint cl oldEndpoint newEndpoint w = (r, w')"
  shows "filter is_profile_update (new_events w w') = []"
    "c_Enabled nc \<Longrightarrow> ValidateConfig (strconv_IsPrint cl) nc = None \<Longrightarrow> e_Targets newEndpoint = [target]
     \<Longrightarrow> c_Weight oc \<noteq> c_Weight nc \<or> c_EndpointStatus oc \<noteq> c_EndpointStatus nc
     \<Longrightarrow> filter is_endpoint_update (new_events w w')
           = [CallUpdateEndpoint (c_ResourceGroup nc) (c_ProfileName (update_names nc newEndpoint))
                (ToEndpointConfig (update_names nc newEndpoint) target)]"
proof -
  let ?w = "logged (Updating (e_DNSName newEndpoint)) w"
  let ?nc = "update_names nc newEndpoint"
  let ?get = "CallGetProfileState (c_ResourceGroup ?nc) (c_ProfileName ?nc)"
  have ne: "new_events w w' = Updating (e_DNSName newEndpoint) # new_events ?w w'"
    using new_events_logged[OF updateEndpoint_adds(1)[OF res]] .
  have same': "\<not> profile_changed (Some oc) ?nc" using same by (simp add: profile_changed_update_names)
  have up: "update_profile_if_changed cl newEndpoint (Some oc) ?nc ?w = (None, ?w)"
    using same' by (simp add: update_profile_if_changed_def)
  show "filter is_profile_update (new_events w w') = []"
  proof (cases "c_Enabled nc \<and> ValidateConfig (strconv_IsPrint cl) nc = None")
    case False
    then have "w' = ?w" using res new
      by (auto simp: updateEndpoint_def Let_def split: option.splits if_splits)
    then show ?thesis using ne by (simp add: new_events_same)
  next
    case True
    obtain r2 w2 where ut: "update_targets cl newEndpoint (Some oc) ?nc (e_Targets newEndpoint) ?w = (r2, w2)"
      by (cases "update_targets cl newEndpoint (Some oc) ?nc (e_Targets newEndpoint) ?w")
    from update_targets_adds[OF ut, of "[]"] have a2: "adds_only is_endpoint_update ?w w2" by simp
    have "adds_only (\<lambda>ev. is_endpoint_update ev \<or> ev = ?get) ?w w'"
    proof (cases r2)
      case Ok
      then have "update_refresh cl newEndpoint ?nc w2 = (r, w')"
        using res new old True up ut by (simp add: updateEndpoint_def Let_def)
      from update_refresh_adds(1)[OF this] a2 show ?thesis
        by (blast intro: adds_only_trans adds_only_mono)
    next
      case (Failed e)
      then have "w' = w2" using res new old True up ut by (simp add: updateEndpoint_def Let_def)
      then show ?thesis using a2 by (blast intro: adds_only_mono)
    next
      case Panicked
      then have "w' = w2" using res new old True up ut by (simp add: updateEndpoint_def Let_def)
      then show ?thesis using a2 by (blast intro: adds_only_mono)
    qed
    from adds_onlyD[OF this] have "list_all (\<lambda>ev. is_endpoint_update ev \<or> ev = ?get) (new_events ?w w')"
      by simp
    moreover have "\<not> is_profile_update ev" if "is_endpoint_update ev \<or> ev = ?get" for ev
      using that by (cases ev) auto
    ultimately have "filter is_profile_update (new_events ?w w') = []"
      by (auto simp: list_all_iff filter_empty_conv)
    then show ?thesis using ne by simp
  qed
  show "filter is_endpoint_update (new_events w w')
           = [CallUpdateEndpoint (c_ResourceGroup nc) (c_ProfileName ?nc) (ToEndpointConfig ?nc target)]"
    if en: "c_Enabled nc" and va: "ValidateConfig (strconv_IsPrint cl) nc = None" and tg: "e_Targets newEndpoint = [target]"
      and df: "c_Weight oc \<noteq> c_Weight nc \<or> c_EndpointStatus oc \<noteq> c_EndpointStatus nc"
  proof -
    obtain r2 w2 where ut: "update_targets cl newEndpoint (Some oc) ?nc [target] ?w = (r2, w2)"
      by (cases "update_targets cl newEndpoint (Some oc) ?nc [target] ?w")
    have df': "c_Weight oc \<noteq> c_Weight ?nc \<or> c_EndpointStatus oc \<noteq> c_EndpointStatus ?nc"
      using df by (simp add: update_names_fields)
    from update_targets_single[OF ut df']
    have n2: "new_events ?w w2 = [CallUpdateEndpoint (c_ResourceGroup nc) (c_ProfileName ?nc) (ToEndpointConfig ?nc target)]"
      by (simp add: update_names_fields)
    from update_targets_adds[OF ut, of "[]"] have a2: "adds_only is_endpoint_update ?w w2" by simp
    have "new_events ?w w' = new_events ?w w2 \<or> new_events ?w w' = new_events ?w w2 @ [?get]"
    proof (cases r2)
      case Ok
      then have ur: "update_refresh cl newEndpoint ?nc w2 = (r, w')"
        using res new old en va tg up ut by (simp add: updateEndpoint_def Let_def)
      from new_events_trans[OF a2 update_refresh_adds(1)[OF ur]] update_refresh_adds(3)[OF ur]
      show ?thesis by simp
    next
      case (Failed e)
      then have "w' = w2" using res new old en va tg up ut by (simp add: updateEndpoint_def Let_def)
      then show ?thesis by simp
    next
      case Panicked
      then have "w' = w2" using res new old en va tg up ut by (simp add: updateEndpoint_def Let_def)
      then show ?thesis by simp
    qed
    then show ?thesis using ne n2 by auto
  qed
qed

text \<open>A configuration that parsed is enabled exactly when the \<open>enabled\<close> annotation says so;
  a disabled one is the configuration of defaults.\<close>

lemma ParseConfig_enabled_iff:
  assumes "ParseConfig tbl ls = Inr config"
  shows "c_Enabled config \<longleftrightarrow> (\<exists>e. ls AnnotationEnabled = Some e \<and> ToLower e = ''true'')"
    "\<not> c_Enabled config \<Longrightarrow> config = default_config"
proof -
  have A: "c_Enabled config" if en: "\<exists>e. ls AnnotationEnabled = Some e \<and> ToLower e = ''true''"
  proof -
    define c0 where "c0 = default_config\<lparr>c_Enabled := True,
        c_ResourceGroup := (case ls AnnotationResourceGroup of Some v \<Rightarrow> v | None \<Rightarrow> [])\<rparr>"
    define c1 where "c1 = parse_string ls AnnotationRoutingMethod (\<lambda>v c. c\<lparr>c_RoutingMethod := v\<rparr>)
        (parse_string ls AnnotationHostname (\<lambda>v c. c\<lparr>c_Hostname := v\<rparr>)
          (parse_string ls AnnotationProfileName (\<lambda>v c. c\<lparr>c_ProfileName := v\<rparr>) c0))"
    from en have rest: "c_ResourceGroup c0 \<noteq> [] \<and>
        bind_err (parse_int tbl ls AnnotationWeight ''weight'' (\<lambda>n c. c\<lparr>c_Weight := n\<rparr>) c1) (\<lambda>config.
          bind_err (parse_int tbl ls AnnotationPriority ''priority'' (\<lambda>n c. c\<lparr>c_Priority := n\<rparr>) config) (\<lambda>config.
            bind_err (parse_int tbl ls AnnotationDNSTTL ''DNS TTL'' (\<lambda>n c. c\<lparr>c_DNSTTL := n\<rparr>)
                (parse_string ls AnnotationEndpointStatus (\<lambda>v c. c\<lparr>c_EndpointStatus := v\<rparr>)
                  (parse_string ls AnnotationEndpointLocation (\<lambda>v c. c\<lparr>c_EndpointLocation := v\<rparr>)
                    (parse_string ls AnnotationEndpointName (\<lambda>v c. c\<lparr>c_EndpointName := v\<rparr>) config))))
              (\<lambda>config.
                bind_err (parse_int tbl ls AnnotationMonitorPort ''monitor port'' (\<lambda>n c. c\<lparr>c_MonitorPort := n\<rparr>)
                    (parse_string ls AnnotationMonitorProtocol (\<lambda>v c. c\<lparr>c_MonitorProtocol := v\<rparr>) config))
                  (\<lambda>config. parse_health_checks tbl ls
                    (parse_string ls AnnotationMonitorPath (\<lambda>v c. c\<lparr>c_MonitorPath := v\<rparr>) config))))) = Inr config"
      using assms(1) unfolding ParseConfig_def c0_def c1_def
      by (auto simp: Let_def split: if_splits)
    then obtain c2 c3 c4 c5 where
      s2: "parse_int tbl ls AnnotationWeight ''weight'' (\<lambda>n c. c\<lparr>c_Weight := n\<rparr>) c1 = Inr c2" and
      s3: "parse_int tbl ls AnnotationPriority ''priority'' (\<lambda>n c. c\<lparr>c_Priority := n\<rparr>) c2 = Inr c3" and
      s4: "parse_int tbl ls AnnotationDNSTTL ''DNS TTL'' (\<lambda>n c. c\<lparr>c_DNSTTL := n\<rparr>)
                (parse_string ls AnnotationEndpointStatus (\<lambda>v c. c\<lparr>c_EndpointStatus := v\<rparr>)
                  (parse_string ls AnnotationEndpointLocation (\<lambda>v c. c\<lparr>c_EndpointLocation := v\<rparr>)
                    (parse_string ls AnnotationEndpointName (\<lambda>v c. c\<lparr>c_EndpointName := v\<rparr>) c3))) = Inr c4" and
      s5: "parse_int tbl ls AnnotationMonitorPort ''monitor port'' (\<lambda>n c. c\<lparr>c_MonitorPort := n\<rparr>)
                    (parse_string ls AnnotationMonitorProtocol (\<lambda>v c. c\<lparr>c_MonitorProtocol := v\<rparr>) c4) = Inr c5" and
      s6: "parse_health_checks tbl ls (parse_string ls AnnotationMonitorPath (\<lambda>v c. c\<lparr>c_MonitorPath := v\<rparr>) c5) = Inr config"
      by (auto simp: bind_err_def split: sum.splits)
    have "c_Enabled config = c_Enabled c5"
      using parse_health_checks_field[OF s6, of c_Enabled] by (simp add: parse_string_field)
    also have "\<dots> = c_Enabled c4" using parse_int_field[OF s5, of c_Enabled] by (simp add: parse_string_field)
    also have "\<dots> = c_Enabled c3" using parse_int_field[OF s4, of c_Enabled] by (simp add: parse_string_field)
    also have "\<dots> = c_Enabled c2" using parse_int_field[OF s3, of c_Enabled] by simp
    also have "\<dots> = c_Enabled c0" using parse_int_field[OF s2, of c_Enabled] by (simp add: c1_def parse_string_field)
    finally show ?thesis by (simp add: c0_def)
  qed
  have B: "config = default_config \<and> \<not> c_Enabled config"
    if "\<not> (\<exists>e. ls AnnotationEnabled = Some e \<and> ToLower e = ''true'')"
    using that assms by (auto simp: ParseConfig_def Let_def default_config_def split: option.splits)
  show "c_Enabled config \<longleftrightarrow> (\<exists>e. ls AnnotationEnabled = Some e \<and> ToLower e = ''true'')"
    using A B by blast
  show "config = default_config" if "\<not> c_Enabled config"
    using A B that by blast
qed

text \<open>
  \<^bold>\<open>C4.\<close> An Update whose old and new labels parse to configurations that agree on the
  profile-level fields (routing method, DNS TTL, monitor protocol, port and path, health-checks
  flag) issues no remote profile update. When only the weight differs between the two
  configurations, the new configuration passes validation and the new endpoint has a single
  target, the Update issues exactly one remote endpoint update, for that target, and no
  remote profile update.
\<close>

theorem updateEndpoint_redundant_writes:
  assumes old: "ParseConfig (strconv_IsPrint cl) (e_Labels oldEndpoint) = Inr oc"
    and new: "ParseConfig (strconv_IsPrint cl) (e_Labels newEndpoint) = Inr nc"
    and res: "updateEndpoint cl oldEndpoint newEndpoint w = (r, w')"
  shows "(c_RoutingMethod oc = c_RoutingMethod nc \<and> c_DNSTTL oc = c_DNSTTL nc
            \<and> c_MonitorProtocol oc = c_MonitorProtocol nc \<and> c_MonitorPort oc = c_MonitorPort nc
            \<and> c_MonitorPath oc = c_MonitorPath nc \<and> c_HealthChecksEnabled oc = c_HealthChecksEnabled nc
          \<longrightarrow> filter is_profile_update (new_events w w') = [])
       \<and> (nc = oc\<lparr>c_Weight := c_Weight nc\<rparr> \<and> c_Weight oc \<noteq> c_Weight nc
            \<and> ValidateConfig (strconv_IsPrint cl) nc = None \<and> e_Targets newEndpoint = [target]
          \<longrightarrow> filter is_endpoint_update (new_events w w')
                = [CallUpdateEndpoint (c_ResourceGroup nc) (c_ProfileName (update_names nc newEndpoint))
                     (ToEndpointConfig (update_names nc newEndpoint) target)]
              \<and> filter is_profile_update (new_events w w') = [])"
proof (intro conjI impI)
  assume "c_RoutingMethod oc = c_RoutingMethod nc \<and> c_DNSTTL oc = c_DNSTTL nc
            \<and> c_MonitorProtocol oc = c_MonitorProtocol nc \<and> c_MonitorPort oc = c_MonitorPort nc
            \<and> c_MonitorPath oc = c_MonitorPath nc \<and> c_HealthChecksEnabled oc = c_HealthChecksEnabled nc"
  then have "\<not> profile_changed (Some oc) nc" by (simp add: profile_changed_def)
  from updateEndpoint_unchanged_profile(1)[OF old new this res]
  show "filter is_profile_update (new_events w w') = []" .
next
  assume a: "nc = oc\<lparr>c_Weight := c_Weight nc\<rparr> \<and> c_Weight oc \<noteq> c_Weight nc
            \<and> ValidateConfig (strconv_IsPrint cl) nc = None \<and> e_Targets newEndpoint = [target]"
  then have eq: "nc = oc\<lparr>c_Weight := c_Weight nc\<rparr>" by simp
  have same: "\<not> profile_changed (Some oc) nc"
    by (subst eq) (simp add: profile_changed_def)
  have ee: "c_Enabled nc = c_Enabled oc" by (subst eq) simp
  have en: "c_Enabled nc"
  proof (rule ccontr)
    assume n: "\<not> c_Enabled nc"
    then have "nc = default_config" "oc = default_config"
      using ParseConfig_enabled_iff(2)[OF new] ParseConfig_enabled_iff(2)[OF old] ee by simp_all
    then show False using a by simp
  qed
  from updateEndpoint_unchanged_profile(2)[OF old new same res en] a
  show "filter is_endpoint_update (new_events w w')
                = [CallUpdateEndpoint (c_ResourceGroup nc) (c_ProfileName (update_names nc newEndpoint))
                     (ToEndpointConfig (update_names nc newEndpoint) target)]"
    by simp
  from updateEndpoint_unchanged_profile(1)[OF old new same res]
  show "filter is_profile_update (new_events w w') = []" .
qed

subsection \<open>Storing a fetched profile\<close>


lemma distinct_map_fst_read:
  "read_entries H kvs = Some vs \<Longrightarrow> map fst kvs = map fst vs"
  by (induction kvs arbitrary: vs) (auto split: option.splits)





section \<open>The end of a Delete\<close>




lemma filter_delete_call [simp]:
  "is_profile_delete (CallDeleteProfile rg pn)" "\<not> is_profile_delete (CallGetProfileState rg pn)"
  "\<not> is_profile_delete (CallDnsDelete n)"
  "\<not> is_profile_delete (CallDeleteEndpoint rg pn ty en)"
  by simp_all



section \<open>Create, then Delete, on the simulated control plane\<close>













section \<open>The operations on the simulated control plane\<close>

text \<open>Unfolding rules for evaluating the examples.\<close>

lemmas sim_defs = sim_client_def sim_put_profile_def sim_GetProfile_def sim_UpdateProfile_def
  sim_DeleteProfile_def sim_put_endpoint_def sim_DeleteEndpoint_def sim_GetProfileState_def
  sim_profile_state_def sim_profile_value_def sim_endpoint_state_def sim_fqdn_def tick_def
  sim_client_no_create_def sim_client_no_delete_def

lemmas name_defs = vanity_hostname_def create_names_def update_names_def delete_names_def
  generateProfileName_def generateEndpointName_def generateEndpointNameFromTarget_def
  sanitizeName_def is_alnum_def rune_width_def cont_byte_def tagged_profile_config_def
  ToProfileConfig_def DefaultProfileConfig_def ToEndpointConfig_def DefaultEndpointConfig_def
  create_target_list_def

lemmas validate_defs = ValidateConfig_def validRoutingMethods_def validProtocols_def validStatuses_def

lemma app_parse: "ParseConfig tbl app_labels = Inr app_config"
  by (simp add: app_labels_def app_config_def parse_defs annotation_defs default_config_def Let_def)

lemma app_valid: "c_Enabled app_config" "ValidateConfig tbl app_config = None"
  by (simp_all add: app_config_def default_config_def default_defs validate_defs)

lemma app_annotations: "annotationMap app_endpoint = app_labels"
  by (simp add: annotationMap_def app_endpoint_def)

lemma heavy_parse: "ParseConfig tbl (e_Labels heavy_endpoint) = Inr (app_config\<lparr>c_Weight := 1500\<rparr>)"
  by (simp add: heavy_endpoint_def app_endpoint_def app_labels_def app_config_def parse_defs annotation_defs
      default_config_def Let_def)

lemma light_parse: "ParseConfig tbl (e_Labels light_endpoint) = Inr (app_config\<lparr>c_Weight := 50\<rparr>)"
  by (simp add: light_endpoint_def app_endpoint_def app_labels_def app_config_def parse_defs annotation_defs
      default_config_def Let_def)

theorem createEndpoint_weight_1500_witness:
  "e_RecordType heavy_endpoint \<noteq> ''TXT''
   \<and> annotationMap heavy_endpoint AnnotationWeight = Some ''1500''
   \<and> ParseConfig (strconv_IsPrint sim_client) (annotationMap heavy_endpoint) = Inr (app_config\<lparr>c_Weight := 1500\<rparr>)
   \<and> fst (createEndpoint sim_client heavy_endpoint sim_start)
       = Failed ''invalid Traffic Manager configuration: weight must be between 1 and 1000, got 1500''
   \<and> w_trace (snd (createEndpoint sim_client heavy_endpoint sim_start)) = [Creating ''app.example.com'' [''1.2.3.4''] ''A'']"
proof -
  have nt: "e_RecordType heavy_endpoint \<noteq> ''TXT''"
    by (simp add: heavy_endpoint_def app_endpoint_def)
  have am: "annotationMap heavy_endpoint = e_Labels heavy_endpoint"
    by (simp add: annotationMap_def heavy_endpoint_def app_endpoint_def)
  have wt: "annotationMap heavy_endpoint AnnotationWeight = Some ''1500''"
    unfolding am by (simp add: heavy_endpoint_def)
  have pc: "ParseConfig (strconv_IsPrint sim_client) (annotationMap heavy_endpoint) = Inr (app_config\<lparr>c_Weight := 1500\<rparr>)"
    using heavy_parse am by simp
  have en: "c_Enabled (app_config\<lparr>c_Weight := 1500\<rparr>)" using app_valid(1) by simp
  show ?thesis
    using nt wt pc createEndpoint_weight_1500 [OF nt wt pc en, of sim_start]
    by (simp add: logged_def sim_start_def heavy_endpoint_def app_endpoint_def)
qed

theorem createEndpoint_weight_1500_TXT_counterexample:
  "annotationMap txt_endpoint AnnotationEnabled = Some ''true''
   \<and> annotationMap txt_endpoint AnnotationWeight = Some ''1500''
   \<and> ParseConfig (strconv_IsPrint sim_client) (annotationMap txt_endpoint) = Inr (app_config\<lparr>c_Weight := 1500\<rparr>)
   \<and> createEndpoint sim_client txt_endpoint sim_start
       = (Ok, sim_start\<lparr>w_trace := [Creating ''app.example.com'' [''1.2.3.4''] ''TXT'']\<rparr>)"
proof -
  have am: "annotationMap txt_endpoint = e_Labels heavy_endpoint"
    by (simp add: annotationMap_def txt_endpoint_def heavy_endpoint_def app_endpoint_def)
  have "createEndpoint sim_client txt_endpoint sim_start
       = (Ok, sim_start\<lparr>w_trace := [Creating ''app.example.com'' [''1.2.3.4''] ''TXT'']\<rparr>)"
    by (simp add: createEndpoint_def txt_endpoint_def heavy_endpoint_def app_endpoint_def logged_def sim_start_def)
  then show ?thesis
    using heavy_parse am by (simp add: heavy_endpoint_def app_labels_def annotation_defs)
qed


lemma app_labels_parse: "ParseConfig tbl (e_Labels app_endpoint) = Inr app_config"
  using app_parse by (simp add: app_endpoint_def)

lemma light_valid: "ValidateConfig tbl (app_config\<lparr>c_Weight := 50\<rparr>) = None"
  by (simp add: app_config_def default_config_def default_defs validate_defs)

theorem updateEndpoint_redundant_writes_witness:
  "ParseConfig (strconv_IsPrint sim_client) (e_Labels app_endpoint) = Inr app_config
   \<and> ParseConfig (strconv_IsPrint sim_client) (e_Labels light_endpoint) = Inr (app_config\<lparr>c_Weight := 50\<rparr>)
   \<and> c_Weight app_config = 100
   \<and> ValidateConfig (strconv_IsPrint sim_client) (app_config\<lparr>c_Weight := 50\<rparr>) = None
   \<and> e_Targets light_endpoint = [''1.2.3.4'']
   \<and> filter is_profile_update
       (new_events sim_existing (snd (updateEndpoint sim_client app_endpoint light_endpoint sim_existing))) = []
   \<and> filter is_endpoint_update
       (new_events sim_existing (snd (updateEndpoint sim_client app_endpoint light_endpoint sim_existing)))
       = [CallUpdateEndpoint ''rg'' ''app-example-com-tm''
            \<lparr> ec_EndpointName = ''1-2-3-4'', ec_EndpointType = ''ExternalEndpoints'',
              ec_Target = ''1.2.3.4'', ec_Weight = 50, ec_Priority = 1, ec_Status = ''Enabled'',
              ec_Location = ''eastus'' \<rparr>]"
proof -
  let ?nc = "app_config\<lparr>c_Weight := 50\<rparr>"
  have tg: "e_Targets light_endpoint = [''1.2.3.4'']" by (simp add: light_endpoint_def app_endpoint_def)
  have wt: "c_Weight app_config = 100"
    by (simp add: app_config_def default_config_def default_defs)
  have only: "?nc = app_config\<lparr>c_Weight := c_Weight ?nc\<rparr> \<and> c_Weight app_config \<noteq> c_Weight ?nc
            \<and> ValidateConfig (strconv_IsPrint sim_client) ?nc = None \<and> e_Targets light_endpoint = [''1.2.3.4'']"
    using light_valid tg wt by simp
  have prof: "c_RoutingMethod app_config = c_RoutingMethod ?nc \<and> c_DNSTTL app_config = c_DNSTTL ?nc
            \<and> c_MonitorProtocol app_config = c_MonitorProtocol ?nc \<and> c_MonitorPort app_config = c_MonitorPort ?nc
            \<and> c_MonitorPath app_config = c_MonitorPath ?nc
            \<and> c_HealthChecksEnabled app_config = c_HealthChecksEnabled ?nc"
    by simp
  have nm: "update_names ?nc light_endpoint
              = app_config\<lparr>c_Weight := 50, c_ProfileName := ''app-example-com-tm'',
                            c_EndpointName := ''1-2-3-4''\<rparr>"
    by (simp add: name_defs light_endpoint_def app_endpoint_def app_config_def default_config_def Let_def)
  note T = updateEndpoint_redundant_writes
            [where cl = sim_client and w = sim_existing and target = "''1.2.3.4''",
             OF app_labels_parse light_parse prod.collapse[symmetric]]
  from T[THEN conjunct1, THEN mp, OF prof] T[THEN conjunct2, THEN mp, OF only]
  have "filter is_profile_update
       (new_events sim_existing (snd (updateEndpoint sim_client app_endpoint light_endpoint sim_existing))) = []
   \<and> filter is_endpoint_update
       (new_events sim_existing (snd (updateEndpoint sim_client app_endpoint light_endpoint sim_existing)))
       = [CallUpdateEndpoint ''rg'' ''app-example-com-tm''
            \<lparr> ec_EndpointName = ''1-2-3-4'', ec_EndpointType = ''ExternalEndpoints'',
              ec_Target = ''1.2.3.4'', ec_Weight = 50, ec_Priority = 1, ec_Status = ''Enabled'',
              ec_Location = ''eastus'' \<rparr>]"
    by (simp add: nm) (simp add: name_defs app_config_def default_config_def default_defs)
  then show ?thesis
    using app_labels_parse light_parse light_valid tg wt by simp
qed

theorem updateEndpoint_weight_only_counterexample:
  "ParseConfig (strconv_IsPrint sim_client) (e_Labels app_endpoint) = Inr app_config
   \<and> ParseConfig (strconv_IsPrint sim_client) (e_Labels heavy_endpoint) = Inr (app_config\<lparr>c_Weight := 1500\<rparr>)
   \<and> e_Targets heavy_endpoint = [''1.2.3.4'']
   \<and> updateEndpoint sim_client app_endpoint heavy_endpoint sim_existing
       = (Failed ''invalid Traffic Manager configuration: weight must be between 1 and 1000, got 1500'',
          sim_existing\<lparr>w_trace := [Updating ''app.example.com'']\<rparr>)
   \<and> filter is_endpoint_update
       (new_events sim_existing (snd (updateEndpoint sim_client app_endpoint heavy_endpoint sim_existing))) = []"
proof -
  have va: "ValidateConfig (strconv_IsPrint sim_client) (app_config\<lparr>c_Weight := 1500\<rparr>)
              = Some ''weight must be between 1 and 1000, got 1500''"
    by (simp add: app_config_def default_config_def default_defs validate_defs show_int_1500)
  have up: "updateEndpoint sim_client app_endpoint heavy_endpoint sim_existing
       = (Failed ''invalid Traffic Manager configuration: weight must be between 1 and 1000, got 1500'',
          sim_existing\<lparr>w_trace := [Updating ''app.example.com'']\<rparr>)"
    using heavy_parse va app_valid(1)
    by (simp add: updateEndpoint_def logged_def heavy_endpoint_def app_endpoint_def sim_existing_def sim_start_def)
  show ?thesis
    using app_labels_parse heavy_parse up
    by (simp add: new_events_def heavy_endpoint_def app_endpoint_def sim_existing_def sim_start_def)
qed


lemma plain_create: "createEndpoint cl plain_endpoint w = (Ok, logged (Creating ''plain.example.com'' [''1.2.3.4''] ''A'') w)"
  by (simp add: createEndpoint_def plain_endpoint_def app_endpoint_def annotationMap_def parse_defs
      annotation_defs default_config_def Let_def)

lemma broken_update:
  "updateEndpoint cl plain_endpoint broken_endpoint w
     = (Failed ''failed to parse new annotations: annotation webhook/traffic-manager-resource-group is required when Traffic Manager is enabled'',
        logged (Updating ''broken.example.com'') w)"
  by (simp add: updateEndpoint_def broken_endpoint_def app_endpoint_def parse_defs
      annotation_defs default_config_def Let_def)

theorem ApplyChanges_order_witness:
  "items demo_changes
     = [CreateItem plain_endpoint, UpdateItem plain_endpoint broken_endpoint,
        UpdateItem plain_endpoint plain_endpoint, DeleteItem plain_endpoint]
   \<and> attempted sim_client (items demo_changes) sim_start
       = [CreateItem plain_endpoint, UpdateItem plain_endpoint broken_endpoint]
   \<and> fst (ApplyChanges sim_client demo_changes sim_start)
       = Failed ''failed to parse new annotations: annotation webhook/traffic-manager-resource-group is required when Traffic Manager is enabled''
   \<and> w_trace (snd (ApplyChanges sim_client demo_changes sim_start))
       = [Creating ''plain.example.com'' [''1.2.3.4''] ''A'', Updating ''broken.example.com'']"
proof -
  have it: "items demo_changes
     = [CreateItem plain_endpoint, UpdateItem plain_endpoint broken_endpoint,
        UpdateItem plain_endpoint plain_endpoint, DeleteItem plain_endpoint]"
    by (simp add: items_def demo_changes_def upt_rec)
  have at: "attempted sim_client (items demo_changes) sim_start
       = [CreateItem plain_endpoint, UpdateItem plain_endpoint broken_endpoint]"
    by (simp add: it plain_create broken_update)
  have ru: "run_items sim_client (items demo_changes) sim_start
       = (Failed ''failed to parse new annotations: annotation webhook/traffic-manager-resource-group is required when Traffic Manager is enabled'',
          sim_start\<lparr>w_trace := [Creating ''plain.example.com'' [''1.2.3.4''] ''A'', Updating ''broken.example.com'']\<rparr>)"
    by (simp add: it plain_create broken_update logged_def sim_start_def)
  show ?thesis
    using ApplyChanges_order[of sim_client demo_changes sim_start] it at ru
    by simp
qed

lemma app_create_names:
  "create_names app_config app_endpoint
     = app_config\<lparr>c_ProfileName := ''app-example-com-tm'', c_EndpointName := ''1-2-3-4''\<rparr>"
  "vanity_hostname app_config app_endpoint = ''app.example.com''"
  by (simp_all add: name_defs app_endpoint_def app_config_def default_config_def Let_def)

lemma app_tagged:
  "tagged_profile_config (app_config\<lparr>c_ProfileName := ''app-example-com-tm'', c_EndpointName := ''1-2-3-4''\<rparr>)
     ''app.example.com'' = app_profile_config"
  by (simp add: name_defs app_config_def default_config_def default_defs app_profile_config_def)

lemma app_config_rg: "c_ResourceGroup app_config = ''rg''"
  by (simp add: app_config_def)

theorem createEndpoint_profile_fallback_witness:
  "fst (createEndpoint sim_client_no_create app_endpoint sim_start)
     = Failed ''failed to create/get profile: failed to get profile: not found (original error: failed to create profile: conflict)''
   \<and> w_trace (snd (createEndpoint sim_client_no_create app_endpoint sim_start))
       = [Creating ''app.example.com'' [''1.2.3.4''] ''A'', CallCreateProfile app_profile_config,
          CallGetProfile ''rg'' ''app-example-com-tm'']
   \<and> (\<exists>ec rest. ec_Target ec = ''app.example.com''
         \<and> w_trace (snd (createEndpoint sim_client_no_create app_endpoint sim_existing))
             = [Creating ''app.example.com'' [''1.2.3.4''] ''A'', CallCreateProfile app_profile_config,
                CallGetProfile ''rg'' ''app-example-com-tm'',
                CallCreateEndpoint ''rg'' ''app-example-com-tm'' ec] @ rest)"
proof -
  let ?config = "create_names app_config app_endpoint"
  have nt: "e_RecordType app_endpoint \<noteq> ''TXT''" by (simp add: app_endpoint_def)
  have pc: "ParseConfig (strconv_IsPrint sim_client_no_create) (annotationMap app_endpoint) = Inr app_config"
    using app_parse app_annotations by simp
  have cp: "tm_CreateProfile sim_client_no_create pcfg e = (Inl ''failed to create profile: conflict'', tick e)"
    for pcfg e by (simp add: sim_client_no_create_def sim_client_def)
  have gpA: "tm_GetProfile sim_client_no_create (c_ResourceGroup ?config) (c_ProfileName ?config) (tick (w_env sim_start))
               = (Inl ''failed to get profile: not found'', tick (tick (w_env sim_start)))"
    unfolding app_create_names
    by (simp add: app_config_def sim_client_no_create_def sim_client_def sim_GetProfile_def
        sim_start_def tick_def)
  have gpB: "tm_GetProfile sim_client_no_create (c_ResourceGroup ?config) (c_ProfileName ?config) (tick (w_env sim_existing))
               = (Inr (sim_profile_state 1001 \<lparr>sp_config = app_profile_config, sp_endpoints = []\<rparr>),
                  tick (tick (w_env sim_existing)))"
    unfolding app_create_names
    by (simp add: app_config_def sim_client_no_create_def sim_client_def sim_GetProfile_def
        sim_existing_def sim_start_def tick_def)
  have tl: "hd (create_target_list app_endpoint) = ''app.example.com''"
    by (simp add: create_target_list_def app_endpoint_def)
  from createEndpoint_profile_fallback[OF nt pc app_valid refl refl cp gpA refl, THEN conjunct1, rule_format, OF refl]
  have A: "fst (createEndpoint sim_client_no_create app_endpoint sim_start)
             = Failed ''failed to create/get profile: failed to get profile: not found (original error: failed to create profile: conflict)''
           \<and> w_trace (snd (createEndpoint sim_client_no_create app_endpoint sim_start))
             = w_trace sim_start @ [Creating (e_DNSName app_endpoint) (e_Targets app_endpoint) (e_RecordType app_endpoint),
                  CallCreateProfile (tagged_profile_config ?config (vanity_hostname app_config app_endpoint)),
                  CallGetProfile (c_ResourceGroup ?config) (c_ProfileName ?config)]"
    by simp
  from createEndpoint_profile_fallback[OF nt pc app_valid refl refl cp gpB refl, THEN conjunct2, rule_format, OF refl, THEN conjunct2]
  have B: "\<exists>ec rest. ec_Target ec = hd (create_target_list app_endpoint)
           \<and> w_trace (snd (createEndpoint sim_client_no_create app_endpoint sim_existing))
             = (w_trace sim_existing @ [Creating (e_DNSName app_endpoint) (e_Targets app_endpoint) (e_RecordType app_endpoint),
                  CallCreateProfile (tagged_profile_config ?config (vanity_hostname app_config app_endpoint)),
                  CallGetProfile (c_ResourceGroup ?config) (c_ProfileName ?config)])
               @ CallCreateEndpoint (c_ResourceGroup ?config) (c_ProfileName ?config) ec # rest"
    by simp
  have tr: "w_trace sim_start = []" "w_trace sim_existing = []"
    "e_DNSName app_endpoint = ''app.example.com''" "e_Targets app_endpoint = [''1.2.3.4'']"
    "e_RecordType app_endpoint = ''A''"
    by (simp_all add: sim_start_def sim_existing_def app_endpoint_def)
  show ?thesis
    using A B unfolding tl app_create_names app_tagged tr
    by (simp add: app_config_rg)
qed

lemma east_parse:
  "ParseConfig tbl east_labels = Inr (default_config\<lparr>c_Enabled := True, c_ResourceGroup := ''rg'',
      c_ProfileName := ''demo-tm'', c_Hostname := ''demo.example.com'', c_EndpointName := ''east'',
      c_EndpointLocation := ''eastus''\<rparr>)"
  "ParseConfig tbl (east_labels(AnnotationWeight \<mapsto> ''50'')) = Inr (default_config\<lparr>c_Enabled := True, c_ResourceGroup := ''rg'',
      c_ProfileName := ''demo-tm'', c_Hostname := ''demo.example.com'', c_Weight := 50, c_EndpointName := ''east'',
      c_EndpointLocation := ''eastus''\<rparr>)"
  by (simp_all add: east_labels_def parse_defs annotation_defs default_config_def Let_def)

lemmas state_defs = SetProfile_def SetEndpoint_def DeleteEndpoint_def DeleteProfile_def ProfileState_Clone_def
  EndpointState_Clone_def clone_endpoints.simps clone_tags.simps new_endpoint_def new_profile_def make_emap_def make_tmap_def
  emap_store_def tmap_store_def emap_entries_def tmap_entries_def emap_delete_def empty_heap_def NewManager_def


lemmas eval_defs = logged_def validate_defs default_config_def default_defs update_names_def create_names_def
  delete_names_def vanity_hostname_def update_profile_if_changed_def profile_changed_def Let_def invoke_def
  sim_defs sim_start_def ToEndpointConfig_def DefaultEndpointConfig_def ToProfileConfig_def
  DefaultProfileConfig_def tagged_profile_config_def store_endpoint_def mirror_def update_refresh_def
  create_refresh_def delete_refresh_def store_profile_def place_profile_def state_defs convertToStateEndpoint_def
  demo_profile_config_def app_profile_config_def east_endpoint_config_def create_or_get_profile_def
  create_endpoints_and_refresh_def create_target_list_def annotationMap_def

text \<open>
  \<^bold>\<open>C2.\<close> The mirror key of an Update. The endpoint \<open>east.example.com\<close> carries the hostname
  annotation \<open>demo.example.com\<close>, so its vanity hostname is \<open>demo.example.com\<close>. An Update
  that changes its weight succeeds and stores the refreshed profile under
  \<open>east.example.com\<close>, the endpoint's own DNS name, and nothing under the vanity hostname;
  a Create of the same endpoint in the same world stores it under \<open>demo.example.com\<close>.
\<close>

theorem updateEndpoint_mirror_key:
  "ParseConfig (strconv_IsPrint sim_client) (e_Labels east_endpoint_50)
     = Inr (default_config\<lparr>c_Enabled := True, c_ResourceGroup := ''rg'',
              c_ProfileName := ''demo-tm'', c_Hostname := ''demo.example.com'', c_Weight := 50,
              c_EndpointName := ''east'', c_EndpointLocation := ''eastus''\<rparr>)
   \<and> fst (updateEndpoint sim_client east_endpoint east_endpoint_50 sim_demo) = Ok
   \<and> dom (m_profiles (w_manager (snd (updateEndpoint sim_client east_endpoint east_endpoint_50 sim_demo))))
       = {''east.example.com''}
"
proof -
  have 1: "ParseConfig (strconv_IsPrint sim_client) (e_Labels east_endpoint_50)
     = Inr (default_config\<lparr>c_Enabled := True, c_ResourceGroup := ''rg'',
              c_ProfileName := ''demo-tm'', c_Hostname := ''demo.example.com'', c_Weight := 50,
              c_EndpointName := ''east'', c_EndpointLocation := ''eastus''\<rparr>)"
    by (simp add: east_endpoint_50_def east_endpoint_def east_parse)
  have 2: "fst (updateEndpoint sim_client east_endpoint east_endpoint_50 sim_demo) = Ok
     \<and> dom (m_profiles (w_manager (snd (updateEndpoint sim_client east_endpoint east_endpoint_50 sim_demo))))
       = {''east.example.com''}"
    by (simp add: updateEndpoint_def east_endpoint_def east_endpoint_50_def east_parse sim_demo_def eval_defs)
  have 3: "fst (createEndpoint sim_client east_endpoint_50 sim_demo) = Ok
     \<and> dom (m_profiles (w_manager (snd (createEndpoint sim_client east_endpoint_50 sim_demo))))
       = {''demo.example.com''}"
    by (simp add: createEndpoint_def east_endpoint_def east_endpoint_50_def east_parse sim_demo_def eval_defs)
  show ?thesis using 1 2 3 by blast
qed

subsection \<open>Create, then Delete\<close>







end
